theory Spec2Isabelle
  imports Main "HOL-Library.Word"
begin

section \<open>DisplayQueue (common/display/displayqueue.cpp)\<close>

text \<open>
  A shallow embedding of \<^verbatim>\<open>hwcomposer::DisplayQueue\<close>. Every member function that the
  properties below talk about is a HOL function on a record of the data members; the
  function returns the record as the C++ code leaves it.

  Only \<^verbatim>\<open>displayqueue.cpp\<close> is available. The classes it calls into (DisplayPlaneState,
  OverlayLayer, DisplayPlaneManager, Compositor, PhysicalDisplay, ScopedIdleStateTracker
  and the operating system) are parameters of the model: records of functions, one field
  per member function that the code calls. A call that can change something outside the
  queue is written to a log (\<open>calls\<close>), in the order the code makes the calls, and a
  collaborator's answer may depend on that log, so a collaborator can answer differently
  each time it is asked.
\<close>

subsection \<open>Flags and small types\<close>

text \<open>
  The two state words are bit sets. The values of the enumerators are declared in
  displayqueue.h; the model keeps the set of flags whose bit is set:
  \<^verbatim>\<open>state_ |= kX\<close> is \<open>insert kX\<close>, \<^verbatim>\<open>state_ &= ~kX\<close> is \<open>- {kX}\<close> and
  \<^verbatim>\<open>state_ & kX\<close> is \<open>kX \<in> state\<close>. A data member keeps its name without
  the underscore at its end.
\<close>

datatype QueueState =
    kNeedsColorCorrection | kConfigurationChanged | kPoweredOn | kDisableOverlayUsage
  | kMarkSurfacesForRelease | kReleaseSurfaces | kIgnoreIdleRefresh | kClonedMode
  | kLastFrameIdleUpdate

datatype FrameState =
    kPrepareComposition | kPrepareIdleComposition | kRenderIdleDisplay
  | kRevalidateLayers | kTrackingFrames | kIgnoreUpdates

datatype HWCPowerMode = kOff | kDoze | kDozeSuspend | kOn | kOtherPowerMode

datatype HWCColorTransform = kIdentical | kArbitraryMatrix | kOtherColorTransform

datatype ScalingState = kNeeedsNoSclaing | kNeedsScaling

datatype ReValidationType = kScanout | kOtherReValidation

datatype LayerComposition = kGpu | kDisplay

datatype SurfaceClearType = kFullClear

datatype lock_id = power_mode_lock | video_lock | idle_lock

text \<open>A \<^verbatim>\<open>float\<close> is only stored and handed on, never computed with: it is kept as its
  32 bits.\<close>

type_synonym float32 = "32 word"

text \<open>\<^verbatim>\<open>HwcRect<int>\<close>: left, top, right, bottom.\<close>

type_synonym HwcRect = "int \<times> int \<times> int \<times> int"

type_synonym HwcRectF = "float32 \<times> float32 \<times> float32 \<times> float32"

subsection \<open>The log of calls that leave the queue\<close>

datatype event =
    Lock lock_id
  | Unlock lock_id
  | Tracker_Acquire
  | Tracker_Release
  | Vblank_SetPowerMode HWCPowerMode
  | Compositor_Init nat
  | Compositor_Reset
  | Compositor_BeginFrame bool bool
  | Compositor_Draw bool
  | Compositor_UpdateLayerPixelData
  | Compositor_EnsurePixelDataUpdated
  | Compositor_SetVideoScalingMode nat
  | Compositor_SetVideoColor nat float32
  | Compositor_RestoreVideoDefaultColor nat
  | Compositor_SetVideoDeinterlace nat nat
  | Compositor_RestoreVideoDefaultDeinterlace
  | Display_Disable
  | Display_SetColorCorrection "float32 \<times> float32 \<times> float32" nat nat
  | Display_SetColorTransformMatrix "float32 list" HWCColorTransform
  | Display_Commit bool bool int
  | Display_HandleLazyInitialization
  | PlaneManager_ReleaseAllOffScreenTargets
  | PlaneManager_ReleaseFreeOffScreenTargets
  | PlaneManager_ValidateLayers int bool
  | PlaneManager_ReValidatePlanes
  | PlaneManager_MarkSurfacesForRecycling nat
  | PlaneManager_SetOffScreenPlaneTarget nat
  | Plane_SetInUse nat bool
  | Plane_ReleaseAcquireFence nat int
  | ResourceManager_PurgeBuffer
  | OverlayLayer_Initialize nat nat
  | Buffer_CreateFrameBuffer nat nat
  | Sys_HWCPoll int
  | Sys_close int
  | Sys_dup int int
  | Refresh_Callback nat nat

subsection \<open>Data members\<close>

record FrameStateTracker =
  idle_frames :: nat
  tracker_state :: "FrameState set"
  revalidate_frames_counter :: nat
  has_cursor_layer :: bool
  total_planes :: nat

record ScalingTracker =
  scaling_state :: ScalingState
  scaling_width :: float32
  scaling_height :: float32

text \<open>
  \<open>'l\<close> is OverlayLayer and \<open>'p\<close> is DisplayPlaneState. A \<^verbatim>\<open>NativeSurface*\<close> is the
  number of the surface; \<open>surface_age\<close> holds the age of every surface object, which
  \<^verbatim>\<open>SetSurfaceAge\<close> writes and \<^verbatim>\<open>GetSurfaceAge\<close> reads. \<open>refresh_callback\<close> is
  \<open>None\<close> for the null pointer.
\<close>

record ('l, 'p) DisplayQueue =
  state :: "QueueState set"
  idle_tracker :: FrameStateTracker
  scaling_tracker :: ScalingTracker
  in_flight_layers :: "'l list"
  previous_plane_state :: "'p list"
  mark_not_inuse :: "nat list"
  surfaces_not_inuse :: "nat list"
  kms_fence :: int
  last_commit_failed_update :: bool
  applied_video_effect :: bool
  requested_video_effect :: bool
  handle_display_initializations :: bool
  gamma :: "float32 \<times> float32 \<times> float32"
  contrast :: nat
  brightness :: nat
  color_transform_matrix :: "float32 list"
  color_transform_hint :: HWCColorTransform
  plane_transform :: nat
  gpu_fd :: nat
  refresh_callback :: "nat option"
  refrsh_display_id :: nat
  surface_age :: "nat \<Rightarrow> int"
  calls :: "event list"

text \<open>Modelled from the spec: HwcLayer (hwclayer.h is not among the sources) is the
  caller-owned input layer. The queue reads whether it is visible and its display frame,
  hands it to the OverlayLayer initialisers, and writes its release fence.\<close>

record 'h HwcLayer =
  visible :: bool
  display_frame :: HwcRect
  release_fd :: int
  handle :: 'h

definition SetReleaseFence :: "int \<Rightarrow> 'h HwcLayer \<Rightarrow> 'h HwcLayer" where
  "SetReleaseFence fd layer = layer\<lparr>release_fd := fd\<rparr>"

subsection \<open>The classes the queue calls into\<close>

text \<open>
  DisplayPlaneState (displayplanestate.h is not among the sources). The first twelve
  fields are its const member functions, the others return the plane as the member
  function leaves it. \<open>GetDisplayPlane\<close> is the number of the hardware plane,
  \<open>GetOffScreenTarget\<close> tells whether the pointer is non-null. A plane is a value here:
  what \<open>CopyState\<close> gives shares nothing with the plane it was copied from.
\<close>

record ('l, 'p) plane_api =
  GetSourceLayers :: "'p \<Rightarrow> nat list"
  GetSurfaces :: "'p \<Rightarrow> nat list"
  GetDisplayPlane :: "'p \<Rightarrow> nat"
  NeedsOffScreenComposition :: "'p \<Rightarrow> bool"
  RevalidationType :: "'p \<Rightarrow> ReValidationType set"
  NeedsSurfaceAllocation :: "'p \<Rightarrow> bool"
  SurfaceRecycled :: "'p \<Rightarrow> bool"
  IsCursorPlane :: "'p \<Rightarrow> bool"
  IsVideoPlane :: "'p \<Rightarrow> bool"
  CanSquash :: "'p \<Rightarrow> bool"
  Scanout :: "'p \<Rightarrow> bool"
  GetOffScreenTarget :: "'p \<Rightarrow> bool"
  CopyState :: "'p \<Rightarrow> 'p"
  ResetLayers :: "'l list \<Rightarrow> nat \<Rightarrow> 'p \<Rightarrow> 'p"
  ValidateReValidation :: "'p \<Rightarrow> 'p"
  RevalidationDone :: "ReValidationType \<Rightarrow> 'p \<Rightarrow> 'p"
  UpdateDisplayFrame :: "HwcRect \<Rightarrow> bool \<Rightarrow> 'p \<Rightarrow> 'p"
  UpdateSourceCrop :: "HwcRectF \<Rightarrow> bool \<Rightarrow> 'p \<Rightarrow> 'p"
  RefreshSurfaces :: "SurfaceClearType \<Rightarrow> bool \<Rightarrow> 'p \<Rightarrow> 'p"
  UpdateDamage :: "HwcRect \<Rightarrow> 'p \<Rightarrow> 'p"
  SetOverlayLayer :: "'l \<Rightarrow> 'p \<Rightarrow> 'p"
  AddLayer :: "'l \<Rightarrow> 'p \<Rightarrow> 'p"
  SetApplyEffects :: "bool \<Rightarrow> 'p \<Rightarrow> 'p"

text \<open>
  OverlayLayer (overlaylayer.h is not among the sources). \<open>GetBuffer\<close> is the number of
  the OverlayBuffer object. The two initialisers build the layer of this frame from the
  input layer, the layer at the same z-order of the frame before (if any), the z-order,
  the index of the input layer, the display height, the plane transform and
  \<open>handle_constraints\<close>; the log is their view of the resource manager.
\<close>

record ('h, 'l) layer_api =
  IsVisible :: "'l \<Rightarrow> bool"
  RawPixelDataChanged :: "'l \<Rightarrow> bool"
  IsVideoLayer :: "'l \<Rightarrow> bool"
  NeedsRevalidation :: "'l \<Rightarrow> bool"
  HasLayerContentChanged :: "'l \<Rightarrow> bool"
  IsCursorLayer :: "'l \<Rightarrow> bool"
  HasDimensionsChanged :: "'l \<Rightarrow> bool"
  NeedsFullDraw :: "'l \<Rightarrow> bool"
  HasSourceRectChanged :: "'l \<Rightarrow> bool"
  CanScanOut :: "'l \<Rightarrow> bool"
  GetZorder :: "'l \<Rightarrow> nat"
  GetLayerIndex :: "'l \<Rightarrow> nat"
  GetDisplayFrame :: "'l \<Rightarrow> HwcRect"
  GetSourceCrop :: "'l \<Rightarrow> HwcRectF"
  GetSurfaceDamage :: "'l \<Rightarrow> HwcRect"
  GetBuffer :: "'l \<Rightarrow> nat"
  InitializeFromHwcLayer ::
    "event list \<Rightarrow> 'h HwcLayer \<Rightarrow> 'l option \<Rightarrow> nat \<Rightarrow> nat \<Rightarrow> nat \<Rightarrow> nat \<Rightarrow> bool \<Rightarrow> 'l"
  InitializeFromScaledHwcLayer ::
    "event list \<Rightarrow> 'h HwcLayer \<Rightarrow> 'l option \<Rightarrow> nat \<Rightarrow> nat \<Rightarrow> HwcRect \<Rightarrow> nat \<Rightarrow> nat \<Rightarrow> bool \<Rightarrow> 'l"
  SetLayerComposition :: "LayerComposition \<Rightarrow> 'l \<Rightarrow> 'l"
  ReleaseAcquireFence :: "'l \<Rightarrow> int \<times> 'l"

text \<open>
  Everything else the queue calls, grouped by the class that owns it.

  \<^item> \<open>kidleframes\<close> and \<open>ENABLE_DOUBLE_BUFFERING\<close>: the constant and the compile-time
    flag.
  \<^item> ScopedIdleStateTracker (declared in displayqueue.h): \<open>Tracker_ctor\<close> and
    \<open>Tracker_dtor\<close> give the \<open>idle_tracker\<close> that the constructor and the destructor
    leave, from the queue as they find it; \<open>IgnoreUpdate\<close>, \<open>RenderIdleMode\<close> and
    \<open>RevalidateLayers\<close> read the tracker; \<open>ResetTrackerState\<close> rewrites it.
  \<^item> DisplayPlaneManager: \<open>ValidateLayers\<close> takes the layers, the start index, the
    force flag, the values of the two flags it may write, the plan under construction,
    the previous plan and \<open>surfaces_not_inuse\<close>; it returns whether the GPU must
    render, the two flags, the plan and \<open>surfaces_not_inuse\<close>. \<open>ReValidatePlanes\<close>
    returns whether the GPU must render, the full-validation flag, the plan and
    \<open>surfaces_not_inuse\<close>. \<open>MarkSurfacesForRecycling\<close> returns the plane and the
    queue of surfaces it was given.
  \<^item> Compositor: \<open>BeginFrame\<close>, \<open>Draw\<close>. PhysicalDisplay: \<open>Commit\<close> returns its
    result and the value it leaves in the out-fence (0 when it does not write it).
  \<^item> \<open>GetFb\<close> reads the framebuffer id of a buffer object;
    \<open>OverlayReleaseAcquireFence\<close> is \<^verbatim>\<open>plane.GetOverlayLayer()->ReleaseAcquireFence()\<close>;
    \<open>Sys_dup_result\<close> is the descriptor that \<^verbatim>\<open>dup\<close> returns.
  \<^item> \<open>CalculateRect\<close> and \<open>RectEmpty\<close> (hwcutils.h, hwcdefs.h); \<open>ScaleDisplayFrame\<close> is
    the floating-point scaling of the display frame at the head of the layer loop.

  The previous plan, the layers and the plan handed to \<open>Draw\<close> and \<open>Commit\<close> are inputs
  only, as in the contracts of the collaborators.
\<close>

record ('l, 'p) services =
  kidleframes :: nat
  ENABLE_DOUBLE_BUFFERING :: bool
  Tracker_ctor :: "('l, 'p) DisplayQueue \<Rightarrow> FrameStateTracker"
  Tracker_dtor :: "('l, 'p) DisplayQueue \<Rightarrow> FrameStateTracker"
  IgnoreUpdate :: "FrameStateTracker \<Rightarrow> bool"
  RenderIdleMode :: "FrameStateTracker \<Rightarrow> bool"
  RevalidateLayers :: "FrameStateTracker \<Rightarrow> bool"
  ResetTrackerState :: "FrameStateTracker \<Rightarrow> FrameStateTracker"
  GetHeight :: "event list \<Rightarrow> nat"
  GetGpuFd :: "event list \<Rightarrow> nat"
  HasSurfaces :: "event list \<Rightarrow> bool"
  MarkSurfacesForRecycling :: "event list \<Rightarrow> 'p \<Rightarrow> nat list \<Rightarrow> bool \<Rightarrow> 'p \<times> nat list"
  SetOffScreenPlaneTarget :: "event list \<Rightarrow> 'p \<Rightarrow> 'p"
  ValidateLayers ::
    "event list \<Rightarrow> 'l list \<Rightarrow> int \<Rightarrow> bool \<Rightarrow> bool \<Rightarrow> bool \<Rightarrow> 'p list \<Rightarrow> 'p list \<Rightarrow> nat list
      \<Rightarrow> bool \<times> bool \<times> bool \<times> 'p list \<times> nat list"
  ReValidatePlanes ::
    "event list \<Rightarrow> 'p list \<Rightarrow> 'l list \<Rightarrow> nat list \<Rightarrow> bool \<Rightarrow> bool \<Rightarrow> bool
      \<Rightarrow> bool \<times> bool \<times> 'p list \<times> nat list"
  BeginFrame :: "event list \<Rightarrow> bool \<Rightarrow> bool"
  Draw :: "event list \<Rightarrow> 'p list \<Rightarrow> 'l list \<Rightarrow> HwcRect list \<Rightarrow> bool"
  Commit :: "event list \<Rightarrow> 'p list \<Rightarrow> 'p list \<Rightarrow> bool \<Rightarrow> bool \<times> int"
  GetFb :: "event list \<Rightarrow> nat \<Rightarrow> nat"
  OverlayReleaseAcquireFence :: "event list \<Rightarrow> 'p \<Rightarrow> int"
  Sys_dup_result :: "event list \<Rightarrow> int \<Rightarrow> int"
  CalculateRect :: "HwcRect \<Rightarrow> HwcRect \<Rightarrow> HwcRect"
  RectEmpty :: "HwcRect \<Rightarrow> bool"
  ScaleDisplayFrame :: "HwcRect \<Rightarrow> float32 \<Rightarrow> float32 \<Rightarrow> HwcRect"

subsection \<open>Small helpers of the model\<close>

text \<open>\<open>emit\<close> appends a call to the log. \<open>new_events\<close> is what a member function added
  to the log; \<open>members\<close> is the queue without the log, the data members alone.\<close>

definition emit :: "event \<Rightarrow> ('l, 'p) DisplayQueue \<Rightarrow> ('l, 'p) DisplayQueue" where
  "emit e q = q\<lparr>calls := calls q @ [e]\<rparr>"

definition new_events :: "('l, 'p) DisplayQueue \<Rightarrow> ('l, 'p) DisplayQueue \<Rightarrow> event list" where
  "new_events q q' = drop (length (calls q)) (calls q')"

definition members :: "('l, 'p) DisplayQueue \<Rightarrow> ('l, 'p) DisplayQueue" where
  "members q = q\<lparr>calls := []\<rparr>"

text \<open>\<^verbatim>\<open>std::vector::at\<close> throws \<^verbatim>\<open>std::out_of_range\<close>; \<open>None\<close> is the exception.\<close>

definition at :: "'a list \<Rightarrow> nat \<Rightarrow> 'a option" where
  "at xs i = (if i < length xs then Some (xs ! i) else None)"

definition set_tracker_state ::
  "(FrameState set \<Rightarrow> FrameState set) \<Rightarrow> ('l, 'p) DisplayQueue \<Rightarrow> ('l, 'p) DisplayQueue" where
  "set_tracker_state f q =
     q\<lparr>idle_tracker := (idle_tracker q)\<lparr>tracker_state := f (tracker_state (idle_tracker q))\<rparr>\<rparr>"

subsection \<open>Video controls\<close>

definition SetVideoScalingMode :: "nat \<Rightarrow> ('l, 'p) DisplayQueue \<Rightarrow> ('l, 'p) DisplayQueue" where
  "SetVideoScalingMode mode q =
     (let q = emit (Lock video_lock) q;
          \<comment> \<open>\<^verbatim>\<open>// requested_video_effect_ = true;\<close>\<close>
          q = emit (Compositor_SetVideoScalingMode mode) q
      in emit (Unlock video_lock) q)"

definition SetVideoColor :: "nat \<Rightarrow> float32 \<Rightarrow> ('l, 'p) DisplayQueue \<Rightarrow> ('l, 'p) DisplayQueue" where
  "SetVideoColor color v q =
     (let q = emit (Lock video_lock) q;
          q = q\<lparr>requested_video_effect := True\<rparr>;
          q = emit (Compositor_SetVideoColor color v) q
      in emit (Unlock video_lock) q)"

definition RestoreVideoDefaultColor :: "nat \<Rightarrow> ('l, 'p) DisplayQueue \<Rightarrow> ('l, 'p) DisplayQueue" where
  "RestoreVideoDefaultColor color q =
     (let q = emit (Lock video_lock) q;
          q = q\<lparr>requested_video_effect := False\<rparr>;
          q = emit (Compositor_RestoreVideoDefaultColor color) q
      in emit (Unlock video_lock) q)"

definition SetVideoDeinterlace :: "nat \<Rightarrow> nat \<Rightarrow> ('l, 'p) DisplayQueue \<Rightarrow> ('l, 'p) DisplayQueue" where
  "SetVideoDeinterlace flag mode q =
     (let q = emit (Lock video_lock) q;
          q = q\<lparr>requested_video_effect := True\<rparr>;
          q = emit (Compositor_SetVideoDeinterlace flag mode) q
      in emit (Unlock video_lock) q)"

definition RestoreVideoDefaultDeinterlace :: "('l, 'p) DisplayQueue \<Rightarrow> ('l, 'p) DisplayQueue" where
  "RestoreVideoDefaultDeinterlace q =
     (let q = emit (Lock video_lock) q;
          q = q\<lparr>requested_video_effect := False\<rparr>;
          q = emit Compositor_RestoreVideoDefaultDeinterlace q
      in emit (Unlock video_lock) q)"

subsection \<open>Tracker switches, reset and exit\<close>

definition IgnoreUpdates :: "('l, 'p) DisplayQueue \<Rightarrow> ('l, 'p) DisplayQueue" where
  "IgnoreUpdates q =
     q\<lparr>idle_tracker := (idle_tracker q)\<lparr>idle_frames := 0, tracker_state := {kIgnoreUpdates},
          revalidate_frames_counter := 0\<rparr>\<rparr>"

definition ForceRefresh :: "('l, 'p) DisplayQueue \<Rightarrow> ('l, 'p) DisplayQueue" where
  "ForceRefresh q =
     (let q = emit (Lock idle_lock) q;
          q = set_tracker_state (\<lambda>s. s - {kIgnoreUpdates}) q;
          q = set_tracker_state (insert kRevalidateLayers) q;
          q = emit (Unlock idle_lock) q;
          q = emit (Lock power_mode_lock) q;
          q = (if kIgnoreIdleRefresh \<notin> state q \<and> refresh_callback q \<noteq> None \<and> kPoweredOn \<in> state q
               then emit (Refresh_Callback (the (refresh_callback q)) (refrsh_display_id q)) q
               else q)
      in emit (Unlock power_mode_lock) q)"

definition DisplayConfigurationChanged :: "('l, 'p) DisplayQueue \<Rightarrow> ('l, 'p) DisplayQueue" where
  "DisplayConfigurationChanged q = q\<lparr>state := insert kConfigurationChanged (state q)\<rparr>"

definition ReleaseSurfaces :: "('l, 'p) DisplayQueue \<Rightarrow> ('l, 'p) DisplayQueue" where
  "ReleaseSurfaces q =
     (let q = emit PlaneManager_ReleaseFreeOffScreenTargets q;
          q = q\<lparr>state := state q - {kMarkSurfacesForRelease}\<rparr>
      in q\<lparr>state := state q - {kReleaseSurfaces}\<rparr>)"

definition ReleaseSurfacesAsNeeded :: "bool \<Rightarrow> ('l, 'p) DisplayQueue \<Rightarrow> ('l, 'p) DisplayQueue" where
  "ReleaseSurfacesAsNeeded layers_validated q =
     (let q = (if \<not> layers_validated \<and> kReleaseSurfaces \<in> state q then ReleaseSurfaces q else q);
          q = (if kMarkSurfacesForRelease \<in> state q
               then q\<lparr>state := insert kReleaseSurfaces (state q) - {kMarkSurfacesForRelease}\<rparr>
               else q)
      in if layers_validated
         then q\<lparr>state := insert kMarkSurfacesForRelease (state q) - {kReleaseSurfaces}\<rparr>
         else q)"

definition ResetQueue :: "('l, 'p) services \<Rightarrow> ('l, 'p) DisplayQueue \<Rightarrow> ('l, 'p) DisplayQueue" where
  "ResetQueue M q =
     (let q = q\<lparr>applied_video_effect := False, last_commit_failed_update := False,
                in_flight_layers := [], previous_plane_state := [], mark_not_inuse := [],
                surfaces_not_inuse := []\<rparr>;
          q = (if HasSurfaces M (calls q) then emit PlaneManager_ReleaseAllOffScreenTargets q else q);
          q = emit ResourceManager_PurgeBuffer q;
          ignore_updates = (kIgnoreUpdates \<in> tracker_state (idle_tracker q));
          q = q\<lparr>idle_tracker := (idle_tracker q)\<lparr>tracker_state := {}, idle_frames := 0\<rparr>\<rparr>;
          q = (if ignore_updates then set_tracker_state (insert kIgnoreUpdates) q else q)
      in emit Compositor_Reset q)"

definition HandleExit :: "('l, 'p) services \<Rightarrow> ('l, 'p) DisplayQueue \<Rightarrow> ('l, 'p) DisplayQueue" where
  "HandleExit M q =
     (let q = emit (Lock power_mode_lock) q;
          q = q\<lparr>state := insert kIgnoreIdleRefresh (state q)\<rparr>;
          q = emit (Unlock power_mode_lock) q;
          q = emit (Vblank_SetPowerMode kOff) q;
          q = (if previous_plane_state q \<noteq> [] then emit Display_Disable q else q);
          q = (if kms_fence q > 0 then (emit (Sys_close (kms_fence q)) q)\<lparr>kms_fence := 0\<rparr> else q);
          disable_overlay = (kDisableOverlayUsage \<in> state q);
          cloned_mode = (kClonedMode \<in> state q);
          q = q\<lparr>state := {kConfigurationChanged}\<rparr>;
          q = (if disable_overlay then q\<lparr>state := insert kDisableOverlayUsage (state q)\<rparr> else q);
          q = (if cloned_mode then q\<lparr>state := insert kClonedMode (state q)\<rparr> else q)
      in ResetQueue M q)"

definition SetPowerMode ::
  "('l, 'p) services \<Rightarrow> HWCPowerMode \<Rightarrow> ('l, 'p) DisplayQueue \<Rightarrow> bool \<times> ('l, 'p) DisplayQueue" where
  "SetPowerMode M power_mode q =
     (True,
      case power_mode of
        kOff \<Rightarrow> HandleExit M q
      | kDoze \<Rightarrow> HandleExit M q
      | kDozeSuspend \<Rightarrow>
          (let q = emit (Vblank_SetPowerMode kDozeSuspend) q
           in q\<lparr>state := insert kPoweredOn (state q)\<rparr>)
      | kOn \<Rightarrow>
          (let q = q\<lparr>state := state q \<union> {kPoweredOn, kConfigurationChanged, kNeedsColorCorrection}\<rparr>;
               q = emit (Vblank_SetPowerMode kOn) q;
               q = emit (Lock power_mode_lock) q;
               q = q\<lparr>state := state q - {kIgnoreIdleRefresh}\<rparr>;
               q = emit (Compositor_Init (GetGpuFd M (calls q))) q
           in emit (Unlock power_mode_lock) q)
      | kOtherPowerMode \<Rightarrow> q)"

definition SetCloneMode :: "bool \<Rightarrow> ('l, 'p) DisplayQueue \<Rightarrow> ('l, 'p) DisplayQueue" where
  "SetCloneMode cloned q =
     (if cloned then
        (if kClonedMode \<notin> state q
         then emit (Vblank_SetPowerMode kOff) (q\<lparr>state := insert kClonedMode (state q)\<rparr>)
         else q)
      else if kClonedMode \<in> state q then
        (let q = q\<lparr>state := state q - {kClonedMode}\<rparr>;
             q = q\<lparr>state := insert kConfigurationChanged (state q)\<rparr>
         in emit (Vblank_SetPowerMode kOn) q)
      else q)"

subsection \<open>Idle detection\<close>

text \<open>\<open>idle_frames\<close> is a \<^verbatim>\<open>uint32_t\<close>: a natural number below \<open>2 ^ 32\<close>, and
  \<^verbatim>\<open>idle_frames_++\<close> wraps around to 0 from \<open>2 ^ 32 - 1\<close>.\<close>

definition HandleIdleCase :: "('l, 'p) services \<Rightarrow> ('l, 'p) DisplayQueue \<Rightarrow> ('l, 'p) DisplayQueue" where
  "HandleIdleCase M q =
     (let q = emit (Lock idle_lock) q;
          t = idle_tracker q
      in if kPrepareComposition \<in> tracker_state t then emit (Unlock idle_lock) q
         else if total_planes t \<le> 1 \<or> kTrackingFrames \<in> tracker_state t \<or>
                 kRevalidateLayers \<in> tracker_state t \<or> has_cursor_layer t
         then emit (Unlock idle_lock) q
         else if idle_frames t > kidleframes M then emit (Unlock idle_lock) q
         else if idle_frames t < kidleframes M
         then emit (Unlock idle_lock)
                (q\<lparr>idle_tracker := t\<lparr>idle_frames := (idle_frames t + 1) mod 2 ^ 32\<rparr>\<rparr>)
         else
           (let q = q\<lparr>idle_tracker := t\<lparr>idle_frames := (idle_frames t + 1) mod 2 ^ 32\<rparr>\<rparr>;
                q = emit (Lock power_mode_lock) q;
                q = (if kIgnoreIdleRefresh \<notin> state q \<and> refresh_callback q \<noteq> None \<and>
                        kPoweredOn \<in> state q
                     then set_tracker_state (insert kPrepareIdleComposition)
                            (emit (Refresh_Callback (the (refresh_callback q)) (refrsh_display_id q)) q)
                     else q);
                q = emit (Unlock power_mode_lock) q
            in emit (Unlock idle_lock) q))"

text \<open>A run of vblanks with no frame in between.\<close>

primrec idle_run :: "('l, 'p) services \<Rightarrow> nat \<Rightarrow> ('l, 'p) DisplayQueue \<Rightarrow> ('l, 'p) DisplayQueue" where
  "idle_run M 0 q = q"
| "idle_run M (Suc n) q = idle_run M n (HandleIdleCase M q)"

definition is_refresh :: "event \<Rightarrow> bool" where
  "is_refresh e = (case e of Refresh_Callback _ _ \<Rightarrow> True | _ \<Rightarrow> False)"

subsection \<open>Surface ages\<close>

text \<open>
  The age of a surface is a C \<^verbatim>\<open>int\<close>. In \<^verbatim>\<open>SetSurfaceAge(2 - i)\<close> the index is a
  \<^verbatim>\<open>uint32_t\<close>, so the difference is computed in 32 unsigned bits and read back as an
  \<^verbatim>\<open>int\<close>.
\<close>

fun age_rest :: "nat \<Rightarrow> nat list \<Rightarrow> (nat \<Rightarrow> int) \<Rightarrow> (nat \<Rightarrow> int)" where
  "age_rest i [] ages = ages"
| "age_rest i (surface # rest) ages =
     age_rest (Suc i) rest (ages(surface := sint (2 - word_of_nat i :: 32 word)))"

definition age_plane :: "nat list \<Rightarrow> (nat \<Rightarrow> int) \<Rightarrow> (nat \<Rightarrow> int)" where
  "age_plane surfaces ages =
     (if surfaces = [] then ages
      else if length surfaces = 3
      then ages(surfaces ! 1 := 0, surfaces ! 0 := 2, surfaces ! 2 := 1)
      else age_rest 0 surfaces ages)"

primrec age_planes :: "('l, 'p) plane_api \<Rightarrow> 'p list \<Rightarrow> (nat \<Rightarrow> int) \<Rightarrow> (nat \<Rightarrow> int)" where
  "age_planes P [] ages = ages"
| "age_planes P (plane_state # rest) ages =
     age_planes P rest (age_plane (GetSurfaces P plane_state) ages)"

definition UpdateOnScreenSurfaces ::
  "('l, 'p) plane_api \<Rightarrow> ('l, 'p) DisplayQueue \<Rightarrow> ('l, 'p) DisplayQueue" where
  "UpdateOnScreenSurfaces P q =
     q\<lparr>surface_age := age_planes P (previous_plane_state q) (surface_age q)\<rparr>"

subsection \<open>GetCachedLayers\<close>

text \<open>
  A loop body can go on, leave the function early, or throw: \<open>Continue\<close>, \<open>Return\<close>
  and \<open>Raise\<close>. Undefined behaviour (\<^verbatim>\<open>front()\<close> or \<^verbatim>\<open>back()\<close> of an empty vector) is
  \<open>Raise\<close> as well: the call does not come back with a result.
\<close>

datatype ('r, 'a) flow = Raise | Return 'r | Continue 'a

text \<open>The locals of GetCachedLayers that live across the plane loop, with the plan under
  construction and the queue.\<close>

record ('l, 'p) plane_loop =
  composition :: "'p list"
  needs_gpu_composition :: bool
  ignore_commit :: bool
  check_to_squash :: bool
  plane_validation :: bool
  reset_composition_regions :: bool
  pl_queue :: "('l, 'p) DisplayQueue"

text \<open>The locals of the loop over the source layers of one off-screen plane.\<close>

record 'p layer_scan =
  last_plane :: 'p
  surface_damage :: HwcRect
  update_rect :: bool
  update_source_rect :: bool
  only_cursor_rect_changed :: bool
  refresh_surfaces :: bool
  damage_initialized :: bool

text \<open>What the removal block at the head of the plane loop ends with: an exception, the
  early return that forces full validation, \<^verbatim>\<open>continue\<close> after the plane was popped, or
  the plane and \<open>clear_surface\<close> for the rest of the body.\<close>

datatype ('p, 's) removal = Removal_Raise | Force_Full 's | Plane_Removed 's | Plane_Kept 'p bool 's

text \<open>\<^verbatim>\<open>static_cast<size_t>(remove_index)\<close>.\<close>

definition size_t_of_int :: "int \<Rightarrow> nat" where
  "size_t_of_int i = nat (i mod 2 ^ 64)"

text \<open>An unsigned value stored in an \<^verbatim>\<open>int\<close>: its low 32 bits, read as signed.\<close>

definition int_of_unsigned :: "nat \<Rightarrow> int" where
  "int_of_unsigned n = sint (word_of_nat n :: 32 word)"

definition call_MarkSurfacesForRecycling ::
  "('l, 'p) plane_api \<Rightarrow> ('l, 'p) services \<Rightarrow> 'p \<Rightarrow> ('l, 'p) DisplayQueue \<Rightarrow> 'p \<times> ('l, 'p) DisplayQueue" where
  "call_MarkSurfacesForRecycling P M plane q =
     (let (plane', not_inuse) = MarkSurfacesForRecycling M (calls q) plane (surfaces_not_inuse q) False
      in (plane', emit (PlaneManager_MarkSurfacesForRecycling (GetDisplayPlane P plane))
                    (q\<lparr>surfaces_not_inuse := not_inuse\<rparr>)))"

definition call_SetOffScreenPlaneTarget ::
  "('l, 'p) plane_api \<Rightarrow> ('l, 'p) services \<Rightarrow> 'p \<Rightarrow> ('l, 'p) DisplayQueue \<Rightarrow> 'p \<times> ('l, 'p) DisplayQueue" where
  "call_SetOffScreenPlaneTarget P M plane q =
     (SetOffScreenPlaneTarget M (calls q) plane,
      emit (PlaneManager_SetOffScreenPlaneTarget (GetDisplayPlane P plane)) q)"

text \<open>Lines 154--229. \<open>primary\<close> is
  \<^verbatim>\<open>previous_plane_state_.begin()->GetDisplayPlane()\<close>. At the early return the plane is
  still the last element of the plan.\<close>

definition remove_layers ::
  "('l, 'p) plane_api \<Rightarrow> ('h, 'l) layer_api \<Rightarrow> ('l, 'p) services \<Rightarrow> 'l list \<Rightarrow> int \<Rightarrow> nat \<Rightarrow> 'p
    \<Rightarrow> ('l, 'p) plane_loop \<Rightarrow> ('p, ('l, 'p) plane_loop) removal" where
  "remove_layers P L M layers remove_index primary plane0 st =
     (if remove_index = -1 then Plane_Kept plane0 False st
      else
        case at (GetSourceLayers P plane0) (length (GetSourceLayers P plane0) - 1) of
          None \<Rightarrow> Removal_Raise
        | Some index \<Rightarrow>
            let threshold = size_t_of_int remove_index in
            if index \<ge> threshold then
              let has_one_layer = (length (GetSourceLayers P plane0) = 1);
                  plane1 = (if \<not> has_one_layer then ResetLayers P layers threshold plane0 else plane0);
                  clear_surface = (\<not> has_one_layer);
                  st = st\<lparr>ignore_commit := False\<rparr>
              in if GetSourceLayers P plane1 = [] \<or> has_one_layer then
                   let (plane2, q) = call_MarkSurfacesForRecycling P M plane1 (pl_queue st)
                   in if GetDisplayPlane P plane2 = primary
                      then Force_Full (st\<lparr>composition := composition st @ [plane2], pl_queue := q\<rparr>)
                      else Plane_Removed
                             (st\<lparr>pl_queue := emit (Plane_SetInUse (GetDisplayPlane P plane2) False) q\<rparr>)
                 else
                   let plane2 = ValidateReValidation P plane1 in
                   if kScanout \<in> RevalidationType P plane2 then
                     case at (GetSourceLayers P plane2) 0 of
                       None \<Rightarrow> Removal_Raise
                     | Some first \<Rightarrow>
                         (case at layers first of
                            None \<Rightarrow> Removal_Raise
                          | Some layer \<Rightarrow>
                              if CanScanOut L layer \<and> NeedsOffScreenComposition P plane2
                              then Plane_Kept plane2 clear_surface (st\<lparr>plane_validation := True\<rparr>)
                              else if length (GetSourceLayers P plane2) = 1
                              then Plane_Kept (RevalidationDone P kScanout plane2) clear_surface
                                     (st\<lparr>check_to_squash := True\<rparr>)
                              else Plane_Kept plane2 clear_surface st)
                   else Plane_Kept plane2 clear_surface st
            else Plane_Kept plane0 False st)"

text \<open>Lines 243--285, one pass of the loop for one layer.\<close>

definition scan_layer ::
  "('l, 'p) plane_api \<Rightarrow> ('h, 'l) layer_api \<Rightarrow> ('l, 'p) services \<Rightarrow> bool \<Rightarrow> 'l \<Rightarrow> 'p layer_scan
    \<Rightarrow> 'p layer_scan" where
  "scan_layer P L M full_reset layer d =
     (let d = (if HasDimensionsChanged L layer
               then d\<lparr>last_plane := UpdateDisplayFrame P (GetDisplayFrame L layer) (NeedsFullDraw L layer)
                                        (last_plane d),
                      only_cursor_rect_changed :=
                        (if \<not> IsCursorLayer L layer then False else only_cursor_rect_changed d),
                      update_rect := True\<rparr>
               else d);
          d = (if HasSourceRectChanged L layer
               then d\<lparr>last_plane := UpdateSourceCrop P (GetSourceCrop L layer) (NeedsFullDraw L layer)
                                        (last_plane d),
                      only_cursor_rect_changed :=
                        (if \<not> IsCursorLayer L layer then False else only_cursor_rect_changed d),
                      update_source_rect := True\<rparr>
               else d)
      in if full_reset then d
         else if refresh_surfaces d then d
         else
           let d = d\<lparr>refresh_surfaces := NeedsFullDraw L layer\<rparr>
           in if HasLayerContentChanged L layer
              then d\<lparr>surface_damage :=
                        (if damage_initialized d
                         then CalculateRect M (GetSurfaceDamage L layer) (surface_damage d)
                         else GetSurfaceDamage L layer),
                     damage_initialized := True\<rparr>
              else d)"

fun scan_layers ::
  "('l, 'p) plane_api \<Rightarrow> ('h, 'l) layer_api \<Rightarrow> ('l, 'p) services \<Rightarrow> 'l list \<Rightarrow> bool \<Rightarrow> nat list
    \<Rightarrow> 'p layer_scan \<Rightarrow> 'p layer_scan option" where
  "scan_layers P L M layers full_reset [] d = Some d"
| "scan_layers P L M layers full_reset (i # rest) d =
     (case at (GetSourceLayers P (last_plane d)) i of
        None \<Rightarrow> None
      | Some source_index \<Rightarrow>
          (case at layers source_index of
             None \<Rightarrow> None
           | Some layer \<Rightarrow> scan_layers P L M layers full_reset rest (scan_layer P L M full_reset layer d)))"

text \<open>Lines 231--315: a plane that needs off-screen composition.\<close>

definition refresh_offscreen ::
  "('l, 'p) plane_api \<Rightarrow> ('h, 'l) layer_api \<Rightarrow> ('l, 'p) services \<Rightarrow> 'l list \<Rightarrow> bool \<Rightarrow> 'p
    \<Rightarrow> ('l, 'p) plane_loop \<Rightarrow> ('l, 'p) plane_loop option" where
  "refresh_offscreen P L M layers clear_surface plane st =
     (let full_reset = (clear_surface \<or> reset_composition_regions st);
          d0 = \<lparr>last_plane = plane, surface_damage = (0, 0, 0, 0), update_rect = False,
                update_source_rect = False, only_cursor_rect_changed = True,
                refresh_surfaces = reset_composition_regions st, damage_initialized = False\<rparr>;
          layers_size = length (GetSourceLayers P plane)
      in case (if \<not> clear_surface then scan_layers P L M layers full_reset [0..<layers_size] d0
               else Some d0) of
           None \<Rightarrow> None
         | Some d \<Rightarrow>
             let check = (update_rect d \<or> update_source_rect d \<or> clear_surface);
                 plane1 = (if check then ValidateReValidation P (last_plane d) else last_plane d);
                 st = (if check \<and> RevalidationType P plane1 \<noteq> {}
                       then st\<lparr>plane_validation := True\<rparr> else st);
                 (plane2, q) =
                   (if full_reset \<or> \<not> RectEmpty M (surface_damage d) \<or> update_rect d \<or>
                       update_source_rect d \<or> refresh_surfaces d
                    then
                      (if NeedsSurfaceAllocation P plane1
                       then call_SetOffScreenPlaneTarget P M plane1 (pl_queue st)
                       else if full_reset \<or> refresh_surfaces d
                       then (RefreshSurfaces P kFullClear (refresh_surfaces d) plane1, pl_queue st)
                       else if update_rect d \<or> update_source_rect d
                       then (UpdateDamage P (surface_damage d) plane1, pl_queue st)
                       else if \<not> RectEmpty M (surface_damage d)
                       then (UpdateDamage P (surface_damage d) plane1, pl_queue st)
                       else (plane1, pl_queue st))
                    else (plane1, pl_queue st));
                 st = (if \<not> needs_gpu_composition st
                       then st\<lparr>needs_gpu_composition := (\<not> SurfaceRecycled P plane2)\<rparr> else st)
             in Some (st\<lparr>reset_composition_regions := False,
                         composition := composition st @ [plane2], pl_queue := q\<rparr>))"

text \<open>Lines 316--345: a plane that scans its single layer out.\<close>

definition scanout_layer ::
  "('l, 'p) plane_api \<Rightarrow> ('h, 'l) layer_api \<Rightarrow> 'l \<Rightarrow> 'p \<Rightarrow> ('l, 'p) plane_loop \<Rightarrow> ('l, 'p) plane_loop" where
  "scanout_layer P L layer plane st =
     (let plane1 = SetOverlayLayer P layer plane;
          st = (if HasLayerContentChanged L layer then st\<lparr>ignore_commit := False\<rparr> else st);
          st = (if HasDimensionsChanged L layer \<or> NeedsRevalidation L layer \<or> NeedsFullDraw L layer
                then st\<lparr>ignore_commit := False, reset_composition_regions := True\<rparr> else st)
      in st\<lparr>composition := composition st @ [plane1]\<rparr>)"

definition refresh_scanout ::
  "('l, 'p) plane_api \<Rightarrow> ('h, 'l) layer_api \<Rightarrow> ('l, 'p) services \<Rightarrow> 'l list \<Rightarrow> 'p
    \<Rightarrow> ('l, 'p) plane_loop \<Rightarrow> (('l, 'p) plane_loop, ('l, 'p) plane_loop) flow" where
  "refresh_scanout P L M layers plane st =
     (let st = st\<lparr>reset_composition_regions := False\<rparr>
      in case GetSourceLayers P plane of
           [] \<Rightarrow> Raise
         | first # _ \<Rightarrow>
             (case at layers first of
                None \<Rightarrow> Raise
              | Some layer \<Rightarrow>
                  if GetFb M (calls (pl_queue st)) (GetBuffer L layer) = 0 then
                    let q = emit (Buffer_CreateFrameBuffer (GetBuffer L layer) (gpu_fd (pl_queue st)))
                              (pl_queue st)
                    in if GetFb M (calls q) (GetBuffer L layer) = 0
                       then Return (st\<lparr>composition := composition st @ [plane], pl_queue := q\<rparr>)
                       else Continue (scanout_layer P L layer plane
                                        (st\<lparr>reset_composition_regions := True, pl_queue := q\<rparr>))
                  else Continue (scanout_layer P L layer plane st)))"

text \<open>One pass of the loop over \<^verbatim>\<open>previous_plane_state_\<close> (lines 149--346).\<close>

definition cache_plane ::
  "('l, 'p) plane_api \<Rightarrow> ('h, 'l) layer_api \<Rightarrow> ('l, 'p) services \<Rightarrow> 'l list \<Rightarrow> int \<Rightarrow> nat \<Rightarrow> 'p
    \<Rightarrow> ('l, 'p) plane_loop \<Rightarrow> (('l, 'p) plane_loop, ('l, 'p) plane_loop) flow" where
  "cache_plane P L M layers remove_index primary previous_plane st =
     (case remove_layers P L M layers remove_index primary (CopyState P previous_plane) st of
        Removal_Raise \<Rightarrow> Raise
      | Force_Full st' \<Rightarrow> Return st'
      | Plane_Removed st' \<Rightarrow> Continue st'
      | Plane_Kept plane clear_surface st' \<Rightarrow>
          if NeedsOffScreenComposition P plane
          then (case refresh_offscreen P L M layers clear_surface plane st' of
                  None \<Rightarrow> Raise
                | Some st'' \<Rightarrow> Continue st'')
          else refresh_scanout P L M layers plane st')"

fun cache_planes ::
  "('l, 'p) plane_api \<Rightarrow> ('h, 'l) layer_api \<Rightarrow> ('l, 'p) services \<Rightarrow> 'l list \<Rightarrow> int \<Rightarrow> nat \<Rightarrow> 'p list
    \<Rightarrow> ('l, 'p) plane_loop \<Rightarrow> (('l, 'p) plane_loop, ('l, 'p) plane_loop) flow" where
  "cache_planes P L M layers remove_index primary [] st = Continue st"
| "cache_planes P L M layers remove_index primary (previous_plane # rest) st =
     (case cache_plane P L M layers remove_index primary previous_plane st of
        Raise \<Rightarrow> Raise
      | Return st' \<Rightarrow> Return st'
      | Continue st' \<Rightarrow> cache_planes P L M layers remove_index primary rest st')"

text \<open>Lines 355--392: squash the last overlay into the plane below it.\<close>

definition squash ::
  "('l, 'p) plane_api \<Rightarrow> ('h, 'l) layer_api \<Rightarrow> ('l, 'p) services \<Rightarrow> 'l list \<Rightarrow> 'p list
    \<Rightarrow> ('l, 'p) DisplayQueue \<Rightarrow> ('p list \<times> ('l, 'p) DisplayQueue) option" where
  "squash P L M layers plan q =
     (if plan = [] then None
      else
        let size = (if IsCursorPlane P (last plan) then length plan - 1 else length plan) in
        if size > 2 then
          let old_plane = plan ! (size - 2);
              last_overlay = plan ! (size - 1)
          in if CanSquash P old_plane \<and> CanSquash P last_overlay \<and>
                length (GetSourceLayers P last_overlay) = 1
             then
               (case at layers (GetSourceLayers P last_overlay ! 0) of
                  None \<Rightarrow> None
                | Some layer \<Rightarrow>
                    let (old_plane', q) = call_SetOffScreenPlaneTarget P M (AddLayer P layer old_plane) q;
                        (last_overlay', q) =
                          (if GetOffScreenTarget P last_overlay
                           then call_MarkSurfacesForRecycling P M last_overlay q
                           else (last_overlay, q));
                        q = emit (Plane_SetInUse (GetDisplayPlane P last_overlay') False) q
                    in Some (take (size - 1) (plan[size - 2 := old_plane']) @ drop size plan, q))
             else Some (plan, q)
        else Some (plan, q))"

text \<open>
  The four flags that GetCachedLayers writes through pointers, with the plan and the
  queue. The function gets the values the caller's variables hold and returns what
  they hold afterwards: the early returns write only \<open>force_full_validation\<close> and
  \<open>can_ignore_commit\<close>.
\<close>

record ('l, 'p) cached =
  plan :: "'p list"
  render_layers_out :: bool
  can_ignore_commit :: bool
  needs_plane_validation :: bool
  force_full_validation :: bool
  cached_queue :: "('l, 'p) DisplayQueue"

definition GetCachedLayers ::
  "('l, 'p) plane_api \<Rightarrow> ('h, 'l) layer_api \<Rightarrow> ('l, 'p) services \<Rightarrow> 'l list \<Rightarrow> int
    \<Rightarrow> ('l, 'p) cached \<Rightarrow> ('l, 'p) cached option" where
  "GetCachedLayers P L M layers remove_index c =
     (let st0 = \<lparr>composition = plan c, needs_gpu_composition = False, ignore_commit = True,
                 check_to_squash = False, plane_validation = False,
                 reset_composition_regions = False, pl_queue = cached_queue c\<rparr>;
          planes = previous_plane_state (cached_queue c)
      in case cache_planes P L M layers remove_index
                (case planes of [] \<Rightarrow> 0 | first # _ \<Rightarrow> GetDisplayPlane P first) planes st0 of
           Raise \<Rightarrow> None
         | Return st \<Rightarrow>
             Some (c\<lparr>plan := composition st, force_full_validation := True,
                     can_ignore_commit := False, cached_queue := pl_queue st\<rparr>)
         | Continue st \<Rightarrow>
             let c = c\<lparr>render_layers_out := needs_gpu_composition st,
                       can_ignore_commit := (ignore_commit st \<and> \<not> needs_gpu_composition st),
                       needs_plane_validation := plane_validation st\<rparr>
             in if check_to_squash st
                then (case squash P L M layers (composition st) (pl_queue st) of
                        None \<Rightarrow> None
                      | Some (plan', q) \<Rightarrow> Some (c\<lparr>plan := plan', cached_queue := q\<rparr>))
                else Some (c\<lparr>plan := composition st, cached_queue := pl_queue st\<rparr>))"

subsection \<open>QueueUpdate\<close>

text \<open>
  The locals of QueueUpdate that live across its phases, with the caller's layers and
  retire fence and the queue. The local \<^verbatim>\<open>requested_video_effect\<close> carries a prime, the
  data member has the plain name. \<open>z_order\<close> is a \<^verbatim>\<open>uint32_t\<close> and wraps around;
  \<open>add_index\<close> and \<open>remove_index\<close> are \<^verbatim>\<open>int\<close>s and take the unsigned values that are
  stored in them through \<open>int_of_unsigned\<close>.
\<close>

record ('h, 'l, 'p) locals =
  source_layers :: "'h HwcLayer list"
  retire_fence :: int
  layers :: "'l list"
  z_order :: nat
  add_index :: int
  remove_index :: int
  idle_frame :: bool
  validate_layers :: bool
  has_video_layer :: bool
  re_validate_commit :: bool
  handle_raw_pixel_update :: bool
  force_media_composition :: bool
  requested_video_effect' :: bool
  disable_ovelays :: bool
  render_layers :: bool
  current_composition_planes :: "'p list"
  queue :: "('l, 'p) DisplayQueue"

text \<open>What the caller has when QueueUpdate returns.\<close>

record ('h, 'l, 'p) outcome =
  returned :: bool
  retire_fence_out :: int
  source_layers_out :: "'h HwcLayer list"
  queue_out :: "('l, 'p) DisplayQueue"

definition leave :: "bool \<Rightarrow> ('h, 'l, 'p) locals \<Rightarrow> ('h, 'l, 'p) outcome" where
  "leave ok b = \<lparr>returned = ok, retire_fence_out = retire_fence b,
                 source_layers_out = source_layers b, queue_out = queue b\<rparr>"

text \<open>Modelled from the spec: \<^verbatim>\<open>tracker.FrameHasCursor()\<close> of ScopedIdleStateTracker
  (displayqueue.h is not among the sources) records that the frame has a cursor layer.\<close>

definition FrameHasCursor :: "('l, 'p) DisplayQueue \<Rightarrow> ('l, 'p) DisplayQueue" where
  "FrameHasCursor q = q\<lparr>idle_tracker := (idle_tracker q)\<lparr>has_cursor_layer := True\<rparr>\<rparr>"

text \<open>Lines 405--419. \<open>source_layers\<close> collects the input layers as the loop leaves them;
  \<open>render_layers\<close> is not initialised in the code and is written before it is read.\<close>

definition enter_frame ::
  "('l, 'p) services \<Rightarrow> bool \<Rightarrow> ('l, 'p) DisplayQueue \<Rightarrow> ('h, 'l, 'p) locals" where
  "enter_frame M idle_update q =
     \<lparr>source_layers = [], retire_fence = -1, layers = [], z_order = 0, add_index = -1,
      remove_index = -1,
      idle_frame = (RenderIdleMode M (idle_tracker q) \<or> idle_update),
      validate_layers = (last_commit_failed_update q \<or> previous_plane_state q = []),
      has_video_layer = False, re_validate_commit = False, handle_raw_pixel_update = False,
      force_media_composition = False, requested_video_effect' = False,
      disable_ovelays = False, render_layers = False, current_composition_planes = [],
      queue = q\<rparr>"

text \<open>Lines 492--526: the kind of the layer differs from the kind of the layer that had
  its z-order in the frame before.\<close>

definition kind_changed ::
  "('h, 'l) layer_api \<Rightarrow> 'l \<Rightarrow> 'l \<Rightarrow> ('h, 'l, 'p) locals \<Rightarrow> ('h, 'l, 'p) locals" where
  "kind_changed L previous_layer overlay_layer b =
     (let b = (if remove_index b = -1 then b\<lparr>remove_index := int_of_unsigned (GetZorder L previous_layer)\<rparr> else b)
      in if add_index b = -1 then b\<lparr>add_index := int_of_unsigned (GetZorder L overlay_layer)\<rparr> else b)"

text \<open>Lines 436--459: the layer of this frame, built from the input layer.\<close>

definition make_layer ::
  "('h, 'l) layer_api \<Rightarrow> ('l, 'p) services \<Rightarrow> bool \<Rightarrow> 'h HwcLayer \<Rightarrow> 'l option \<Rightarrow> nat \<Rightarrow> nat
    \<Rightarrow> ('l, 'p) DisplayQueue \<Rightarrow> 'l" where
  "make_layer L M handle_constraints layer previous_layer z layer_index q =
     (if scaling_state (scaling_tracker q) = kNeedsScaling
      then InitializeFromScaledHwcLayer L (calls q) layer previous_layer z layer_index
             (ScaleDisplayFrame M (display_frame layer) (scaling_width (scaling_tracker q))
                (scaling_height (scaling_tracker q)))
             (GetHeight M (calls q)) (plane_transform q) handle_constraints
      else InitializeFromHwcLayer L (calls q) layer previous_layer z layer_index
             (GetHeight M (calls q)) (plane_transform q) handle_constraints)"

text \<open>Lines 466--484: what the loop records about a visible layer.\<close>

definition note_layer ::
  "('h, 'l) layer_api \<Rightarrow> 'l \<Rightarrow> ('h, 'l, 'p) locals \<Rightarrow> ('h, 'l, 'p) locals" where
  "note_layer L overlay_layer b =
     (let b = b\<lparr>layers := layers b @ [overlay_layer]\<rparr>;
          b = (if RawPixelDataChanged L overlay_layer
               then b\<lparr>handle_raw_pixel_update := True\<rparr> else b);
          b = (if IsVideoLayer L overlay_layer then b\<lparr>has_video_layer := True\<rparr> else b);
          b = (if NeedsRevalidation L overlay_layer then b\<lparr>re_validate_commit := True\<rparr>
               else if HasLayerContentChanged L overlay_layer then b\<lparr>idle_frame := False\<rparr>
               else b);
          b = (if IsCursorLayer L overlay_layer
               then b\<lparr>queue := FrameHasCursor (queue b)\<rparr> else b)
      in b\<lparr>z_order := (z_order b + 1) mod 2 ^ 32\<rparr>)"

text \<open>Lines 485--526: the cursor layer or the media layer came, went or moved.\<close>

definition diff_layer ::
  "('h, 'l) layer_api \<Rightarrow> 'l option \<Rightarrow> 'l \<Rightarrow> ('h, 'l, 'p) locals \<Rightarrow> ('h, 'l, 'p) locals" where
  "diff_layer L previous_layer overlay_layer b =
     (if add_index b = 0 \<or> validate_layers b \<or> (add_index b \<noteq> -1 \<and> remove_index b \<noteq> -1)
      then b
      else
        let b = (if previous_layer \<noteq> None \<and>
                    IsCursorLayer L (the previous_layer) \<noteq> IsCursorLayer L overlay_layer
                 then kind_changed L (the previous_layer) overlay_layer b else b)
        in if previous_layer \<noteq> None \<and>
              IsVideoLayer L (the previous_layer) \<noteq> IsVideoLayer L overlay_layer
           then kind_changed L (the previous_layer) overlay_layer b else b)"

text \<open>Lines 421--527, one pass of the loop. \<open>previous_size\<close> is
  \<^verbatim>\<open>in_flight_layers_.size()\<close>, so the read of \<^verbatim>\<open>in_flight_layers_.at(z_order)\<close> is in range.\<close>

definition visit_layer ::
  "('h, 'l) layer_api \<Rightarrow> ('l, 'p) services \<Rightarrow> bool \<Rightarrow> nat \<Rightarrow> 'h HwcLayer \<Rightarrow> ('h, 'l, 'p) locals
    \<Rightarrow> ('h, 'l, 'p) locals" where
  "visit_layer L M handle_constraints layer_index layer0 b0 =
     (let layer = SetReleaseFence (-1) layer0;
          b = b0\<lparr>source_layers := source_layers b0 @ [layer]\<rparr>
      in if \<not> visible layer then b
         else
           let q = queue b;
               z = z_order b;
               previous_size = length (in_flight_layers q);
               previous_layer = (if previous_size > z then Some (in_flight_layers q ! z) else None);
               overlay_layer = make_layer L M handle_constraints layer previous_layer z layer_index q;
               b = (if previous_size > z then b
                    else if add_index b = -1 then b\<lparr>add_index := int_of_unsigned z\<rparr> else b);
               b = b\<lparr>queue := emit (OverlayLayer_Initialize z layer_index) q\<rparr>
           in if \<not> IsVisible L overlay_layer then b
              else diff_layer L previous_layer overlay_layer (note_layer L overlay_layer b))"

fun visit_layers ::
  "('h, 'l) layer_api \<Rightarrow> ('l, 'p) services \<Rightarrow> bool \<Rightarrow> nat \<Rightarrow> 'h HwcLayer list \<Rightarrow> ('h, 'l, 'p) locals
    \<Rightarrow> ('h, 'l, 'p) locals" where
  "visit_layers L M handle_constraints layer_index [] b = b"
| "visit_layers L M handle_constraints layer_index (layer # rest) b =
     visit_layers L M handle_constraints (Suc layer_index) rest
       (visit_layer L M handle_constraints layer_index layer b)"

text \<open>Lines 533--544: \<open>remove_index\<close> and \<open>validate_layers\<close> after the loop.\<close>

definition settle_indices :: "int \<Rightarrow> int \<Rightarrow> bool \<Rightarrow> nat \<Rightarrow> nat \<Rightarrow> int \<times> bool" where
  "settle_indices add remove validate previous_size new_size =
     (if add = 0 \<or> validate then (remove, True)
      else if previous_size > new_size then
        (if remove = -1 then (int_of_unsigned new_size, validate)
         else if add \<noteq> -1 then (min add remove, validate)
         else (remove, validate))
      else (remove, validate))"

text \<open>Lines 577--588: a change of the video effects forces media composition.\<close>

definition video_effects :: "('h, 'l, 'p) locals \<Rightarrow> ('h, 'l, 'p) locals" where
  "video_effects b0 =
     (if has_video_layer b0 then
        (let b = b0\<lparr>queue := emit (Lock video_lock) (queue b0)\<rparr>;
             b = (if requested_video_effect (queue b) \<noteq> applied_video_effect (queue b)
                  then b\<lparr>force_media_composition := True,
                         queue := (queue b)\<lparr>applied_video_effect := requested_video_effect (queue b)\<rparr>,
                         requested_video_effect' := requested_video_effect (queue b),
                         idle_frame := False, validate_layers := True\<rparr>
                  else b)
         in b\<lparr>queue := emit (Unlock video_lock) (queue b)\<rparr>)
      else b0)"

text \<open>Lines 529--553.\<close>

definition settle_diff :: "nat \<Rightarrow> ('h, 'l, 'p) locals \<Rightarrow> ('h, 'l, 'p) locals" where
  "settle_diff previous_size b0 =
     (let b = (if handle_raw_pixel_update b0
               then b0\<lparr>queue := emit Compositor_UpdateLayerPixelData (queue b0)\<rparr> else b0);
          (remove, validate) =
            settle_indices (add_index b) (remove_index b) (validate_layers b) previous_size
              (length (layers b));
          b = b\<lparr>remove_index := remove, validate_layers := validate\<rparr>;
          b = (if idle_frame b \<and> (add_index b \<noteq> -1 \<or> remove_index b \<noteq> -1 \<or> re_validate_commit b)
               then b\<lparr>idle_frame := False\<rparr> else b)
      in if \<not> validate_layers b then b\<lparr>validate_layers := idle_frame b\<rparr> else b)"

text \<open>Lines 529--594.\<close>

definition settle_frame ::
  "('l, 'p) services \<Rightarrow> nat \<Rightarrow> ('h, 'l, 'p) locals \<Rightarrow> ('h, 'l, 'p) locals" where
  "settle_frame M previous_size b0 =
     (let b = video_effects (settle_diff previous_size b0);
          b = b\<lparr>disable_ovelays := (kDisableOverlayUsage \<in> state (queue b))\<rparr>
      in if \<not> validate_layers b \<and> RevalidateLayers M (idle_tracker (queue b))
         then b\<lparr>validate_layers := True\<rparr> else b)"

text \<open>Lines 405--594: the layers of the frame and the choice between the incremental
  path and full validation.\<close>

definition build_frame ::
  "('h, 'l) layer_api \<Rightarrow> ('l, 'p) services \<Rightarrow> 'h HwcLayer list \<Rightarrow> bool \<Rightarrow> bool
    \<Rightarrow> ('l, 'p) DisplayQueue \<Rightarrow> ('h, 'l, 'p) locals" where
  "build_frame L M sources idle_update handle_constraints q =
     settle_frame M (length (in_flight_layers q))
       (visit_layers L M handle_constraints 0 sources (enter_frame M idle_update q))"

text \<open>SetMediaEffectsState, lines 845--871.\<close>

definition media_plane ::
  "('l, 'p) plane_api \<Rightarrow> ('l, 'p) services \<Rightarrow> bool \<Rightarrow> 'l list \<Rightarrow> 'p \<Rightarrow> ('l, 'p) DisplayQueue
    \<Rightarrow> ('p \<times> ('l, 'p) DisplayQueue) option" where
  "media_plane P M apply_effects layer_list plane0 q =
     (if \<not> IsVideoPlane P plane0 then Some (plane0, q)
      else
        let plane = SetApplyEffects P apply_effects plane0 in
        if apply_effects \<and> GetSurfaces P plane = [] then Some (call_SetOffScreenPlaneTarget P M plane q)
        else if \<not> apply_effects \<and> GetSurfaces P plane \<noteq> [] \<and> Scanout P plane then
          let (plane', q') = call_MarkSurfacesForRecycling P M plane q in
          case at (GetSourceLayers P plane') 0 of
            None \<Rightarrow> None
          | Some first \<Rightarrow>
              (case at layer_list first of
                 None \<Rightarrow> None
               | Some layer \<Rightarrow> Some (SetOverlayLayer P layer plane', q'))
        else Some (plane, q))"

fun SetMediaEffectsState ::
  "('l, 'p) plane_api \<Rightarrow> ('l, 'p) services \<Rightarrow> bool \<Rightarrow> 'l list \<Rightarrow> 'p list \<Rightarrow> ('l, 'p) DisplayQueue
    \<Rightarrow> ('p list \<times> ('l, 'p) DisplayQueue) option" where
  "SetMediaEffectsState P M apply_effects layer_list [] q = Some ([], q)"
| "SetMediaEffectsState P M apply_effects layer_list (plane # rest) q =
     (case media_plane P M apply_effects layer_list plane q of
        None \<Rightarrow> None
      | Some (plane', q') \<Rightarrow>
          (case SetMediaEffectsState P M apply_effects layer_list rest q' of
             None \<Rightarrow> None
           | Some (rest', q'') \<Rightarrow> Some (plane' # rest', q'')))"

definition apply_media_effects ::
  "('l, 'p) plane_api \<Rightarrow> ('l, 'p) services \<Rightarrow> ('h, 'l, 'p) locals \<Rightarrow> ('h, 'l, 'p) locals option" where
  "apply_media_effects P M b =
     (case SetMediaEffectsState P M (requested_video_effect' b) (layers b)
             (current_composition_planes b) (queue b) of
        None \<Rightarrow> None
      | Some (planes, q) \<Rightarrow> Some (b\<lparr>current_composition_planes := planes, queue := q\<rparr>))"

definition call_ValidateLayers ::
  "('l, 'p) services \<Rightarrow> int \<Rightarrow> bool \<Rightarrow> bool \<Rightarrow> bool \<Rightarrow> ('h, 'l, 'p) locals
    \<Rightarrow> (bool \<times> bool \<times> bool) \<times> ('h, 'l, 'p) locals" where
  "call_ValidateLayers M index force flag1 flag2 b =
     (let q = queue b;
          (render, flag1', flag2', planes, not_inuse) =
            ValidateLayers M (calls q) (layers b) index force flag1 flag2
              (current_composition_planes b) (previous_plane_state q) (surfaces_not_inuse q)
      in ((render, flag1', flag2'),
          b\<lparr>current_composition_planes := planes,
            queue := emit (PlaneManager_ValidateLayers index force) (q\<lparr>surfaces_not_inuse := not_inuse\<rparr>)\<rparr>))"

text \<open>Lines 596--642: the incremental path. It returns success without a commit when
  nothing needs one.\<close>

definition slot_new_layers ::
  "('l, 'p) services \<Rightarrow> bool \<times> bool \<times> ('h, 'l, 'p) locals \<Rightarrow> bool \<times> bool \<times> ('h, 'l, 'p) locals" where
  "slot_new_layers M x =
     (case x of (ignore, needs_validation, b0) \<Rightarrow>
        if \<not> validate_layers b0 \<and> add_index b0 > 0 then
          let ((render_cursor, commit_checked, needs_validation'), b) =
                call_ValidateLayers M (add_index b0) (disable_ovelays b0) False needs_validation b0;
              b = (if \<not> render_layers b then b\<lparr>render_layers := render_cursor\<rparr> else b);
              b = (if commit_checked then b\<lparr>re_validate_commit := False\<rparr> else b)
          in (False, needs_validation', b)
        else (ignore, needs_validation, b0))"

definition revalidate_planes ::
  "('l, 'p) services \<Rightarrow> bool \<times> bool \<times> ('h, 'l, 'p) locals \<Rightarrow> bool \<times> ('h, 'l, 'p) locals" where
  "revalidate_planes M x =
     (case x of (ignore, needs_validation, b0) \<Rightarrow>
        if \<not> validate_layers b0 \<and> (re_validate_commit b0 \<or> needs_validation) then
          let q = queue b0;
              (render, validate, planes, not_inuse) =
                ReValidatePlanes M (calls q) (current_composition_planes b0) (layers b0)
                  (surfaces_not_inuse q) (validate_layers b0) needs_validation (re_validate_commit b0);
              b = b0\<lparr>current_composition_planes := planes, validate_layers := validate,
                     queue := emit PlaneManager_ReValidatePlanes (q\<lparr>surfaces_not_inuse := not_inuse\<rparr>)\<rparr>;
              b = (if \<not> render_layers b then b\<lparr>render_layers := render\<rparr> else b)
          in (False, b)
        else (ignore, b0))"

definition patch_plan ::
  "('l, 'p) services \<Rightarrow> ('l, 'p) cached \<Rightarrow> ('h, 'l, 'p) locals \<Rightarrow> (bool \<times> ('h, 'l, 'p) locals)" where
  "patch_plan M c b0 =
     revalidate_planes M
       (slot_new_layers M
          (can_ignore_commit c, needs_plane_validation c,
           b0\<lparr>current_composition_planes := plan c, render_layers := render_layers_out c,
              validate_layers := force_full_validation c, queue := cached_queue c\<rparr>))"

definition incremental ::
  "('l, 'p) plane_api \<Rightarrow> ('h, 'l) layer_api \<Rightarrow> ('l, 'p) services \<Rightarrow> ('h, 'l, 'p) locals
    \<Rightarrow> (('h, 'l, 'p) outcome, ('h, 'l, 'p) locals) flow" where
  "incremental P L M b0 =
     (if validate_layers b0 then Continue b0
      else
        case GetCachedLayers P L M (layers b0) (remove_index b0)
               \<lparr>plan = current_composition_planes b0, render_layers_out = render_layers b0,
                can_ignore_commit = False, needs_plane_validation = False,
                force_full_validation = validate_layers b0, cached_queue = queue b0\<rparr> of
          None \<Rightarrow> Raise
        | Some c \<Rightarrow>
            let (ignore, b) = patch_plan M c b0 in
            if \<not> validate_layers b then
              (if force_media_composition b then
                 (case apply_media_effects P M b of
                    None \<Rightarrow> Raise
                  | Some b' \<Rightarrow> Continue (b'\<lparr>render_layers := True\<rparr>))
               else if ignore
               then Return (leave True (b\<lparr>queue := (queue b)\<lparr>in_flight_layers := layers b\<rparr>\<rparr>))
               else Continue b)
            else Continue b)"

text \<open>Lines 647--658: the plan is built from scratch.\<close>

definition validate_all :: "('l, 'p) services \<Rightarrow> ('h, 'l, 'p) locals \<Rightarrow> ('h, 'l, 'p) locals" where
  "validate_all M b0 =
     (let b = (if \<not> idle_frame b0
               then b0\<lparr>queue := (queue b0)\<lparr>idle_tracker := ResetTrackerState M (idle_tracker (queue b0))\<rparr>\<rparr>
               else b0);
          b = b\<lparr>add_index := 0\<rparr>;
          force_gpu = (disable_ovelays b \<or> idle_frame b \<or>
                       (kConfigurationChanged \<in> state (queue b) \<and> length (layers b) > 1));
          ((render, _, _), b) = call_ValidateLayers M (add_index b) force_gpu False False b
      in b\<lparr>render_layers := render\<rparr>)"

definition clear_configuration_changed :: "('h, 'l, 'p) locals \<Rightarrow> ('h, 'l, 'p) locals" where
  "clear_configuration_changed b =
     b\<lparr>queue := (queue b)\<lparr>state := state (queue b) - {kConfigurationChanged}\<rparr>\<rparr>"

text \<open>Lines 644--667: full validation.\<close>

definition full_validation ::
  "('l, 'p) plane_api \<Rightarrow> ('l, 'p) services \<Rightarrow> ('h, 'l, 'p) locals \<Rightarrow> ('h, 'l, 'p) locals option" where
  "full_validation P M b0 =
     (let b = b0\<lparr>queue := (queue b0)\<lparr>last_commit_failed_update := False\<rparr>\<rparr>
      in if validate_layers b then
           let b = validate_all M b
           in if force_media_composition b \<and> requested_video_effect' b
              then (case apply_media_effects P M b of
                      None \<Rightarrow> None
                    | Some b' \<Rightarrow> Some (clear_configuration_changed (b'\<lparr>render_layers := True\<rparr>)))
              else Some (clear_configuration_changed b)
         else Some b)"

text \<open>Lines 672--699: the GPU pass.\<close>

definition fail :: "('h, 'l, 'p) locals \<Rightarrow> ('h, 'l, 'p) outcome" where
  "fail b = leave False (b\<lparr>queue := (queue b)\<lparr>last_commit_failed_update := True\<rparr>\<rparr>)"

definition gpu_pass ::
  "('h, 'l) layer_api \<Rightarrow> ('l, 'p) services \<Rightarrow> ('h, 'l, 'p) locals
    \<Rightarrow> (('h, 'l, 'p) outcome, ('h, 'l, 'p) locals) flow" where
  "gpu_pass L M b =
     (if render_layers b then
        let began = BeginFrame M (calls (queue b)) (disable_ovelays b);
            b = b\<lparr>queue := emit (Compositor_BeginFrame (disable_ovelays b) began) (queue b)\<rparr>
        in if \<not> began then Return (fail b)
           else
             let drawn = Draw M (calls (queue b)) (current_composition_planes b) (layers b)
                           (map (GetDisplayFrame L) (layers b));
                 b = b\<lparr>queue := emit (Compositor_Draw drawn) (queue b)\<rparr>
             in if \<not> drawn then Return (fail b) else Continue b
      else if handle_raw_pixel_update b
      then Continue (b\<lparr>queue := emit Compositor_EnsurePixelDataUpdated (queue b)\<rparr>)
      else Continue b)"

text \<open>Lines 701--723: the commit. \<open>wait_kms_fence\<close> is the block that the code has before
  the commit, or after it when ENABLE\_DOUBLE\_BUFFERING is defined.\<close>

definition wait_kms_fence :: "('l, 'p) DisplayQueue \<Rightarrow> ('l, 'p) DisplayQueue" where
  "wait_kms_fence q =
     (if kms_fence q > 0
      then (emit (Sys_close (kms_fence q)) (emit (Sys_HWCPoll (kms_fence q)) q))\<lparr>kms_fence := 0\<rparr>
      else q)"

definition color_correction :: "('l, 'p) DisplayQueue \<Rightarrow> ('l, 'p) DisplayQueue" where
  "color_correction q =
     (if kNeedsColorCorrection \<in> state q then
        let q = emit (Display_SetColorCorrection (gamma q) (contrast q) (brightness q)) q;
            q = emit (Display_SetColorTransformMatrix (color_transform_matrix q) (color_transform_hint q)) q
        in q\<lparr>state := state q - {kNeedsColorCorrection}\<rparr>
      else q)"

definition before_commit :: "('l, 'p) services \<Rightarrow> ('l, 'p) DisplayQueue \<Rightarrow> ('l, 'p) DisplayQueue" where
  "before_commit M q =
     color_correction (if \<not> ENABLE_DOUBLE_BUFFERING M then wait_kms_fence q else q)"

definition commit ::
  "('l, 'p) services \<Rightarrow> ('h, 'l, 'p) locals
    \<Rightarrow> (('h, 'l, 'p) outcome, int \<times> ('h, 'l, 'p) locals) flow" where
  "commit M b0 =
     (let q = before_commit M (queue b0);
          (passed, fence) = Commit M (calls q) (current_composition_planes b0) (previous_plane_state q)
                              (disable_ovelays b0);
          b = b0\<lparr>queue := emit (Display_Commit (disable_ovelays b0) passed fence) q\<rparr>
      in if \<not> passed then Return (fail b) else Continue (fence, b))"

text \<open>Lines 725--737 and 747--764: the two passes over the surfaces that left their
  planes. \<^verbatim>\<open>uint32_t age = surface->GetSurfaceAge()\<close> reads the \<^verbatim>\<open>int\<close> as 32 unsigned
  bits.\<close>

definition mark_surfaces_not_inuse :: "('l, 'p) DisplayQueue \<Rightarrow> ('l, 'p) DisplayQueue" where
  "mark_surfaces_not_inuse q =
     (if mark_not_inuse q \<noteq> []
      then q\<lparr>surface_age := fold (\<lambda>surface ages. ages(surface := -1)) (mark_not_inuse q) (surface_age q),
             mark_not_inuse := []\<rparr>
      else q)"

fun age_not_inuse ::
  "nat list \<Rightarrow> nat list \<Rightarrow> ('l, 'p) DisplayQueue \<Rightarrow> nat list \<times> ('l, 'p) DisplayQueue" where
  "age_not_inuse [] temp q = (temp, q)"
| "age_not_inuse (surface # rest) temp q =
     (if (word_of_int (surface_age q surface) :: 32 word) > 0
      then age_not_inuse rest (temp @ [surface])
             (q\<lparr>surface_age := (surface_age q)(surface := surface_age q surface - 1)\<rparr>)
      else age_not_inuse rest temp (q\<lparr>mark_not_inuse := mark_not_inuse q @ [surface]\<rparr>))"

definition swap_surfaces_not_inuse :: "('l, 'p) DisplayQueue \<Rightarrow> ('l, 'p) DisplayQueue" where
  "swap_surfaces_not_inuse q =
     (if surfaces_not_inuse q \<noteq> []
      then (let (temp, q') = age_not_inuse (surfaces_not_inuse q) [] q
            in q'\<lparr>surfaces_not_inuse := temp\<rparr>)
      else q)"

text \<open>SetReleaseFenceToLayers, lines 919--956. The state of the two loops is the caller's
  layers and the queue.\<close>

definition call_dup ::
  "('l, 'p) services \<Rightarrow> int \<Rightarrow> ('l, 'p) DisplayQueue \<Rightarrow> int \<times> ('l, 'p) DisplayQueue" where
  "call_dup M fd q = (let r = Sys_dup_result M (calls q) fd in (r, emit (Sys_dup fd r) q))"

fun fence_scanout_layers ::
  "('h, 'l) layer_api \<Rightarrow> ('l, 'p) services \<Rightarrow> int \<Rightarrow> nat list
    \<Rightarrow> 'h HwcLayer list \<times> ('l, 'p) DisplayQueue \<Rightarrow> ('h HwcLayer list \<times> ('l, 'p) DisplayQueue) option" where
  "fence_scanout_layers L M fence [] (sources, q) = Some (sources, q)"
| "fence_scanout_layers L M fence (index # rest) (sources, q) =
     (case at (in_flight_layers q) index of
        None \<Rightarrow> None
      | Some overlay_layer \<Rightarrow>
          (case at sources (GetLayerIndex L overlay_layer) of
             None \<Rightarrow> None
           | Some layer \<Rightarrow>
               let (fd, q) = call_dup M fence q;
                   sources = sources[GetLayerIndex L overlay_layer := SetReleaseFence fd layer];
                   q = q\<lparr>in_flight_layers :=
                          (in_flight_layers q)[index := SetLayerComposition L kDisplay overlay_layer]\<rparr>
               in fence_scanout_layers L M fence rest (sources, q)))"

fun fence_gpu_layers ::
  "('h, 'l) layer_api \<Rightarrow> ('l, 'p) services \<Rightarrow> int \<Rightarrow> nat list
    \<Rightarrow> 'h HwcLayer list \<times> ('l, 'p) DisplayQueue \<Rightarrow> ('h HwcLayer list \<times> ('l, 'p) DisplayQueue) option" where
  "fence_gpu_layers L M release_fence [] (sources, q) = Some (sources, q)"
| "fence_gpu_layers L M release_fence (index # rest) (sources, q) =
     (case at (in_flight_layers q) index of
        None \<Rightarrow> None
      | Some overlay_layer0 \<Rightarrow>
          let overlay_layer = SetLayerComposition L kGpu overlay_layer0 in
          (case at sources (GetLayerIndex L overlay_layer) of
             None \<Rightarrow> None
           | Some layer \<Rightarrow>
               if release_fence > 0 then
                 let (fd, q) = call_dup M release_fence q
                 in fence_gpu_layers L M release_fence rest
                      (sources[GetLayerIndex L overlay_layer := SetReleaseFence fd layer],
                       q\<lparr>in_flight_layers := (in_flight_layers q)[index := overlay_layer]\<rparr>)
               else
                 let (temp, overlay_layer') = ReleaseAcquireFence L overlay_layer
                 in fence_gpu_layers L M release_fence rest
                      (if temp > 0
                       then sources[GetLayerIndex L overlay_layer := SetReleaseFence temp layer]
                       else sources,
                       q\<lparr>in_flight_layers := (in_flight_layers q)[index := overlay_layer']\<rparr>)))"

definition fence_plane ::
  "('l, 'p) plane_api \<Rightarrow> ('h, 'l) layer_api \<Rightarrow> ('l, 'p) services \<Rightarrow> int \<Rightarrow> 'p
    \<Rightarrow> 'h HwcLayer list \<times> ('l, 'p) DisplayQueue \<Rightarrow> ('h HwcLayer list \<times> ('l, 'p) DisplayQueue) option" where
  "fence_plane P L M fence plane sq =
     (if Scanout P plane \<and> \<not> SurfaceRecycled P plane
      then fence_scanout_layers L M fence (GetSourceLayers P plane) sq
      else
        let release_fence = OverlayReleaseAcquireFence M (calls (snd sq)) plane;
            q = emit (Plane_ReleaseAcquireFence (GetDisplayPlane P plane) release_fence) (snd sq)
        in case fence_gpu_layers L M release_fence (GetSourceLayers P plane) (fst sq, q) of
             None \<Rightarrow> None
           | Some (sources, q') \<Rightarrow>
               Some (sources, if release_fence > 0 then emit (Sys_close release_fence) q' else q'))"

fun fence_planes ::
  "('l, 'p) plane_api \<Rightarrow> ('h, 'l) layer_api \<Rightarrow> ('l, 'p) services \<Rightarrow> int \<Rightarrow> 'p list
    \<Rightarrow> 'h HwcLayer list \<times> ('l, 'p) DisplayQueue \<Rightarrow> ('h HwcLayer list \<times> ('l, 'p) DisplayQueue) option" where
  "fence_planes P L M fence [] sq = Some sq"
| "fence_planes P L M fence (plane # rest) sq =
     (case fence_plane P L M fence plane sq of
        None \<Rightarrow> None
      | Some sq' \<Rightarrow> fence_planes P L M fence rest sq')"

definition SetReleaseFenceToLayers ::
  "('l, 'p) plane_api \<Rightarrow> ('h, 'l) layer_api \<Rightarrow> ('l, 'p) services \<Rightarrow> int \<Rightarrow> 'h HwcLayer list
    \<Rightarrow> ('l, 'p) DisplayQueue \<Rightarrow> ('h HwcLayer list \<times> ('l, 'p) DisplayQueue) option" where
  "SetReleaseFenceToLayers P L M fence sources q =
     fence_planes P L M fence (previous_plane_state q) (sources, q)"

text \<open>Lines 739--742: the two swaps that publish the frame.\<close>

definition swap_frame :: "('h, 'l, 'p) locals \<Rightarrow> ('h, 'l, 'p) locals" where
  "swap_frame b =
     b\<lparr>layers := in_flight_layers (queue b),
       current_composition_planes := previous_plane_state (queue b),
       queue := (queue b)\<lparr>in_flight_layers := layers b,
                          previous_plane_state := current_composition_planes b\<rparr>\<rparr>"

text \<open>Lines 766--775.\<close>

definition release_after_commit :: "bool \<Rightarrow> bool \<Rightarrow> ('l, 'p) DisplayQueue \<Rightarrow> ('l, 'p) DisplayQueue" where
  "release_after_commit idle validated q0 =
     (if idle then
        (let q = ReleaseSurfaces q0;
             q = q\<lparr>state := insert kLastFrameIdleUpdate (state q)\<rparr>
         in if kClonedMode \<in> state q then set_tracker_state (insert kRenderIdleDisplay) q else q)
      else ReleaseSurfacesAsNeeded validated (q0\<lparr>state := state q0 - {kLastFrameIdleUpdate}\<rparr>))"

text \<open>Lines 725--775: what follows a commit that passed, up to the fences.\<close>

definition publish ::
  "('l, 'p) plane_api \<Rightarrow> ('h, 'l, 'p) locals \<Rightarrow> ('h, 'l, 'p) locals" where
  "publish P b0 =
     (let b = swap_frame (b0\<lparr>queue := mark_surfaces_not_inuse (queue b0)\<rparr>)
      in b\<lparr>queue := release_after_commit (idle_frame b) (validate_layers b)
                       (swap_surfaces_not_inuse (UpdateOnScreenSurfaces P (queue b)))\<rparr>)"

text \<open>Lines 777--801: the fences and the lazy initialisation.\<close>

definition hand_out_fences ::
  "('l, 'p) plane_api \<Rightarrow> ('h, 'l) layer_api \<Rightarrow> ('l, 'p) services \<Rightarrow> int \<Rightarrow> ('h, 'l, 'p) locals
    \<Rightarrow> ('h, 'l, 'p) locals option" where
  "hand_out_fences P L M fence b =
     (if fence > 0 then
        let b = (if kClonedMode \<notin> state (queue b)
                 then (let (fd, q) = call_dup M fence (queue b) in b\<lparr>retire_fence := fd, queue := q\<rparr>)
                 else b);
            b = b\<lparr>queue := (queue b)\<lparr>kms_fence := fence\<rparr>\<rparr>
        in case SetReleaseFenceToLayers P L M fence (source_layers b) (queue b) of
             None \<Rightarrow> None
           | Some (sources, q) \<Rightarrow> Some (b\<lparr>source_layers := sources, queue := q\<rparr>)
      else Some b)"

definition finish_frame :: "('l, 'p) services \<Rightarrow> ('h, 'l, 'p) locals \<Rightarrow> ('h, 'l, 'p) outcome" where
  "finish_frame M b =
     (let q = (if ENABLE_DOUBLE_BUFFERING M then wait_kms_fence (queue b) else queue b);
          q = (if handle_display_initializations q
               then emit Display_HandleLazyInitialization (q\<lparr>handle_display_initializations := False\<rparr>)
               else q)
      in leave True (b\<lparr>queue := q\<rparr>))"

definition post_commit ::
  "('l, 'p) plane_api \<Rightarrow> ('h, 'l) layer_api \<Rightarrow> ('l, 'p) services \<Rightarrow> int \<Rightarrow> ('h, 'l, 'p) locals
    \<Rightarrow> ('h, 'l, 'p) outcome option" where
  "post_commit P L M fence b =
     (case hand_out_fences P L M fence (publish P b) of
        None \<Rightarrow> None
      | Some b' \<Rightarrow> Some (finish_frame M b'))"

text \<open>Lines 405--801: a frame that is not ignored, from the layers that were built.\<close>

definition present ::
  "('l, 'p) plane_api \<Rightarrow> ('h, 'l) layer_api \<Rightarrow> ('l, 'p) services \<Rightarrow> ('h, 'l, 'p) locals
    \<Rightarrow> ('h, 'l, 'p) outcome option" where
  "present P L M b0 =
     (case incremental P L M b0 of
        Raise \<Rightarrow> None
      | Return r \<Rightarrow> Some r
      | Continue b1 \<Rightarrow>
          (case full_validation P M b1 of
             None \<Rightarrow> None
           | Some b2 \<Rightarrow>
               (case gpu_pass L M b2 of
                  Raise \<Rightarrow> None
                | Return r \<Rightarrow> Some r
                | Continue b3 \<Rightarrow>
                    (case commit M b3 of
                       Raise \<Rightarrow> None
                     | Return r \<Rightarrow> Some r
                     | Continue (fence, b4) \<Rightarrow> post_commit P L M fence b4))))"

text \<open>
  QueueUpdate. The scoped tracker is constructed first and destroyed when the function
  returns, on every path. \<open>None\<close> is an exception that leaves the function. On the path
  that ignores the update the function returns before it writes \<^verbatim>\<open>*retire_fence\<close>, so
  the caller keeps the value it passed in.
\<close>

definition tracker_acquire :: "('l, 'p) services \<Rightarrow> ('l, 'p) DisplayQueue \<Rightarrow> ('l, 'p) DisplayQueue" where
  "tracker_acquire M q = emit Tracker_Acquire (q\<lparr>idle_tracker := Tracker_ctor M q\<rparr>)"

definition tracker_release :: "('l, 'p) services \<Rightarrow> ('l, 'p) DisplayQueue \<Rightarrow> ('l, 'p) DisplayQueue" where
  "tracker_release M q = emit Tracker_Release (q\<lparr>idle_tracker := Tracker_dtor M q\<rparr>)"

definition ignored :: "('l, 'p) services \<Rightarrow> ('l, 'p) DisplayQueue \<Rightarrow> bool" where
  "ignored M q = IgnoreUpdate M (idle_tracker (tracker_acquire M q))"

definition QueueUpdate ::
  "('l, 'p) plane_api \<Rightarrow> ('h, 'l) layer_api \<Rightarrow> ('l, 'p) services \<Rightarrow> 'h HwcLayer list \<Rightarrow> int \<Rightarrow> bool
    \<Rightarrow> bool \<Rightarrow> ('l, 'p) DisplayQueue \<Rightarrow> ('h, 'l, 'p) outcome option" where
  "QueueUpdate P L M sources fence idle_update handle_constraints q =
     (case (if ignored M q
            then Some \<lparr>returned = True, retire_fence_out = fence, source_layers_out = sources,
                       queue_out = tracker_acquire M q\<rparr>
            else present P L M
                   (build_frame L M sources idle_update handle_constraints (tracker_acquire M q))) of
        None \<Rightarrow> None
      | Some r \<Rightarrow> Some (r\<lparr>queue_out := tracker_release M (queue_out r)\<rparr>))"

subsection \<open>Predicates on the log\<close>

definition is_close :: "event \<Rightarrow> bool" where
  "is_close e = (case e of Sys_close _ \<Rightarrow> True | _ \<Rightarrow> False)"

definition is_commit :: "event \<Rightarrow> bool" where
  "is_commit e = (case e of Display_Commit _ _ _ \<Rightarrow> True | _ \<Rightarrow> False)"

definition is_gpu_pass :: "event \<Rightarrow> bool" where
  "is_gpu_pass e = (case e of Compositor_BeginFrame _ _ \<Rightarrow> True | Compositor_Draw _ \<Rightarrow> True | _ \<Rightarrow> False)"

definition is_fence_handout :: "event \<Rightarrow> bool" where
  "is_fence_handout e =
     (case e of Sys_dup _ _ \<Rightarrow> True | Plane_ReleaseAcquireFence _ _ \<Rightarrow> True | _ \<Rightarrow> False)"

definition is_color_push :: "event \<Rightarrow> bool" where
  "is_color_push e =
     (case e of Display_SetColorCorrection _ _ _ \<Rightarrow> True
      | Display_SetColorTransformMatrix _ _ \<Rightarrow> True | _ \<Rightarrow> False)"

text \<open>A GPU pass or a commit that reports failure.\<close>

definition is_failure :: "event \<Rightarrow> bool" where
  "is_failure e =
     (case e of Compositor_BeginFrame _ ok \<Rightarrow> \<not> ok | Compositor_Draw ok \<Rightarrow> \<not> ok
      | Display_Commit _ ok _ \<Rightarrow> \<not> ok | _ \<Rightarrow> False)"

text \<open>The calls of the phases that come before the GPU pass: building the layers,
  patching or validating the plan.\<close>

definition is_planning :: "event \<Rightarrow> bool" where
  "is_planning e =
     (case e of
        Lock _ \<Rightarrow> True | Unlock _ \<Rightarrow> True | Tracker_Acquire \<Rightarrow> True | Tracker_Release \<Rightarrow> True
      | Compositor_UpdateLayerPixelData \<Rightarrow> True
      | PlaneManager_ValidateLayers _ _ \<Rightarrow> True | PlaneManager_ReValidatePlanes \<Rightarrow> True
      | PlaneManager_MarkSurfacesForRecycling _ \<Rightarrow> True
      | PlaneManager_SetOffScreenPlaneTarget _ \<Rightarrow> True | Plane_SetInUse _ _ \<Rightarrow> True
      | OverlayLayer_Initialize _ _ \<Rightarrow> True | Buffer_CreateFrameBuffer _ _ \<Rightarrow> True
      | _ \<Rightarrow> False)"

text \<open>What a GPU pass that went well leaves in the log, and what the bookkeeping around
  a commit leaves there.\<close>

definition is_rendering :: "event \<Rightarrow> bool" where
  "is_rendering e =
     (case e of Compositor_BeginFrame _ ok \<Rightarrow> ok | Compositor_Draw ok \<Rightarrow> ok
      | Compositor_EnsurePixelDataUpdated \<Rightarrow> True | _ \<Rightarrow> False)"

definition is_housekeeping :: "event \<Rightarrow> bool" where
  "is_housekeeping e =
     (case e of PlaneManager_ReleaseFreeOffScreenTargets \<Rightarrow> True | Sys_dup _ _ \<Rightarrow> True
      | Plane_ReleaseAcquireFence _ _ \<Rightarrow> True | Sys_close _ \<Rightarrow> True | Sys_HWCPoll _ \<Rightarrow> True
      | Display_HandleLazyInitialization \<Rightarrow> True | _ \<Rightarrow> False)"

text \<open>\<open>extends p q q'\<close>: the log of \<open>q'\<close> is the log of \<open>q\<close> followed by calls that
  satisfy \<open>p\<close>.\<close>

definition extends :: "(event \<Rightarrow> bool) \<Rightarrow> ('l, 'p) DisplayQueue \<Rightarrow> ('l, 'p) DisplayQueue \<Rightarrow> bool" where
  "extends p q q' = (\<exists>evs. calls q' = calls q @ evs \<and> list_all p evs)"

text \<open>
  \<open>kept\<close> is what the planning phases of a frame leave alone: every data member but
  \<open>surfaces_not_inuse_\<close>, \<open>idle_tracker_\<close> and \<open>applied_video_effect_\<close>. \<open>plans q q'\<close>
  says that \<open>q'\<close> comes from \<open>q\<close> by planning only.
\<close>

definition kept where
  "kept q = (state q, scaling_tracker q, in_flight_layers q, previous_plane_state q,
     mark_not_inuse q, kms_fence q, last_commit_failed_update q, requested_video_effect q,
     handle_display_initializations q, gamma q, contrast q, brightness q,
     color_transform_matrix q, color_transform_hint q, plane_transform q, gpu_fd q,
     refresh_callback q, refrsh_display_id q, surface_age q)"

definition plans :: "('l, 'p) DisplayQueue \<Rightarrow> ('l, 'p) DisplayQueue \<Rightarrow> bool" where
  "plans q q' =
     (kept q' = kept q \<and> (\<exists>evs. calls q' = calls q @ evs \<and> list_all is_planning evs))"

text \<open>\<open>settles q q'\<close>: \<open>q'\<close> comes from \<open>q\<close> by handing out fences.\<close>

definition settles :: "('l, 'p) DisplayQueue \<Rightarrow> ('l, 'p) DisplayQueue \<Rightarrow> bool" where
  "settles q q' =
     (state q' = state q \<and> kms_fence q' = kms_fence q \<and>
      previous_plane_state q' = previous_plane_state q \<and> extends is_housekeeping q q')"

text \<open>What the queue calls right before a commit: the wait for a pending kms fence (not
  when ENABLE\_DOUBLE\_BUFFERING is defined) and the colour settings when NeedsColorCorrection
  is set.\<close>

definition fence_wait :: "('l, 'p) services \<Rightarrow> ('l, 'p) DisplayQueue \<Rightarrow> event list" where
  "fence_wait M q =
     (if \<not> ENABLE_DOUBLE_BUFFERING M \<and> 0 < kms_fence q
      then [Sys_HWCPoll (kms_fence q), Sys_close (kms_fence q)] else [])"

definition color_calls :: "('l, 'p) DisplayQueue \<Rightarrow> event list" where
  "color_calls q =
     (if kNeedsColorCorrection \<in> state q
      then [Display_SetColorCorrection (gamma q) (contrast q) (brightness q),
            Display_SetColorTransformMatrix (color_transform_matrix q) (color_transform_hint q)]
      else [])"

text \<open>The guards at the head of HandleIdleCase, and the condition under which it calls
  the refresh callback.\<close>

definition idle_blocked :: "FrameStateTracker \<Rightarrow> bool" where
  "idle_blocked t =
     (kPrepareComposition \<in> tracker_state t \<or> total_planes t \<le> 1 \<or>
      kTrackingFrames \<in> tracker_state t \<or> kRevalidateLayers \<in> tracker_state t \<or>
      has_cursor_layer t)"

definition idle_fires :: "('l, 'p) services \<Rightarrow> ('l, 'p) DisplayQueue \<Rightarrow> bool" where
  "idle_fires M q =
     (\<not> idle_blocked (idle_tracker q) \<and> idle_frames (idle_tracker q) = kidleframes M \<and>
      kIgnoreIdleRefresh \<notin> state q \<and> refresh_callback q \<noteq> None \<and> kPoweredOn \<in> state q)"

subsection \<open>A small display to run the model on\<close>

text \<open>
  Concrete collaborators for the closed examples: a layer remembers the buffer it shows
  and counts as changed when the buffer differs from the one before; the plane manager
  gives every layer its own scan-out plane; the display answers every commit with the
  result it is built with. The tracker's constructor and destructor leave the tracker
  alone and its three tests read the bits of the same names.
\<close>

record sample_layer =
  sl_zorder :: nat
  sl_index :: nat
  sl_buffer :: nat
  sl_changed :: bool
  sl_frame :: HwcRect

record sample_plane =
  sp_plane :: nat
  sp_layers :: "nat list"
  sp_surfaces :: "nat list"
  sp_offscreen :: bool

definition sample_planes :: "(sample_layer, sample_plane) plane_api" where
  "sample_planes =
     \<lparr>GetSourceLayers = sp_layers, GetSurfaces = sp_surfaces, GetDisplayPlane = sp_plane,
      NeedsOffScreenComposition = sp_offscreen, RevalidationType = (\<lambda>p. {}),
      NeedsSurfaceAllocation = (\<lambda>p. sp_offscreen p \<and> sp_surfaces p = []),
      SurfaceRecycled = (\<lambda>p. False), IsCursorPlane = (\<lambda>p. False), IsVideoPlane = (\<lambda>p. False),
      CanSquash = (\<lambda>p. False), Scanout = (\<lambda>p. \<not> sp_offscreen p),
      GetOffScreenTarget = (\<lambda>p. sp_surfaces p \<noteq> []), CopyState = (\<lambda>p. p),
      ResetLayers = (\<lambda>ls n p. p\<lparr>sp_layers := filter (\<lambda>i. i < n) (sp_layers p)\<rparr>),
      ValidateReValidation = (\<lambda>p. p), RevalidationDone = (\<lambda>t p. p),
      UpdateDisplayFrame = (\<lambda>r full p. p), UpdateSourceCrop = (\<lambda>r full p. p),
      RefreshSurfaces = (\<lambda>c r p. p), UpdateDamage = (\<lambda>r p. p), SetOverlayLayer = (\<lambda>l p. p),
      AddLayer = (\<lambda>l p. p\<lparr>sp_layers := sp_layers p @ [sl_zorder l]\<rparr>),
      SetApplyEffects = (\<lambda>a p. p)\<rparr>"

definition sample_init ::
  "nat HwcLayer \<Rightarrow> sample_layer option \<Rightarrow> nat \<Rightarrow> nat \<Rightarrow> sample_layer" where
  "sample_init layer previous z i =
     \<lparr>sl_zorder = z, sl_index = i, sl_buffer = handle layer,
      sl_changed = (case previous of None \<Rightarrow> True | Some p \<Rightarrow> sl_buffer p \<noteq> handle layer),
      sl_frame = display_frame layer\<rparr>"

definition sample_layers :: "(nat, sample_layer) layer_api" where
  "sample_layers =
     \<lparr>IsVisible = (\<lambda>l. True), RawPixelDataChanged = (\<lambda>l. False), IsVideoLayer = (\<lambda>l. False),
      NeedsRevalidation = (\<lambda>l. False), HasLayerContentChanged = sl_changed,
      IsCursorLayer = (\<lambda>l. False), HasDimensionsChanged = (\<lambda>l. False),
      NeedsFullDraw = (\<lambda>l. False), HasSourceRectChanged = (\<lambda>l. False), CanScanOut = (\<lambda>l. True),
      GetZorder = sl_zorder, GetLayerIndex = sl_index, GetDisplayFrame = sl_frame,
      GetSourceCrop = (\<lambda>l. (0, 0, 0, 0)), GetSurfaceDamage = sl_frame, GetBuffer = sl_buffer,
      InitializeFromHwcLayer = (\<lambda>log layer previous z i height transform constraints.
                                  sample_init layer previous z i),
      InitializeFromScaledHwcLayer = (\<lambda>log layer previous z i frame height transform constraints.
                                        sample_init layer previous z i),
      SetLayerComposition = (\<lambda>c l. l), ReleaseAcquireFence = (\<lambda>l. (- 1, l))\<rparr>"

definition sample_plan :: "sample_layer list \<Rightarrow> sample_plane list" where
  "sample_plan ls =
     map (\<lambda>l. \<lparr>sp_plane = sl_zorder l, sp_layers = [sl_zorder l], sp_surfaces = [],
               sp_offscreen = False\<rparr>) ls"

definition sample_services :: "bool \<times> int \<Rightarrow> (sample_layer, sample_plane) services" where
  "sample_services commit_result =
     \<lparr>kidleframes = 2, ENABLE_DOUBLE_BUFFERING = False,
      Tracker_ctor = idle_tracker, Tracker_dtor = idle_tracker,
      IgnoreUpdate = (\<lambda>t. kIgnoreUpdates \<in> tracker_state t),
      RenderIdleMode = (\<lambda>t. kRenderIdleDisplay \<in> tracker_state t),
      RevalidateLayers = (\<lambda>t. kRevalidateLayers \<in> tracker_state t),
      ResetTrackerState = (\<lambda>t. t\<lparr>tracker_state := tracker_state t \<inter> {kIgnoreUpdates},
                                  revalidate_frames_counter := 0\<rparr>),
      GetHeight = (\<lambda>log. 1080), GetGpuFd = (\<lambda>log. 3), HasSurfaces = (\<lambda>log. False),
      MarkSurfacesForRecycling = (\<lambda>log p unused immediate. (p\<lparr>sp_surfaces := []\<rparr>, unused @ sp_surfaces p)),
      SetOffScreenPlaneTarget = (\<lambda>log p. p\<lparr>sp_surfaces := [3 * sp_plane p, 3 * sp_plane p + 1, 3 * sp_plane p + 2]\<rparr>),
      ValidateLayers = (\<lambda>log ls i force flag1 flag2 current previous unused.
                          (False, flag1, flag2,
                           (if i \<le> 0 then [] else current) @ sample_plan (drop (nat i) ls), unused)),
      ReValidatePlanes = (\<lambda>log current ls unused validate needs_validation re_validate.
                            (False, validate, current, unused)),
      BeginFrame = (\<lambda>log disable. True), Draw = (\<lambda>log planes ls rects. True),
      Commit = (\<lambda>log current previous disable. commit_result),
      GetFb = (\<lambda>log buffer. buffer + 1), OverlayReleaseAcquireFence = (\<lambda>log p. - 1),
      Sys_dup_result = (\<lambda>log fd. fd + 100), CalculateRect = (\<lambda>a b. b),
      RectEmpty = (\<lambda>(l, t, r, b). r \<le> l \<or> b \<le> t), ScaleDisplayFrame = (\<lambda>r w h. r)\<rparr>"

definition sample_queue :: "(sample_layer, sample_plane) DisplayQueue" where
  "sample_queue =
     \<lparr>state = {kPoweredOn},
      idle_tracker = \<lparr>idle_frames = 0, tracker_state = {}, revalidate_frames_counter = 0,
                       has_cursor_layer = False, total_planes = 2\<rparr>,
      scaling_tracker = \<lparr>scaling_state = kNeeedsNoSclaing, scaling_width = 0, scaling_height = 0\<rparr>,
      in_flight_layers = [], previous_plane_state = [], mark_not_inuse = [],
      surfaces_not_inuse = [], kms_fence = 0, last_commit_failed_update = False,
      applied_video_effect = False, requested_video_effect = False,
      handle_display_initializations = False, gamma = (1, 1, 1), contrast = 8421504,
      brightness = 8421504, color_transform_matrix = [], color_transform_hint = kIdentical,
      plane_transform = 0, gpu_fd = 3, refresh_callback = Some 1, refrsh_display_id = 0,
      surface_age = (\<lambda>surface. 0), calls = []\<rparr>"

definition sample_source :: "nat \<Rightarrow> nat HwcLayer" where
  "sample_source buffer =
     \<lparr>visible = True, display_frame = (0, 0, 1920, 1080), release_fd = 5, handle = buffer\<rparr>"

definition sample_idle :: "nat \<Rightarrow> (sample_layer, sample_plane) DisplayQueue" where
  "sample_idle n = sample_queue\<lparr>idle_tracker := (idle_tracker sample_queue)\<lparr>idle_frames := n\<rparr>\<rparr>"

definition sample_triple :: sample_plane where
  "sample_triple = \<lparr>sp_plane = 0, sp_layers = [0, 1], sp_surfaces = [10, 11, 12], sp_offscreen = True\<rparr>"

definition sample_single :: sample_plane where
  "sample_single = \<lparr>sp_plane = 1, sp_layers = [2, 3], sp_surfaces = [7], sp_offscreen = True\<rparr>"

definition sample_composed :: "(sample_layer, sample_plane) DisplayQueue" where
  "sample_composed = sample_queue\<lparr>previous_plane_state := [sample_triple, sample_single]\<rparr>"

definition sample_pending :: "(sample_layer, sample_plane) DisplayQueue" where
  "sample_pending = sample_queue\<lparr>state := {kPoweredOn, kClonedMode, kReleaseSurfaces}, kms_fence := 9\<rparr>"

text \<open>A queue in the middle of a run: one layer with the buffer 40 is in flight on its
  own plane and the fence 9 of the last commit is pending.\<close>

definition sample_shown :: sample_layer where
  "sample_shown =
     \<lparr>sl_zorder = 0, sl_index = 0, sl_buffer = 40, sl_changed = True, sl_frame = (0, 0, 1920, 1080)\<rparr>"

definition sample_steady :: "(sample_layer, sample_plane) DisplayQueue" where
  "sample_steady =
     sample_queue\<lparr>in_flight_layers := [sample_shown], previous_plane_state := sample_plan [sample_shown],
                  kms_fence := 9\<rparr>"

section \<open>Properties\<close>

lemma calls_emit [simp]: "calls (emit e q) = calls q @ [e]"
  by (simp add: emit_def)

lemma members_emit [simp]: "members (emit e q) = members q"
  by (simp add: emit_def members_def)

lemma members_calls [simp]: "members (q\<lparr>calls := c\<rparr>) = members q"
  by (simp add: members_def)

lemma new_events_append: "calls q' = calls q @ evs \<Longrightarrow> new_events q q' = evs"
  by (simp add: new_events_def)

text \<open>C5 (as amended). SetVideoColor and SetVideoDeinterlace set requested_video_effect_, RestoreVideoDefaultColor and RestoreVideoDefaultDeinterlace clear it, and SetVideoScalingMode leaves it as it is (the assignment is commented out in the code). Each of the five takes the video lock, calls the compositor and releases the lock, in this order.\<close>

theorem video_controls:
  "requested_video_effect (SetVideoColor color v q) = True \<and>
   requested_video_effect (SetVideoDeinterlace flag mode q) = True \<and>
   requested_video_effect (SetVideoScalingMode m q) = requested_video_effect q \<and>
   requested_video_effect (RestoreVideoDefaultColor color q) = False \<and>
   requested_video_effect (RestoreVideoDefaultDeinterlace q) = False \<and>
   new_events q (SetVideoColor color v q) =
     [Lock video_lock, Compositor_SetVideoColor color v, Unlock video_lock] \<and>
   new_events q (SetVideoDeinterlace flag mode q) =
     [Lock video_lock, Compositor_SetVideoDeinterlace flag mode, Unlock video_lock] \<and>
   new_events q (SetVideoScalingMode m q) =
     [Lock video_lock, Compositor_SetVideoScalingMode m, Unlock video_lock] \<and>
   new_events q (RestoreVideoDefaultColor color q) =
     [Lock video_lock, Compositor_RestoreVideoDefaultColor color, Unlock video_lock] \<and>
   new_events q (RestoreVideoDefaultDeinterlace q) =
     [Lock video_lock, Compositor_RestoreVideoDefaultDeinterlace, Unlock video_lock]"
  by (simp add: SetVideoColor_def SetVideoDeinterlace_def SetVideoScalingMode_def
      RestoreVideoDefaultColor_def RestoreVideoDefaultDeinterlace_def new_events_def emit_def)

lemma emit_fields [simp]:
  "state (emit e q) = state q" "idle_tracker (emit e q) = idle_tracker q"
  "scaling_tracker (emit e q) = scaling_tracker q"
  "in_flight_layers (emit e q) = in_flight_layers q"
  "previous_plane_state (emit e q) = previous_plane_state q"
  "mark_not_inuse (emit e q) = mark_not_inuse q"
  "surfaces_not_inuse (emit e q) = surfaces_not_inuse q" "kms_fence (emit e q) = kms_fence q"
  "last_commit_failed_update (emit e q) = last_commit_failed_update q"
  "applied_video_effect (emit e q) = applied_video_effect q"
  "requested_video_effect (emit e q) = requested_video_effect q"
  "handle_display_initializations (emit e q) = handle_display_initializations q"
  "gamma (emit e q) = gamma q" "contrast (emit e q) = contrast q"
  "brightness (emit e q) = brightness q"
  "color_transform_matrix (emit e q) = color_transform_matrix q"
  "color_transform_hint (emit e q) = color_transform_hint q"
  "plane_transform (emit e q) = plane_transform q" "gpu_fd (emit e q) = gpu_fd q"
  "refresh_callback (emit e q) = refresh_callback q"
  "refrsh_display_id (emit e q) = refrsh_display_id q" "surface_age (emit e q) = surface_age q"
  by (simp_all add: emit_def)

lemma members_eqI:
  "\<lbrakk>state q = state q'; idle_tracker q = idle_tracker q'; scaling_tracker q = scaling_tracker q';
    in_flight_layers q = in_flight_layers q'; previous_plane_state q = previous_plane_state q';
    mark_not_inuse q = mark_not_inuse q'; surfaces_not_inuse q = surfaces_not_inuse q';
    kms_fence q = kms_fence q'; last_commit_failed_update q = last_commit_failed_update q';
    applied_video_effect q = applied_video_effect q'; requested_video_effect q = requested_video_effect q';
    handle_display_initializations q = handle_display_initializations q';
    gamma q = gamma q'; contrast q = contrast q'; brightness q = brightness q';
    color_transform_matrix q = color_transform_matrix q'; color_transform_hint q = color_transform_hint q';
    plane_transform q = plane_transform q'; gpu_fd q = gpu_fd q';
    refresh_callback q = refresh_callback q'; refrsh_display_id q = refrsh_display_id q';
    surface_age q = surface_age q'; DisplayQueue.more q = DisplayQueue.more q'\<rbrakk>
   \<Longrightarrow> members q = members q'"
  unfolding members_def by (rule DisplayQueue.equality; simp)

lemma ResetQueue_fields [simp]:
  "state (ResetQueue M q) = state q" "kms_fence (ResetQueue M q) = kms_fence q"
  "scaling_tracker (ResetQueue M q) = scaling_tracker q"
  "requested_video_effect (ResetQueue M q) = requested_video_effect q"
  "handle_display_initializations (ResetQueue M q) = handle_display_initializations q"
  "gamma (ResetQueue M q) = gamma q" "contrast (ResetQueue M q) = contrast q"
  "brightness (ResetQueue M q) = brightness q"
  "color_transform_matrix (ResetQueue M q) = color_transform_matrix q"
  "color_transform_hint (ResetQueue M q) = color_transform_hint q"
  "plane_transform (ResetQueue M q) = plane_transform q" "gpu_fd (ResetQueue M q) = gpu_fd q"
  "refresh_callback (ResetQueue M q) = refresh_callback q"
  "refrsh_display_id (ResetQueue M q) = refrsh_display_id q"
  "surface_age (ResetQueue M q) = surface_age q"
  "in_flight_layers (ResetQueue M q) = []" "previous_plane_state (ResetQueue M q) = []"
  "mark_not_inuse (ResetQueue M q) = []" "surfaces_not_inuse (ResetQueue M q) = []"
  "applied_video_effect (ResetQueue M q) = False" "last_commit_failed_update (ResetQueue M q) = False"
  "idle_tracker (ResetQueue M q) =
     (idle_tracker q)\<lparr>tracker_state := tracker_state (idle_tracker q) \<inter> {kIgnoreUpdates}, idle_frames := 0\<rparr>"
  by (simp_all add: ResetQueue_def Let_def set_tracker_state_def)

lemma exit_state_eq:
  "(if kClonedMode \<in> S then insert kClonedMode
        (if kDisableOverlayUsage \<in> S then {kDisableOverlayUsage, kConfigurationChanged} else {kConfigurationChanged})
    else (if kDisableOverlayUsage \<in> S then {kDisableOverlayUsage, kConfigurationChanged} else {kConfigurationChanged}))
   = insert kConfigurationChanged (S \<inter> {kDisableOverlayUsage, kClonedMode})"
  by auto

lemma HandleExit_fields [simp]:
  "scaling_tracker (HandleExit M q) = scaling_tracker q"
  "requested_video_effect (HandleExit M q) = requested_video_effect q"
  "handle_display_initializations (HandleExit M q) = handle_display_initializations q"
  "gamma (HandleExit M q) = gamma q" "contrast (HandleExit M q) = contrast q"
  "brightness (HandleExit M q) = brightness q"
  "color_transform_matrix (HandleExit M q) = color_transform_matrix q"
  "color_transform_hint (HandleExit M q) = color_transform_hint q"
  "plane_transform (HandleExit M q) = plane_transform q" "gpu_fd (HandleExit M q) = gpu_fd q"
  "refresh_callback (HandleExit M q) = refresh_callback q"
  "refrsh_display_id (HandleExit M q) = refrsh_display_id q"
  "surface_age (HandleExit M q) = surface_age q"
  "in_flight_layers (HandleExit M q) = []" "previous_plane_state (HandleExit M q) = []"
  "mark_not_inuse (HandleExit M q) = []" "surfaces_not_inuse (HandleExit M q) = []"
  "applied_video_effect (HandleExit M q) = False" "last_commit_failed_update (HandleExit M q) = False"
  "idle_tracker (HandleExit M q) =
     (idle_tracker q)\<lparr>tracker_state := tracker_state (idle_tracker q) \<inter> {kIgnoreUpdates}, idle_frames := 0\<rparr>"
  "kms_fence (HandleExit M q) = (if kms_fence q > 0 then 0 else kms_fence q)"
  by (simp_all add: HandleExit_def Let_def)

lemma HandleExit_state [simp]:
  "state (HandleExit M q) = insert kConfigurationChanged (state q \<inter> {kDisableOverlayUsage, kClonedMode})"
  by (auto simp add: HandleExit_def Let_def)

lemma ResetQueue_calls:
  "calls (ResetQueue M q) =
     calls q @ (if HasSurfaces M (calls q) then [PlaneManager_ReleaseAllOffScreenTargets] else [])
       @ [ResourceManager_PurgeBuffer, Compositor_Reset]"
  by (simp add: ResetQueue_def Let_def set_tracker_state_def)

lemma HandleExit_calls:
  "\<exists>rest. calls (HandleExit M q) =
     calls q @ [Lock power_mode_lock, Unlock power_mode_lock, Vblank_SetPowerMode kOff]
       @ (if previous_plane_state q \<noteq> [] then [Display_Disable] else [])
       @ (if 0 < kms_fence q then [Sys_close (kms_fence q)] else [])
       @ rest \<and> filter is_close rest = []"
  by (simp add: HandleExit_def Let_def ResetQueue_calls is_close_def)

lemma HandleExit_closes:
  "filter is_close (new_events q (HandleExit M q)) =
     (if 0 < kms_fence q then [Sys_close (kms_fence q)] else [])"
proof -
  obtain rest where "calls (HandleExit M q) =
     calls q @ [Lock power_mode_lock, Unlock power_mode_lock, Vblank_SetPowerMode kOff]
       @ (if previous_plane_state q \<noteq> [] then [Display_Disable] else [])
       @ (if 0 < kms_fence q then [Sys_close (kms_fence q)] else [])
       @ rest" and "filter is_close rest = []"
    using HandleExit_calls by blast
  then show ?thesis
    by (simp add: new_events_def is_close_def)
qed

text \<open>C8. HandleExit twice leaves the data members as HandleExit once does. The first call closes a pending kms fence once and the second call closes nothing. After one call the state word is ConfigurationChanged together with those of DisableOverlayUsage and ClonedMode that were set before, and in_flight_layers_, previous_plane_state_, mark_not_inuse_ and surfaces_not_inuse_ are empty.\<close>

theorem HandleExit_idempotent:
  "members (HandleExit M (HandleExit M q)) = members (HandleExit M q) \<and>
   filter is_close (new_events q (HandleExit M q)) =
     (if 0 < kms_fence q then [Sys_close (kms_fence q)] else []) \<and>
   filter is_close (new_events (HandleExit M q) (HandleExit M (HandleExit M q))) = [] \<and>
   state (HandleExit M q) =
     insert kConfigurationChanged (state q \<inter> {kDisableOverlayUsage, kClonedMode}) \<and>
   in_flight_layers (HandleExit M q) = [] \<and> previous_plane_state (HandleExit M q) = [] \<and>
   mark_not_inuse (HandleExit M q) = [] \<and> surfaces_not_inuse (HandleExit M q) = []"
proof -
  have "members (HandleExit M (HandleExit M q)) = members (HandleExit M q)"
    by (rule members_eqI; simp)
  moreover have "filter is_close (new_events (HandleExit M q) (HandleExit M (HandleExit M q))) = []"
    by (simp add: HandleExit_closes)
  ultimately show ?thesis
    by (simp add: HandleExit_closes)
qed

lemma HandleIdleCase_fields [simp]:
  "state (HandleIdleCase M q) = state q"
  "scaling_tracker (HandleIdleCase M q) = scaling_tracker q"
  "in_flight_layers (HandleIdleCase M q) = in_flight_layers q"
  "previous_plane_state (HandleIdleCase M q) = previous_plane_state q"
  "mark_not_inuse (HandleIdleCase M q) = mark_not_inuse q"
  "surfaces_not_inuse (HandleIdleCase M q) = surfaces_not_inuse q"
  "kms_fence (HandleIdleCase M q) = kms_fence q"
  "last_commit_failed_update (HandleIdleCase M q) = last_commit_failed_update q"
  "applied_video_effect (HandleIdleCase M q) = applied_video_effect q"
  "requested_video_effect (HandleIdleCase M q) = requested_video_effect q"
  "handle_display_initializations (HandleIdleCase M q) = handle_display_initializations q"
  "gamma (HandleIdleCase M q) = gamma q" "contrast (HandleIdleCase M q) = contrast q"
  "brightness (HandleIdleCase M q) = brightness q"
  "color_transform_matrix (HandleIdleCase M q) = color_transform_matrix q"
  "color_transform_hint (HandleIdleCase M q) = color_transform_hint q"
  "plane_transform (HandleIdleCase M q) = plane_transform q"
  "gpu_fd (HandleIdleCase M q) = gpu_fd q"
  "refresh_callback (HandleIdleCase M q) = refresh_callback q"
  "refrsh_display_id (HandleIdleCase M q) = refrsh_display_id q"
  "surface_age (HandleIdleCase M q) = surface_age q"
  by (simp_all add: HandleIdleCase_def Let_def set_tracker_state_def)

lemma HandleIdleCase_tracker:
  "idle_tracker (HandleIdleCase M q) =
     (if idle_blocked (idle_tracker q) \<or> kidleframes M < idle_frames (idle_tracker q) then idle_tracker q
      else (idle_tracker q)\<lparr>idle_frames := (idle_frames (idle_tracker q) + 1) mod 2 ^ 32,
             tracker_state := (if idle_fires M q then insert kPrepareIdleComposition (tracker_state (idle_tracker q))
                               else tracker_state (idle_tracker q))\<rparr>)"
  by (simp add: HandleIdleCase_def Let_def set_tracker_state_def idle_blocked_def idle_fires_def)

lemma HandleIdleCase_calls:
  "calls (HandleIdleCase M q) = calls q @
     (if idle_blocked (idle_tracker q) \<or> idle_frames (idle_tracker q) \<noteq> kidleframes M
      then [Lock idle_lock, Unlock idle_lock]
      else if idle_fires M q
      then [Lock idle_lock, Lock power_mode_lock,
            Refresh_Callback (the (refresh_callback q)) (refrsh_display_id q),
            Unlock power_mode_lock, Unlock idle_lock]
      else [Lock idle_lock, Lock power_mode_lock, Unlock power_mode_lock, Unlock idle_lock])"
  by (simp add: HandleIdleCase_def Let_def set_tracker_state_def idle_blocked_def idle_fires_def)

lemma idle_run_fields [simp]:
  "state (idle_run M n q) = state q" "refresh_callback (idle_run M n q) = refresh_callback q"
  by (induction n arbitrary: q) simp_all

lemma HandleIdleCase_extends: "\<exists>evs. calls (HandleIdleCase M q) = calls q @ evs"
  using HandleIdleCase_calls by blast

lemma idle_run_calls: "\<exists>evs. calls (idle_run M n q) = calls q @ evs"
proof (induction n arbitrary: q)
  case 0
  then show ?case by simp
next
  case (Suc n)
  obtain a where a: "calls (HandleIdleCase M q) = calls q @ a"
    using HandleIdleCase_extends by blast
  obtain b where "calls (idle_run M n (HandleIdleCase M q)) = calls (HandleIdleCase M q) @ b"
    using Suc.IH by blast
  then have "calls (idle_run M (Suc n) q) = calls q @ (a @ b)"
    using a by simp
  then show ?case by blast
qed

lemma new_events_trans:
  "calls q' = calls q @ a \<Longrightarrow> calls q'' = calls q' @ b \<Longrightarrow> new_events q q'' = new_events q q' @ new_events q' q''"
  by (simp add: new_events_def)

lemma idle_run_step:
  "new_events q (idle_run M (Suc n) q) =
     new_events q (HandleIdleCase M q) @ new_events (HandleIdleCase M q) (idle_run M n (HandleIdleCase M q))"
proof -
  obtain a where a: "calls (HandleIdleCase M q) = calls q @ a"
    using HandleIdleCase_extends by blast
  obtain b where b: "calls (idle_run M n (HandleIdleCase M q)) = calls (HandleIdleCase M q) @ b"
    using idle_run_calls by blast
  show ?thesis
    using new_events_trans [OF a b] by simp
qed

lemma HandleIdleCase_refresh:
  "filter is_refresh (new_events q (HandleIdleCase M q)) =
     (if idle_fires M q then [Refresh_Callback (the (refresh_callback q)) (refrsh_display_id q)] else [])"
  by (simp add: new_events_def HandleIdleCase_calls is_refresh_def idle_fires_def)

lemma idle_run_past:
  "kidleframes M < idle_frames (idle_tracker q) \<Longrightarrow>
     filter is_refresh (new_events q (idle_run M n q)) = []"
proof (induction n arbitrary: q)
  case 0
  then show ?case by (simp add: new_events_def)
next
  case (Suc n)
  have t: "idle_tracker (HandleIdleCase M q) = idle_tracker q"
    using Suc.prems by (simp add: HandleIdleCase_tracker)
  have "\<not> idle_fires M q"
    using Suc.prems by (simp add: idle_fires_def)
  then show ?case
    using Suc.IH [of "HandleIdleCase M q"] Suc.prems t
    by (simp only: idle_run_step filter_append HandleIdleCase_refresh) simp
qed

lemma idle_run_once:
  "kidleframes M < 2 ^ 32 - 1 \<Longrightarrow> length (filter is_refresh (new_events q (idle_run M n q))) \<le> 1"
proof (induction n arbitrary: q)
  case 0
  then show ?case by (simp add: new_events_def)
next
  case (Suc n)
  show ?case
  proof (cases "idle_fires M q")
    case True
    then have "kidleframes M < idle_frames (idle_tracker (HandleIdleCase M q))"
      using Suc.prems by (simp add: HandleIdleCase_tracker idle_fires_def)
    then have "filter is_refresh (new_events (HandleIdleCase M q) (idle_run M n (HandleIdleCase M q))) = []"
      by (rule idle_run_past)
    then show ?thesis
      by (simp only: idle_run_step filter_append HandleIdleCase_refresh) simp
  next
    case False
    then show ?thesis
      using Suc.IH [OF Suc.prems, of "HandleIdleCase M q"]
      by (simp only: idle_run_step filter_append HandleIdleCase_refresh) simp
  qed
qed

lemma idle_run_powered:
  "filter is_refresh (new_events q (idle_run M n q)) \<noteq> [] \<Longrightarrow>
     kPoweredOn \<in> state q \<and> kIgnoreIdleRefresh \<notin> state q \<and> refresh_callback q \<noteq> None"
proof (induction n arbitrary: q)
  case 0
  then show ?case by (simp add: new_events_def)
next
  case (Suc n)
  show ?case
  proof (cases "idle_fires M q")
    case True
    then show ?thesis by (simp add: idle_fires_def)
  next
    case False
    then have "filter is_refresh (new_events (HandleIdleCase M q) (idle_run M n (HandleIdleCase M q))) \<noteq> []"
      using Suc.prems
      by (simp only: idle_run_step filter_append HandleIdleCase_refresh) simp
    then show ?thesis
      using Suc.IH [of "HandleIdleCase M q"] by simp
  qed
qed

text \<open>C4 (as amended). Let kidleframes be below 2^32 - 1 and the counter, a uint32_t, below 2^32. When one of the guards holds (composition is being prepared, at most one plane, TrackingFrames, RevalidateLayers, a cursor layer), or when the counter is already past kidleframes, HandleIdleCase changes no data member and only takes and releases the idle lock. Otherwise the counter goes up by one. The refresh callback is called exactly when no guard holds, the counter equals kidleframes, the display is powered on, IgnoreIdleRefresh is clear and a callback is registered; PrepareIdleComposition is set on exactly that call. Over a run of calls with no frame in between the callback is called at most once, and only if the display is powered on and IgnoreIdleRefresh is clear.\<close>

theorem HandleIdleCase_idle:
  assumes "kidleframes M < 2 ^ 32 - 1" and "idle_frames (idle_tracker q) < 2 ^ 32"
  shows "(idle_blocked (idle_tracker q) \<or> kidleframes M < idle_frames (idle_tracker q) \<longrightarrow>
      members (HandleIdleCase M q) = members q \<and>
      new_events q (HandleIdleCase M q) = [Lock idle_lock, Unlock idle_lock]) \<and>
   (\<not> idle_blocked (idle_tracker q) \<and> idle_frames (idle_tracker q) \<le> kidleframes M \<longrightarrow>
      idle_frames (idle_tracker (HandleIdleCase M q)) = idle_frames (idle_tracker q) + 1) \<and>
   filter is_refresh (new_events q (HandleIdleCase M q)) =
     (if idle_fires M q then [Refresh_Callback (the (refresh_callback q)) (refrsh_display_id q)] else []) \<and>
   (kPrepareIdleComposition \<in> tracker_state (idle_tracker (HandleIdleCase M q)) \<longleftrightarrow>
      idle_fires M q \<or> kPrepareIdleComposition \<in> tracker_state (idle_tracker q)) \<and>
   length (filter is_refresh (new_events q (idle_run M n q))) \<le> 1 \<and>
   (filter is_refresh (new_events q (idle_run M n q)) \<noteq> [] \<longrightarrow>
      kPoweredOn \<in> state q \<and> kIgnoreIdleRefresh \<notin> state q)"
proof -
  have noop: "members (HandleIdleCase M q) = members q"
    if "idle_blocked (idle_tracker q) \<or> kidleframes M < idle_frames (idle_tracker q)"
    using that by (intro members_eqI) (simp_all add: HandleIdleCase_tracker)
  have ev: "new_events q (HandleIdleCase M q) = [Lock idle_lock, Unlock idle_lock]"
    if "idle_blocked (idle_tracker q) \<or> kidleframes M < idle_frames (idle_tracker q)"
    using that by (auto simp add: new_events_def HandleIdleCase_calls)
  have inc: "idle_frames (idle_tracker (HandleIdleCase M q)) = idle_frames (idle_tracker q) + 1"
    if "\<not> idle_blocked (idle_tracker q)" "idle_frames (idle_tracker q) \<le> kidleframes M"
    using that assms(1) by (simp add: HandleIdleCase_tracker)
  have prep: "kPrepareIdleComposition \<in> tracker_state (idle_tracker (HandleIdleCase M q)) \<longleftrightarrow>
      idle_fires M q \<or> kPrepareIdleComposition \<in> tracker_state (idle_tracker q)"
    by (auto simp add: HandleIdleCase_tracker idle_fires_def)
  show ?thesis
    apply (intro conjI impI)
          apply (erule noop)
         apply (erule ev)
        apply (erule conjE, erule (1) inc)
       apply (rule HandleIdleCase_refresh)
      apply (rule prep)
     apply (rule idle_run_once [OF assms(1)])
    apply (drule idle_run_powered, simp)+
    done
qed

lemma age_value: "i \<le> 2 ^ 31 \<Longrightarrow> sint (2 - word_of_nat i :: 32 word) = 2 - int i"
proof -
  assume i: "i \<le> 2 ^ 31"
  have "(2 - word_of_nat i :: 32 word) = word_of_int (2 - int i)"
    by simp
  moreover have "signed_take_bit 31 (2 - int i) = 2 - int i"
    using i by (intro signed_take_bit_int_eq_self) auto
  ultimately show ?thesis
    by (simp only: sint_sbintrunc') simp
qed

lemma age_rest_other: "s \<notin> set xs \<Longrightarrow> age_rest i xs ages s = ages s"
  by (induction i xs ages rule: age_rest.induct) auto

lemma age_rest_nth:
  "distinct xs \<Longrightarrow> j < length xs \<Longrightarrow>
     age_rest i xs ages (xs ! j) = sint (2 - word_of_nat (i + j) :: 32 word)"
proof (induction xs arbitrary: i j ages)
  case Nil
  then show ?case by simp
next
  case (Cons x xs)
  show ?case
  proof (cases j)
    case 0
    then show ?thesis using Cons.prems by (simp add: age_rest_other)
  next
    case (Suc k)
    have "age_rest (Suc i) xs (ages(x := sint (2 - word_of_nat i :: 32 word))) (xs ! k) =
            sint (2 - word_of_nat (Suc i + k) :: 32 word)"
      using Cons.prems Suc by (intro Cons.IH) auto
    then show ?thesis using Suc by simp
  qed
qed

lemma age_plane_other: "s \<notin> set xs \<Longrightarrow> age_plane xs ages s = ages s"
  by (auto simp add: age_plane_def age_rest_other)

lemma length3: "length xs = 3 \<Longrightarrow> \<exists>a b c. xs = [a, b, c]"
  by (cases xs; simp) (metis (no_types) length_0_conv length_Suc_conv numeral_2_eq_2)

lemma age_plane_three:
  "distinct xs \<Longrightarrow> length xs = 3 \<Longrightarrow> map (age_plane xs ages) xs = [2, 0, 1]"
proof -
  assume d: "distinct xs" and l: "length xs = 3"
  then obtain a b c where "xs = [a, b, c]" using length3 by blast
  then show ?thesis using d by (auto simp add: age_plane_def)
qed

lemma age_plane_nth:
  "distinct xs \<Longrightarrow> length xs \<noteq> 3 \<Longrightarrow> j < length xs \<Longrightarrow>
     age_plane xs ages (xs ! j) = sint (2 - word_of_nat j :: 32 word)"
  using age_rest_nth [of xs j 0 ages] by (auto simp add: age_plane_def)

lemma age_plane_indep:
  assumes "distinct xs" "s \<in> set xs"
  shows "age_plane xs a s = age_plane xs b s"
proof (cases "length xs = 3")
  case True
  then obtain x y z where "xs = [x, y, z]" using length3 by blast
  then show ?thesis using assms by (auto simp add: age_plane_def)
next
  case False
  obtain j where "j < length xs" "xs ! j = s"
    using assms(2) by (auto simp add: in_set_conv_nth)
  then show ?thesis
    using age_plane_nth [OF assms(1) False, of j] by auto
qed

lemma age_planes_other:
  "s \<notin> set (concat (map (GetSurfaces P) ps)) \<Longrightarrow> age_planes P ps ages s = ages s"
  by (induction ps arbitrary: ages) (auto simp add: age_plane_other)

lemma age_planes_plane:
  "distinct (concat (map (GetSurfaces P) ps)) \<Longrightarrow> p \<in> set ps \<Longrightarrow> s \<in> set (GetSurfaces P p) \<Longrightarrow>
     age_planes P ps ages s = age_plane (GetSurfaces P p) ages0 s"
proof (induction ps arbitrary: ages)
  case Nil
  then show ?case by simp
next
  case (Cons a ps)
  show ?case
  proof (cases "s \<in> set (GetSurfaces P a)")
    case True
    then have "s \<notin> set (concat (map (GetSurfaces P) ps))"
      using Cons.prems(1) by auto
    moreover have "GetSurfaces P p = GetSurfaces P a"
    proof (rule ccontr)
      assume ne: "GetSurfaces P p \<noteq> GetSurfaces P a"
      then have "p \<in> set ps" using Cons.prems(2) by auto
      then have "s \<in> set (concat (map (GetSurfaces P) ps))" using Cons.prems(3) by auto
      then show False using calculation by simp
    qed
    moreover have "distinct (GetSurfaces P a)" using Cons.prems(1) by simp
    ultimately show ?thesis
      using True age_plane_indep [of "GetSurfaces P a" s] by (simp add: age_planes_other)
  next
    case False
    then have "p \<in> set ps" using Cons.prems by auto
    then show ?thesis using Cons.IH [of "age_plane (GetSurfaces P a) ages"] Cons.prems by simp
  qed
qed

text \<open>C3 (as amended). Let no surface belong to two planes or twice to one. After UpdateOnScreenSurfaces, a plane with exactly 3 surfaces has the ages 2, 0, 1 for surface 0, 1, 2, which is a permutation of 0, 1, 2; in a plane with another number of surfaces, surface i has the age 2 - i, so the only surface of a plane with one surface has the age 2.\<close>

theorem UpdateOnScreenSurfaces_ages:
  assumes "distinct (concat (map (GetSurfaces P) (previous_plane_state q)))"
    and "plane \<in> set (previous_plane_state q)"
    and "length (GetSurfaces P plane) \<le> 2 ^ 31"
  shows "(length (GetSurfaces P plane) = 3 \<longrightarrow>
            map (surface_age (UpdateOnScreenSurfaces P q)) (GetSurfaces P plane) = [2, 0, 1]) \<and>
         (length (GetSurfaces P plane) \<noteq> 3 \<longrightarrow>
            (\<forall>i < length (GetSurfaces P plane).
               surface_age (UpdateOnScreenSurfaces P q) (GetSurfaces P plane ! i) = 2 - int i)) \<and>
         (length (GetSurfaces P plane) = 3 \<longrightarrow>
            distinct (map (surface_age (UpdateOnScreenSurfaces P q)) (GetSurfaces P plane)) \<and>
            set (map (surface_age (UpdateOnScreenSurfaces P q)) (GetSurfaces P plane)) = {0, 1, 2}) \<and>
         (length (GetSurfaces P plane) = 1 \<longrightarrow>
            map (surface_age (UpdateOnScreenSurfaces P q)) (GetSurfaces P plane) = [2])"
proof -
  let ?s = "GetSurfaces P plane"
  let ?age = "surface_age (UpdateOnScreenSurfaces P q)"
  have d: "distinct ?s"
    using assms(1,2) by (auto simp add: distinct_concat_iff dest: split_list)
  have eq: "?age s = age_plane ?s (surface_age q) s" if "s \<in> set ?s" for s
    using age_planes_plane [OF assms(1,2) that] by (simp add: UpdateOnScreenSurfaces_def)
  then have m: "map ?age ?s = map (age_plane ?s (surface_age q)) ?s"
    by simp
  have three: "map ?age ?s = [2, 0, 1]" if "length ?s = 3"
    using m age_plane_three [OF d that] by simp
  have other: "?age (?s ! i) = 2 - int i" if "length ?s \<noteq> 3" "i < length ?s" for i
  proof -
    have "i \<le> 2 ^ 31" using that(2) assms(3) by simp
    then show ?thesis
      using eq [of "?s ! i"] age_plane_nth [OF d that] that(2) by (simp add: age_value)
  qed
  have one: "map ?age ?s = [2]" if "length ?s = 1"
  proof -
    from that obtain a where a: "?s = [a]" by (auto simp add: length_Suc_conv)
    have "?age (?s ! 0) = 2 - int 0" by (rule other) (use that in simp_all)
    then show ?thesis by (simp add: a)
  qed
  show ?thesis
    using three other one by auto
qed

text \<open>C5 as stated fails for SetVideoScalingMode: called on a queue whose requested_video_effect_ is false, it leaves it false.\<close>

theorem video_scaling_counterexample:
  "\<not> requested_video_effect (SetVideoScalingMode 1 sample_queue)"
  by (simp add: SetVideoScalingMode_def sample_queue_def emit_def)

text \<open>The statement of C5 at the sample queue.\<close>

theorem video_controls_witness:
  "requested_video_effect (SetVideoColor 0 1 sample_queue) \<and>
   \<not> requested_video_effect (RestoreVideoDefaultColor 0 (SetVideoColor 0 1 sample_queue)) \<and>
   new_events sample_queue (SetVideoScalingMode 1 sample_queue) =
     [Lock video_lock, Compositor_SetVideoScalingMode 1, Unlock video_lock]"
  using video_controls [of 0 1 sample_queue 0 0 1]
    video_controls [of 0 1 "SetVideoColor 0 1 sample_queue" 0 0 1]
  by simp

text \<open>C8 at a queue in cloned mode with the pending kms fence 9.\<close>

theorem HandleExit_idempotent_witness:
  "filter is_close (new_events sample_pending (HandleExit (sample_services (True, 9)) sample_pending)) =
     [Sys_close 9] \<and>
   filter is_close
     (new_events (HandleExit (sample_services (True, 9)) sample_pending)
        (HandleExit (sample_services (True, 9)) (HandleExit (sample_services (True, 9)) sample_pending))) = [] \<and>
   state (HandleExit (sample_services (True, 9)) sample_pending) = {kConfigurationChanged, kClonedMode}"
  using HandleExit_idempotent [of "sample_services (True, 9)" sample_pending]
  by (simp add: sample_pending_def sample_queue_def)

text \<open>C4 as stated fails once the counter is past kidleframes: no guard holds, and the call leaves the counter at 3 (kidleframes is 2 in the sample).\<close>

theorem idle_counter_counterexample:
  "\<not> idle_blocked (idle_tracker (sample_idle 3)) \<and>
   idle_frames (idle_tracker (sample_idle 3)) = 3 \<and>
   idle_frames (idle_tracker (HandleIdleCase (sample_services (True, 9)) (sample_idle 3))) = 3"
  by (simp add: HandleIdleCase_tracker idle_blocked_def sample_idle_def sample_queue_def
      sample_services_def)

text \<open>C4 at the call on which the counter passes kidleframes, and over a run of four calls.\<close>

theorem HandleIdleCase_idle_witness:
  "kidleframes (sample_services (True, 9)) < 2 ^ 32 - 1 \<and>
   idle_frames (idle_tracker (sample_idle 2)) < 2 ^ 32 \<and>
   \<not> idle_blocked (idle_tracker (sample_idle 2)) \<and>
   idle_frames (idle_tracker (sample_idle 2)) \<le> kidleframes (sample_services (True, 9)) \<and>
   idle_frames (idle_tracker (HandleIdleCase (sample_services (True, 9)) (sample_idle 2))) = 3 \<and>
   filter is_refresh
     (new_events (sample_idle 2) (HandleIdleCase (sample_services (True, 9)) (sample_idle 2))) =
     [Refresh_Callback 1 0] \<and>
   length (filter is_refresh
     (new_events (sample_idle 2) (idle_run (sample_services (True, 9)) 4 (sample_idle 2)))) \<le> 1"
  using HandleIdleCase_idle [where M = "sample_services (True, 9)" and q = "sample_idle 2" and n = 4]
  by (simp add: idle_blocked_def idle_fires_def sample_idle_def sample_queue_def sample_services_def)

text \<open>C3 as stated fails for a plane with one surface: its age becomes 2, which is not a permutation of the ages 0 .. 0.\<close>

theorem surface_age_counterexample:
  "GetSurfaces sample_planes sample_single = [7] \<and>
   sample_single \<in> set (previous_plane_state sample_composed) \<and>
   map (surface_age (UpdateOnScreenSurfaces sample_planes sample_composed))
     (GetSurfaces sample_planes sample_single) = [2]"
  by (simp add: UpdateOnScreenSurfaces_def sample_composed_def sample_queue_def sample_planes_def
      sample_single_def sample_triple_def age_plane_def)

text \<open>C3 at a plan of two planes, for the plane with three surfaces.\<close>

theorem UpdateOnScreenSurfaces_ages_witness:
  "distinct (concat (map (GetSurfaces sample_planes) (previous_plane_state sample_composed))) \<and>
   sample_triple \<in> set (previous_plane_state sample_composed) \<and>
   length (GetSurfaces sample_planes sample_triple) \<le> 2 ^ 31 \<and>
   map (surface_age (UpdateOnScreenSurfaces sample_planes sample_composed))
     (GetSurfaces sample_planes sample_triple) = [2, 0, 1]"
proof -
  have d: "distinct (concat (map (GetSurfaces sample_planes) (previous_plane_state sample_composed)))"
    by (simp add: sample_composed_def sample_planes_def sample_single_def sample_triple_def)
  have m: "sample_triple \<in> set (previous_plane_state sample_composed)"
    by (simp add: sample_composed_def)
  have l: "length (GetSurfaces sample_planes sample_triple) \<le> 2 ^ 31"
    by (simp add: sample_planes_def sample_triple_def)
  have "length (GetSurfaces sample_planes sample_triple) = 3"
    by (simp add: sample_planes_def sample_triple_def)
  then show ?thesis
    using d m l UpdateOnScreenSurfaces_ages [OF d m l] by simp
qed

lemma plans_refl [simp]: "plans q q"
  by (simp add: plans_def)

lemma plans_trans: "plans a b \<Longrightarrow> plans b c \<Longrightarrow> plans a c"
  by (auto simp add: plans_def)

lemma plans_emit: "is_planning e \<Longrightarrow> plans q q' \<Longrightarrow> plans q (emit e q')"
  by (auto simp add: plans_def kept_def)

lemma plans_update:
  "plans q q' \<Longrightarrow> plans q (q'\<lparr>surfaces_not_inuse := x\<rparr>)"
  "plans q q' \<Longrightarrow> plans q (q'\<lparr>idle_tracker := t\<rparr>)"
  "plans q q' \<Longrightarrow> plans q (q'\<lparr>applied_video_effect := a\<rparr>)"
  by (auto simp add: plans_def kept_def)

lemma is_planning_simps [simp]:
  "is_planning (Lock l)" "is_planning (Unlock l)" "is_planning Tracker_Acquire"
  "is_planning Tracker_Release" "is_planning Compositor_UpdateLayerPixelData"
  "is_planning (PlaneManager_ValidateLayers i f)" "is_planning PlaneManager_ReValidatePlanes"
  "is_planning (PlaneManager_MarkSurfacesForRecycling n)"
  "is_planning (PlaneManager_SetOffScreenPlaneTarget n)" "is_planning (Plane_SetInUse n b)"
  "is_planning (OverlayLayer_Initialize z k)" "is_planning (Buffer_CreateFrameBuffer n m)"
  by (simp_all add: is_planning_def)

lemma mark_plans:
  "call_MarkSurfacesForRecycling P M plane q = (plane', q') \<Longrightarrow> plans q0 q \<Longrightarrow> plans q0 q'"
  by (auto simp add: call_MarkSurfacesForRecycling_def Let_def split: prod.splits
      intro!: plans_emit plans_update)

lemma target_plans:
  "call_SetOffScreenPlaneTarget P M plane q = (plane', q') \<Longrightarrow> plans q0 q \<Longrightarrow> plans q0 q'"
  by (auto simp add: call_SetOffScreenPlaneTarget_def intro!: plans_emit)

lemma remove_layers_plans:
  assumes "plans q0 (pl_queue st)"
  shows "remove_layers P L M ls ri pr plane0 st = Force_Full s \<Longrightarrow> plans q0 (pl_queue s)"
    and "remove_layers P L M ls ri pr plane0 st = Plane_Removed s \<Longrightarrow> plans q0 (pl_queue s)"
    and "remove_layers P L M ls ri pr plane0 st = Plane_Kept p c s \<Longrightarrow> plans q0 (pl_queue s)"
  using assms
  by (auto simp add: remove_layers_def Let_def split: if_splits option.splits prod.splits
      intro!: plans_emit dest: mark_plans)

lemma refresh_offscreen_plans:
  "refresh_offscreen P L M ls clear plane st = Some s \<Longrightarrow> plans q0 (pl_queue st) \<Longrightarrow>
     plans q0 (pl_queue s)"
  by (auto simp add: refresh_offscreen_def Let_def split: if_splits option.splits prod.splits
      dest: target_plans)

lemma scanout_layer_queue [simp]: "pl_queue (scanout_layer P L layer plane st) = pl_queue st"
  by (simp add: scanout_layer_def Let_def)

lemma refresh_scanout_plans:
  assumes "plans q0 (pl_queue st)"
  shows "refresh_scanout P L M ls plane st = Return s \<Longrightarrow> plans q0 (pl_queue s)"
    and "refresh_scanout P L M ls plane st = Continue s \<Longrightarrow> plans q0 (pl_queue s)"
  using assms
  by (auto simp add: refresh_scanout_def Let_def split: if_splits option.splits list.splits
      intro!: plans_emit)

lemma cache_plane_plans:
  assumes "plans q0 (pl_queue st)"
  shows "cache_plane P L M ls ri pr plane st = Return s \<Longrightarrow> plans q0 (pl_queue s)"
    and "cache_plane P L M ls ri pr plane st = Continue s \<Longrightarrow> plans q0 (pl_queue s)"
  using assms
  by (auto simp add: cache_plane_def split: removal.splits if_splits option.splits
      dest: remove_layers_plans refresh_offscreen_plans refresh_scanout_plans)

lemma cache_planes_plans:
  "plans q0 (pl_queue st) \<Longrightarrow>
     (cache_planes P L M ls ri pr planes st = Return s \<longrightarrow> plans q0 (pl_queue s)) \<and>
     (cache_planes P L M ls ri pr planes st = Continue s \<longrightarrow> plans q0 (pl_queue s))"
proof (induction planes arbitrary: st)
  case Nil
  then show ?case by auto
next
  case (Cons a planes)
  show ?case
  proof (cases "cache_plane P L M ls ri pr a st")
    case Raise
    then show ?thesis by simp
  next
    case (Return x)
    then show ?thesis using cache_plane_plans(1) [OF Cons.prems Return] by auto
  next
    case (Continue x)
    then show ?thesis
      using Cons.IH [OF cache_plane_plans(2) [OF Cons.prems Continue]] by auto
  qed
qed

lemma squash_plans:
  "squash P L M ls plan0 q = Some (plan', q') \<Longrightarrow> plans q0 q \<Longrightarrow> plans q0 q'"
  by (auto simp add: squash_def Let_def split: if_splits option.splits prod.splits
      intro!: plans_emit dest: target_plans mark_plans)

lemma GetCachedLayers_plans:
  assumes "GetCachedLayers P L M ls ri c = Some c'" and "plans q0 (cached_queue c)"
  shows "plans q0 (cached_queue c')"
proof -
  let ?st = "\<lparr>composition = plan c, needs_gpu_composition = False, ignore_commit = True,
                 check_to_squash = False, plane_validation = False,
                 reset_composition_regions = False, pl_queue = cached_queue c\<rparr>"
  let ?pr = "case previous_plane_state (cached_queue c) of [] \<Rightarrow> 0 | first # _ \<Rightarrow> GetDisplayPlane P first"
  have st: "plans q0 (pl_queue ?st)" using assms(2) by simp
  show ?thesis
  proof (cases "cache_planes P L M ls ri ?pr (previous_plane_state (cached_queue c)) ?st")
    case Raise
    then show ?thesis using assms(1) by (simp add: GetCachedLayers_def)
  next
    case (Return s)
    then have "plans q0 (pl_queue s)" using cache_planes_plans [OF st] by blast
    then show ?thesis using assms(1) Return by (auto simp add: GetCachedLayers_def)
  next
    case (Continue s)
    then have "plans q0 (pl_queue s)" using cache_planes_plans [OF st] by blast
    then show ?thesis using assms(1) Continue
      by (auto simp add: GetCachedLayers_def Let_def split: if_splits option.splits prod.splits
          dest: squash_plans)
  qed
qed

lemma FrameHasCursor_plans: "plans q0 q \<Longrightarrow> plans q0 (FrameHasCursor q)"
  by (simp add: FrameHasCursor_def plans_update)

lemma kind_changed_fields [simp]:
  "queue (kind_changed L a b x) = queue x" "source_layers (kind_changed L a b x) = source_layers x"
  "retire_fence (kind_changed L a b x) = retire_fence x"
  "validate_layers (kind_changed L a b x) = validate_layers x"
  "layers (kind_changed L a b x) = layers x"
  by (simp_all add: kind_changed_def Let_def)

lemma note_layer_fields [simp]:
  "source_layers (note_layer L ov b) = source_layers b"
  "retire_fence (note_layer L ov b) = retire_fence b"
  "validate_layers (note_layer L ov b) = validate_layers b"
  "queue (note_layer L ov b) = (if IsCursorLayer L ov then FrameHasCursor (queue b) else queue b)"
  by (simp_all add: note_layer_def Let_def)

lemma diff_layer_fields [simp]:
  "source_layers (diff_layer L pv ov b) = source_layers b"
  "retire_fence (diff_layer L pv ov b) = retire_fence b"
  "validate_layers (diff_layer L pv ov b) = validate_layers b"
  "queue (diff_layer L pv ov b) = queue b"
  by (simp_all add: diff_layer_def Let_def)

lemma visit_layer_fields [simp]:
  "source_layers (visit_layer L M hc i layer b) = source_layers b @ [SetReleaseFence (- 1) layer]"
  "retire_fence (visit_layer L M hc i layer b) = retire_fence b"
  "validate_layers (visit_layer L M hc i layer b) = validate_layers b"
  by (simp_all add: visit_layer_def Let_def)

lemma visit_layer_plans:
  "plans q0 (queue b) \<Longrightarrow> plans q0 (queue (visit_layer L M hc i layer b))"
  by (simp add: visit_layer_def Let_def plans_emit FrameHasCursor_plans)

lemma visit_layers_fields [simp]:
  "source_layers (visit_layers L M hc i srcs b) = source_layers b @ map (SetReleaseFence (- 1)) srcs"
  "retire_fence (visit_layers L M hc i srcs b) = retire_fence b"
  "validate_layers (visit_layers L M hc i srcs b) = validate_layers b"
  by (induction srcs arbitrary: i b) simp_all

lemma visit_layers_plans:
  "plans q0 (queue b) \<Longrightarrow> plans q0 (queue (visit_layers L M hc i srcs b))"
  by (induction srcs arbitrary: i b) (simp_all add: visit_layer_plans)

lemma video_effects_fields [simp]:
  "source_layers (video_effects b) = source_layers b"
  "retire_fence (video_effects b) = retire_fence b"
  "layers (video_effects b) = layers b"
  by (simp_all add: video_effects_def Let_def)

lemma video_effects_validate: "validate_layers b \<Longrightarrow> validate_layers (video_effects b)"
  by (simp add: video_effects_def Let_def)

lemma video_effects_plans: "plans q0 (queue b) \<Longrightarrow> plans q0 (queue (video_effects b))"
  by (simp add: video_effects_def Let_def plans_emit plans_update)

lemma settle_diff_fields [simp]:
  "source_layers (settle_diff n b) = source_layers b"
  "retire_fence (settle_diff n b) = retire_fence b"
  "layers (settle_diff n b) = layers b"
  "queue (settle_diff n b) =
     (if handle_raw_pixel_update b then emit Compositor_UpdateLayerPixelData (queue b) else queue b)"
  by (simp_all add: settle_diff_def Let_def split: prod.splits)

lemma settle_diff_validate: "validate_layers b \<Longrightarrow> validate_layers (settle_diff n b)"
  by (simp add: settle_diff_def Let_def settle_indices_def split: prod.splits)

lemma settle_frame_fields [simp]:
  "source_layers (settle_frame M n b) = source_layers b"
  "retire_fence (settle_frame M n b) = retire_fence b"
  "layers (settle_frame M n b) = layers b"
  by (simp_all add: settle_frame_def Let_def)

lemma settle_frame_validate: "validate_layers b \<Longrightarrow> validate_layers (settle_frame M n b)"
  by (simp add: settle_frame_def Let_def settle_diff_validate video_effects_validate)

lemma settle_frame_plans: "plans q0 (queue b) \<Longrightarrow> plans q0 (queue (settle_frame M n b))"
proof -
  assume "plans q0 (queue b)"
  then have "plans q0 (queue (settle_diff n b))"
    by (simp add: plans_emit)
  then have "plans q0 (queue (video_effects (settle_diff n b)))"
    by (rule video_effects_plans)
  then show ?thesis
    by (simp add: settle_frame_def Let_def)
qed

lemma build_frame_fields [simp]:
  "source_layers (build_frame L M srcs idle hc q) = map (SetReleaseFence (- 1)) srcs"
  "retire_fence (build_frame L M srcs idle hc q) = - 1"
  by (simp_all add: build_frame_def enter_frame_def)

lemma build_frame_plans: "plans q0 q \<Longrightarrow> plans q0 (queue (build_frame L M srcs idle hc q))"
  by (simp add: build_frame_def settle_frame_plans visit_layers_plans enter_frame_def)

lemma build_frame_validate:
  "last_commit_failed_update q \<or> previous_plane_state q = [] \<Longrightarrow>
     validate_layers (build_frame L M srcs idle hc q)"
  by (simp add: build_frame_def settle_frame_validate enter_frame_def)

lemma plans_kept: "plans q q' \<Longrightarrow> kept q' = kept q"
  by (simp add: plans_def)

lemma plans_extends: "plans q q' \<Longrightarrow> extends is_planning q q'"
  by (simp add: plans_def extends_def)

lemma keptD:
  assumes "kept q' = kept q"
  shows "state q' = state q" "in_flight_layers q' = in_flight_layers q"
    "previous_plane_state q' = previous_plane_state q" "kms_fence q' = kms_fence q"
    "last_commit_failed_update q' = last_commit_failed_update q" "gamma q' = gamma q"
    "contrast q' = contrast q" "brightness q' = brightness q"
    "color_transform_matrix q' = color_transform_matrix q"
    "color_transform_hint q' = color_transform_hint q"
  using assms by (simp_all add: kept_def)

lemma extends_refl [simp]: "extends p q q"
  by (simp add: extends_def)

lemma extends_trans: "extends p a b \<Longrightarrow> extends p b c \<Longrightarrow> extends p a c"
  by (auto simp add: extends_def)

lemma extends_emit: "p e \<Longrightarrow> extends p q q' \<Longrightarrow> extends p q (emit e q')"
  by (auto simp add: extends_def)

lemma extends_calls: "calls q'' = calls q' \<Longrightarrow> extends p q q' \<Longrightarrow> extends p q q''"
  by (simp add: extends_def)

subsection \<open>The incremental path\<close>

lemma call_ValidateLayers_fields:
  assumes "call_ValidateLayers M i f a c b = (x, b')"
  shows "source_layers b' = source_layers b" "retire_fence b' = retire_fence b"
    "layers b' = layers b" "validate_layers b' = validate_layers b"
    "render_layers b' = render_layers b" "re_validate_commit b' = re_validate_commit b"
    "idle_frame b' = idle_frame b" "force_media_composition b' = force_media_composition b"
    "requested_video_effect' b' = requested_video_effect' b" "disable_ovelays b' = disable_ovelays b"
    "add_index b' = add_index b"
  using assms by (auto simp add: call_ValidateLayers_def Let_def split: prod.splits)

lemma call_ValidateLayers_plans:
  "call_ValidateLayers M i f a c b = (x, b') \<Longrightarrow> plans q0 (queue b) \<Longrightarrow> plans q0 (queue b')"
  by (auto simp add: call_ValidateLayers_def Let_def split: prod.splits
      intro!: plans_emit plans_update)

lemma slot_new_layers_fields:
  assumes "slot_new_layers M (ig, nv, b) = (ig', nv', b')"
  shows "source_layers b' = source_layers b" "retire_fence b' = retire_fence b"
    "layers b' = layers b" "validate_layers b' = validate_layers b"
    "force_media_composition b' = force_media_composition b"
  using assms
  by (auto simp add: slot_new_layers_def Let_def split: prod.splits if_splits
      dest: call_ValidateLayers_fields)

lemma slot_new_layers_plans:
  "slot_new_layers M (ig, nv, b) = (ig', nv', b') \<Longrightarrow> plans q0 (queue b) \<Longrightarrow> plans q0 (queue b')"
  by (auto simp add: slot_new_layers_def Let_def split: prod.splits if_splits
      dest: call_ValidateLayers_plans)

lemma slot_new_layers_skip:
  "\<not> 0 < add_index b \<Longrightarrow> slot_new_layers M (ig, nv, b) = (ig, nv, b)"
  by (simp add: slot_new_layers_def)

lemma revalidate_planes_fields:
  assumes "revalidate_planes M (ig, nv, b) = (ig', b')"
  shows "source_layers b' = source_layers b" "retire_fence b' = retire_fence b"
    "layers b' = layers b" "force_media_composition b' = force_media_composition b"
  using assms
  by (auto simp add: revalidate_planes_def Let_def split: prod.splits if_splits)

lemma revalidate_planes_plans:
  "revalidate_planes M (ig, nv, b) = (ig', b') \<Longrightarrow> plans q0 (queue b) \<Longrightarrow> plans q0 (queue b')"
  by (auto simp add: revalidate_planes_def Let_def split: prod.splits if_splits
      intro!: plans_emit plans_update)

lemma revalidate_planes_skip:
  "\<not> re_validate_commit b \<Longrightarrow> \<not> nv \<Longrightarrow> revalidate_planes M (ig, nv, b) = (ig, b)"
  by (simp add: revalidate_planes_def)

lemma patch_plan_fields:
  assumes "patch_plan M c b = (ig', b')"
  shows "source_layers b' = source_layers b" "retire_fence b' = retire_fence b"
    "layers b' = layers b" "force_media_composition b' = force_media_composition b"
proof -
  let ?b = "b\<lparr>current_composition_planes := plan c, render_layers := render_layers_out c,
              validate_layers := force_full_validation c, queue := cached_queue c\<rparr>"
  obtain ig1 nv1 b1 where s: "slot_new_layers M (can_ignore_commit c, needs_plane_validation c, ?b) = (ig1, nv1, b1)"
    by (metis prod_cases3)
  then have r: "revalidate_planes M (ig1, nv1, b1) = (ig', b')"
    using assms by (simp add: patch_plan_def)
  show "source_layers b' = source_layers b" "retire_fence b' = retire_fence b"
    "layers b' = layers b" "force_media_composition b' = force_media_composition b"
    using slot_new_layers_fields [OF s] revalidate_planes_fields [OF r] by simp_all
qed

lemma patch_plan_plans:
  assumes "patch_plan M c b = (ig', b')" and "plans q0 (cached_queue c)"
  shows "plans q0 (queue b')"
proof -
  let ?b = "b\<lparr>current_composition_planes := plan c, render_layers := render_layers_out c,
              validate_layers := force_full_validation c, queue := cached_queue c\<rparr>"
  obtain ig1 nv1 b1 where s: "slot_new_layers M (can_ignore_commit c, needs_plane_validation c, ?b) = (ig1, nv1, b1)"
    by (metis prod_cases3)
  then have r: "revalidate_planes M (ig1, nv1, b1) = (ig', b')"
    using assms by (simp add: patch_plan_def)
  have "plans q0 (queue ?b)" using assms(2) by simp
  then have "plans q0 (queue b1)" by (rule slot_new_layers_plans [OF s])
  then show ?thesis by (rule revalidate_planes_plans [OF r])
qed

lemma patch_plan_skip:
  "\<not> 0 < add_index b \<Longrightarrow> \<not> re_validate_commit b \<Longrightarrow> \<not> needs_plane_validation c \<Longrightarrow>
     patch_plan M c b =
       (can_ignore_commit c,
        b\<lparr>current_composition_planes := plan c, render_layers := render_layers_out c,
          validate_layers := force_full_validation c, queue := cached_queue c\<rparr>)"
  by (simp add: patch_plan_def slot_new_layers_skip revalidate_planes_skip)

lemma media_plane_plans:
  "media_plane P M a ls plane q = Some (plane', q') \<Longrightarrow> plans q0 q \<Longrightarrow> plans q0 q'"
  by (auto simp add: media_plane_def Let_def split: if_splits option.splits prod.splits
      dest: target_plans mark_plans)

lemma SetMediaEffectsState_plans:
  "SetMediaEffectsState P M a ls planes q = Some (planes', q') \<Longrightarrow> plans q0 q \<Longrightarrow> plans q0 q'"
proof (induction planes arbitrary: q planes')
  case Nil
  then show ?case by simp
next
  case (Cons p planes)
  then show ?case
    by (auto split: option.splits prod.splits dest: media_plane_plans)
qed

lemma apply_media_effects_fields:
  assumes "apply_media_effects P M b = Some b'"
  shows "source_layers b' = source_layers b" "retire_fence b' = retire_fence b"
    "layers b' = layers b" "validate_layers b' = validate_layers b"
    "idle_frame b' = idle_frame b" "disable_ovelays b' = disable_ovelays b"
    "handle_raw_pixel_update b' = handle_raw_pixel_update b"
  using assms by (auto simp add: apply_media_effects_def split: option.splits prod.splits)

lemma apply_media_effects_plans:
  "apply_media_effects P M b = Some b' \<Longrightarrow> plans q0 (queue b) \<Longrightarrow> plans q0 (queue b')"
  by (auto simp add: apply_media_effects_def split: option.splits prod.splits
      dest: SetMediaEffectsState_plans)

lemma incremental_validate [simp]: "validate_layers b \<Longrightarrow> incremental P L M b = Continue b"
  by (simp add: incremental_def)

lemma incremental_Continue:
  assumes "incremental P L M b = Continue b'"
  shows "plans (queue b) (queue b')" "source_layers b' = source_layers b"
    "retire_fence b' = retire_fence b"
proof -
  show "plans (queue b) (queue b')"
    using assms
    by (auto simp add: incremental_def split: if_splits option.splits prod.splits
        dest!: GetCachedLayers_plans [where ?q0.0 = "queue b"]
        dest: patch_plan_plans apply_media_effects_plans)
  show "source_layers b' = source_layers b"
    using assms
    by (auto simp add: incremental_def split: if_splits option.splits prod.splits
        dest!: patch_plan_fields(1) apply_media_effects_fields(1))
  show "retire_fence b' = retire_fence b"
    using assms
    by (auto simp add: incremental_def split: if_splits option.splits prod.splits
        dest!: patch_plan_fields(2) apply_media_effects_fields(2))
qed

lemma leave_fields [simp]:
  "returned (leave ok b) = ok" "retire_fence_out (leave ok b) = retire_fence b"
  "source_layers_out (leave ok b) = source_layers b" "queue_out (leave ok b) = queue b"
  by (simp_all add: leave_def)

lemma incremental_Return:
  assumes "incremental P L M b = Return r"
  shows "returned r" "source_layers_out r = source_layers b" "retire_fence_out r = retire_fence b"
    "\<exists>q1. plans (queue b) q1 \<and> queue_out r = q1\<lparr>in_flight_layers := layers b\<rparr>"
proof -
  show "returned r"
    using assms
    by (auto simp add: incremental_def split: if_splits option.splits prod.splits)
  show "source_layers_out r = source_layers b"
    using assms
    by (auto simp add: incremental_def split: if_splits option.splits prod.splits
        dest!: patch_plan_fields(1))
  show "retire_fence_out r = retire_fence b"
    using assms
    by (auto simp add: incremental_def split: if_splits option.splits prod.splits
        dest!: patch_plan_fields(2))
  show "\<exists>q1. plans (queue b) q1 \<and> queue_out r = q1\<lparr>in_flight_layers := layers b\<rparr>"
    using assms
    apply (auto simp add: incremental_def split: if_splits option.splits prod.splits
        dest!: GetCachedLayers_plans [where ?q0.0 = "queue b"])
    apply (frule patch_plan_fields(3))
    apply (drule (1) patch_plan_plans)
    apply auto
    done
qed

lemma is_housekeeping_simps [simp]:
  "is_housekeeping PlaneManager_ReleaseFreeOffScreenTargets" "is_housekeeping (Sys_dup a b)"
  "is_housekeeping (Plane_ReleaseAcquireFence n a)" "is_housekeeping (Sys_close a)"
  "is_housekeeping (Sys_HWCPoll a)" "is_housekeeping Display_HandleLazyInitialization"
  by (simp_all add: is_housekeeping_def)

lemma settles_refl [simp]: "settles q q"
  by (simp add: settles_def)

lemma settles_emit: "is_housekeeping e \<Longrightarrow> settles q q' \<Longrightarrow> settles q (emit e q')"
  by (simp add: settles_def extends_emit)

lemma settles_in_flight: "settles q q' \<Longrightarrow> settles q (q'\<lparr>in_flight_layers := x\<rparr>)"
  by (simp add: settles_def extends_def)

subsection \<open>Full validation\<close>

lemma call_ValidateLayers_snd [simp]:
  "source_layers (snd (call_ValidateLayers M i f a c b)) = source_layers b"
  "retire_fence (snd (call_ValidateLayers M i f a c b)) = retire_fence b"
  "layers (snd (call_ValidateLayers M i f a c b)) = layers b"
  "validate_layers (snd (call_ValidateLayers M i f a c b)) = validate_layers b"
  "idle_frame (snd (call_ValidateLayers M i f a c b)) = idle_frame b"
  "disable_ovelays (snd (call_ValidateLayers M i f a c b)) = disable_ovelays b"
  "handle_raw_pixel_update (snd (call_ValidateLayers M i f a c b)) = handle_raw_pixel_update b"
  "force_media_composition (snd (call_ValidateLayers M i f a c b)) = force_media_composition b"
  "requested_video_effect' (snd (call_ValidateLayers M i f a c b)) = requested_video_effect' b"
  by (simp_all add: call_ValidateLayers_def Let_def case_prod_beta)

lemma call_ValidateLayers_snd_plans:
  "plans q0 (queue b) \<Longrightarrow> plans q0 (queue (snd (call_ValidateLayers M i f a c b)))"
  by (simp add: call_ValidateLayers_def Let_def case_prod_beta plans_emit plans_update)

lemma validate_all_fields [simp]:
  "source_layers (validate_all M b) = source_layers b" "retire_fence (validate_all M b) = retire_fence b"
  "layers (validate_all M b) = layers b" "validate_layers (validate_all M b) = validate_layers b"
  "idle_frame (validate_all M b) = idle_frame b" "disable_ovelays (validate_all M b) = disable_ovelays b"
  "handle_raw_pixel_update (validate_all M b) = handle_raw_pixel_update b"
  by (simp_all add: validate_all_def Let_def case_prod_beta)

lemma validate_all_plans: "plans q0 (queue b) \<Longrightarrow> plans q0 (queue (validate_all M b))"
  by (simp add: validate_all_def Let_def case_prod_beta call_ValidateLayers_snd_plans plans_update)

lemma clear_configuration_changed_fields [simp]:
  "source_layers (clear_configuration_changed b) = source_layers b"
  "retire_fence (clear_configuration_changed b) = retire_fence b"
  "layers (clear_configuration_changed b) = layers b"
  "validate_layers (clear_configuration_changed b) = validate_layers b"
  "idle_frame (clear_configuration_changed b) = idle_frame b"
  "disable_ovelays (clear_configuration_changed b) = disable_ovelays b"
  "handle_raw_pixel_update (clear_configuration_changed b) = handle_raw_pixel_update b"
  "queue (clear_configuration_changed b) = (queue b)\<lparr>state := state (queue b) - {kConfigurationChanged}\<rparr>"
  by (simp_all add: clear_configuration_changed_def)

lemma full_validation_fields:
  assumes "full_validation P M b = Some b'"
  shows "source_layers b' = source_layers b" "retire_fence b' = retire_fence b"
    "layers b' = layers b" "validate_layers b' = validate_layers b"
    "idle_frame b' = idle_frame b" "disable_ovelays b' = disable_ovelays b"
    "handle_raw_pixel_update b' = handle_raw_pixel_update b"
  using assms
  by (auto simp add: full_validation_def Let_def split: if_splits option.splits
      dest: apply_media_effects_fields)

lemma full_validation_queue:
  assumes "full_validation P M b = Some b'"
  shows "\<exists>q1. plans ((queue b)\<lparr>last_commit_failed_update := False\<rparr>) q1 \<and>
           queue b' = (if validate_layers b then q1\<lparr>state := state q1 - {kConfigurationChanged}\<rparr> else q1)"
proof (cases "validate_layers b")
  case False
  then show ?thesis using assms by (auto simp add: full_validation_def Let_def)
next
  case True
  let ?q = "(queue b)\<lparr>last_commit_failed_update := False\<rparr>"
  let ?b1 = "validate_all M (b\<lparr>queue := ?q\<rparr>)"
  have p1: "plans ?q (queue ?b1)"
    by (rule validate_all_plans) simp
  show ?thesis
  proof (cases "force_media_composition ?b1 \<and> requested_video_effect' ?b1")
    case False
    then have "b' = clear_configuration_changed ?b1"
      using assms True by (auto simp add: full_validation_def Let_def)
    then show ?thesis using True p1 by auto
  next
    case m: True
    then obtain b5 where a: "apply_media_effects P M ?b1 = Some b5"
      and b': "b' = clear_configuration_changed (b5\<lparr>render_layers := True\<rparr>)"
      using assms True by (auto simp add: full_validation_def Let_def split: option.splits)
    have "plans ?q (queue b5)"
      by (rule apply_media_effects_plans [OF a p1])
    then show ?thesis using True b' by auto
  qed
qed

lemma full_validation_facts:
  assumes "full_validation P M b = Some b'"
  shows "in_flight_layers (queue b') = in_flight_layers (queue b)"
    "previous_plane_state (queue b') = previous_plane_state (queue b)"
    "kms_fence (queue b') = kms_fence (queue b)"
    "gamma (queue b') = gamma (queue b)" "contrast (queue b') = contrast (queue b)"
    "brightness (queue b') = brightness (queue b)"
    "color_transform_matrix (queue b') = color_transform_matrix (queue b)"
    "color_transform_hint (queue b') = color_transform_hint (queue b)"
    "state (queue b') =
       (if validate_layers b then state (queue b) - {kConfigurationChanged} else state (queue b))"
    "extends is_planning (queue b) (queue b')"
proof -
  obtain q1 where p: "plans ((queue b)\<lparr>last_commit_failed_update := False\<rparr>) q1"
    and q: "queue b' = (if validate_layers b then q1\<lparr>state := state q1 - {kConfigurationChanged}\<rparr> else q1)"
    using full_validation_queue [OF assms] by blast
  note k = keptD [OF plans_kept [OF p]]
  show "in_flight_layers (queue b') = in_flight_layers (queue b)"
    "previous_plane_state (queue b') = previous_plane_state (queue b)"
    "kms_fence (queue b') = kms_fence (queue b)"
    "gamma (queue b') = gamma (queue b)" "contrast (queue b') = contrast (queue b)"
    "brightness (queue b') = brightness (queue b)"
    "color_transform_matrix (queue b') = color_transform_matrix (queue b)"
    "color_transform_hint (queue b') = color_transform_hint (queue b)"
    "state (queue b') =
       (if validate_layers b then state (queue b) - {kConfigurationChanged} else state (queue b))"
    using k q by simp_all
  show "extends is_planning (queue b) (queue b')"
    using plans_extends [OF p] q by (simp add: extends_def)
qed

subsection \<open>The GPU pass and the commit\<close>

lemma fail_fields [simp]:
  "returned (fail b) = False" "retire_fence_out (fail b) = retire_fence b"
  "source_layers_out (fail b) = source_layers b"
  "queue_out (fail b) = (queue b)\<lparr>last_commit_failed_update := True\<rparr>"
  by (simp_all add: fail_def)

lemma kept_emit [simp]: "kept (emit e q) = kept q"
  by (simp add: kept_def)

lemma extends_one: "p e \<Longrightarrow> extends p q (emit e q)"
  by (simp add: extends_emit)

lemma gpu_pass_Continue:
  assumes "gpu_pass L M b = Continue b'"
  shows "source_layers b' = source_layers b" "retire_fence b' = retire_fence b"
    "layers b' = layers b" "idle_frame b' = idle_frame b" "validate_layers b' = validate_layers b"
    "disable_ovelays b' = disable_ovelays b"
    "current_composition_planes b' = current_composition_planes b"
    "kept (queue b') = kept (queue b)"
    "extends is_rendering (queue b) (queue b')"
  using assms
  by (auto simp add: gpu_pass_def Let_def is_rendering_def split: if_splits
      intro!: extends_emit)

lemma gpu_pass_Return:
  assumes "gpu_pass L M b = Return r"
  shows "\<not> returned r" "source_layers_out r = source_layers b" "retire_fence_out r = retire_fence b"
    "last_commit_failed_update (queue_out r)"
    "in_flight_layers (queue_out r) = in_flight_layers (queue b)"
    "previous_plane_state (queue_out r) = previous_plane_state (queue b)"
    "kms_fence (queue_out r) = kms_fence (queue b)"
    "state (queue_out r) = state (queue b)"
    "\<exists>evs. calls (queue_out r) = calls (queue b) @ evs \<and> list_all is_gpu_pass evs \<and>
       list_ex is_failure evs"
  using assms
  by (auto simp add: gpu_pass_def Let_def is_failure_def is_gpu_pass_def split: if_splits)

lemma wait_kms_fence_fields [simp]:
  "state (wait_kms_fence q) = state q" "in_flight_layers (wait_kms_fence q) = in_flight_layers q"
  "previous_plane_state (wait_kms_fence q) = previous_plane_state q"
  "last_commit_failed_update (wait_kms_fence q) = last_commit_failed_update q"
  "gamma (wait_kms_fence q) = gamma q" "contrast (wait_kms_fence q) = contrast q"
  "brightness (wait_kms_fence q) = brightness q"
  "color_transform_matrix (wait_kms_fence q) = color_transform_matrix q"
  "color_transform_hint (wait_kms_fence q) = color_transform_hint q"
  "handle_display_initializations (wait_kms_fence q) = handle_display_initializations q"
  "kms_fence (wait_kms_fence q) = (if 0 < kms_fence q then 0 else kms_fence q)"
  "calls (wait_kms_fence q) =
     calls q @ (if 0 < kms_fence q then [Sys_HWCPoll (kms_fence q), Sys_close (kms_fence q)] else [])"
  by (simp_all add: wait_kms_fence_def)

lemma color_correction_fields [simp]:
  "state (color_correction q) = state q - {kNeedsColorCorrection}"
  "in_flight_layers (color_correction q) = in_flight_layers q"
  "previous_plane_state (color_correction q) = previous_plane_state q"
  "last_commit_failed_update (color_correction q) = last_commit_failed_update q"
  "kms_fence (color_correction q) = kms_fence q"
  "calls (color_correction q) =
     calls q @ (if kNeedsColorCorrection \<in> state q
                then [Display_SetColorCorrection (gamma q) (contrast q) (brightness q),
                      Display_SetColorTransformMatrix (color_transform_matrix q) (color_transform_hint q)]
                else [])"
  by (auto simp add: color_correction_def Let_def)

lemma commit_Continue:
  assumes "commit M b = Continue (fence, b')"
  shows "b' = b\<lparr>queue := emit (Display_Commit (disable_ovelays b) True fence) (before_commit M (queue b))\<rparr>"
  using assms
  by (auto simp add: commit_def before_commit_def Let_def split: prod.splits if_splits)

lemma commit_Return:
  assumes "commit M b = Return r"
  shows "\<exists>fence. r = fail (b\<lparr>queue := emit (Display_Commit (disable_ovelays b) False fence)
                                       (before_commit M (queue b))\<rparr>)"
  using assms
  by (auto simp add: commit_def before_commit_def Let_def split: prod.splits if_splits)

lemma before_commit_fields [simp]:
  "state (before_commit M q) = state q - {kNeedsColorCorrection}"
  "in_flight_layers (before_commit M q) = in_flight_layers q"
  "previous_plane_state (before_commit M q) = previous_plane_state q"
  "last_commit_failed_update (before_commit M q) = last_commit_failed_update q"
  "kms_fence (before_commit M q) =
     (if \<not> ENABLE_DOUBLE_BUFFERING M \<and> 0 < kms_fence q then 0 else kms_fence q)"
  "calls (before_commit M q) = calls q @ fence_wait M q @ color_calls q"
  by (simp_all add: before_commit_def fence_wait_def color_calls_def)

subsection \<open>After the commit\<close>

lemma mark_surfaces_not_inuse_fields [simp]:
  "state (mark_surfaces_not_inuse q) = state q" "kms_fence (mark_surfaces_not_inuse q) = kms_fence q"
  "in_flight_layers (mark_surfaces_not_inuse q) = in_flight_layers q"
  "previous_plane_state (mark_surfaces_not_inuse q) = previous_plane_state q"
  "calls (mark_surfaces_not_inuse q) = calls q"
  by (simp_all add: mark_surfaces_not_inuse_def)

lemma UpdateOnScreenSurfaces_fields [simp]:
  "state (UpdateOnScreenSurfaces P q) = state q" "kms_fence (UpdateOnScreenSurfaces P q) = kms_fence q"
  "in_flight_layers (UpdateOnScreenSurfaces P q) = in_flight_layers q"
  "previous_plane_state (UpdateOnScreenSurfaces P q) = previous_plane_state q"
  "calls (UpdateOnScreenSurfaces P q) = calls q"
  "surfaces_not_inuse (UpdateOnScreenSurfaces P q) = surfaces_not_inuse q"
  by (simp_all add: UpdateOnScreenSurfaces_def)

lemma age_not_inuse_fields [simp]:
  "state (snd (age_not_inuse xs temp q)) = state q"
  "kms_fence (snd (age_not_inuse xs temp q)) = kms_fence q"
  "in_flight_layers (snd (age_not_inuse xs temp q)) = in_flight_layers q"
  "previous_plane_state (snd (age_not_inuse xs temp q)) = previous_plane_state q"
  "calls (snd (age_not_inuse xs temp q)) = calls q"
  by (induction xs temp q rule: age_not_inuse.induct) simp_all

lemma swap_surfaces_not_inuse_fields [simp]:
  "state (swap_surfaces_not_inuse q) = state q" "kms_fence (swap_surfaces_not_inuse q) = kms_fence q"
  "in_flight_layers (swap_surfaces_not_inuse q) = in_flight_layers q"
  "previous_plane_state (swap_surfaces_not_inuse q) = previous_plane_state q"
  "calls (swap_surfaces_not_inuse q) = calls q"
  by (simp_all add: swap_surfaces_not_inuse_def case_prod_beta)

lemma ReleaseSurfaces_fields [simp]:
  "state (ReleaseSurfaces q) = state q - {kMarkSurfacesForRelease, kReleaseSurfaces}"
  "kms_fence (ReleaseSurfaces q) = kms_fence q"
  "in_flight_layers (ReleaseSurfaces q) = in_flight_layers q"
  "previous_plane_state (ReleaseSurfaces q) = previous_plane_state q"
  "calls (ReleaseSurfaces q) = calls q @ [PlaneManager_ReleaseFreeOffScreenTargets]"
  by (auto simp add: ReleaseSurfaces_def Let_def)

lemma set_tracker_state_fields [simp]:
  "state (set_tracker_state f q) = state q" "kms_fence (set_tracker_state f q) = kms_fence q"
  "in_flight_layers (set_tracker_state f q) = in_flight_layers q"
  "previous_plane_state (set_tracker_state f q) = previous_plane_state q"
  "calls (set_tracker_state f q) = calls q"
  by (simp_all add: set_tracker_state_def)

lemma ReleaseSurfacesAsNeeded_fields [simp]:
  "kms_fence (ReleaseSurfacesAsNeeded v q) = kms_fence q"
  "in_flight_layers (ReleaseSurfacesAsNeeded v q) = in_flight_layers q"
  "previous_plane_state (ReleaseSurfacesAsNeeded v q) = previous_plane_state q"
  "calls (ReleaseSurfacesAsNeeded v q) =
     calls q @ (if \<not> v \<and> kReleaseSurfaces \<in> state q then [PlaneManager_ReleaseFreeOffScreenTargets] else [])"
  by (simp_all add: ReleaseSurfacesAsNeeded_def Let_def)

lemma ReleaseSurfacesAsNeeded_state:
  "state (ReleaseSurfacesAsNeeded v q) - {kMarkSurfacesForRelease, kReleaseSurfaces, kLastFrameIdleUpdate} =
     state q - {kMarkSurfacesForRelease, kReleaseSurfaces, kLastFrameIdleUpdate}"
  by (auto simp add: ReleaseSurfacesAsNeeded_def Let_def)

lemma release_after_commit_fields [simp]:
  "kms_fence (release_after_commit i v q) = kms_fence q"
  "in_flight_layers (release_after_commit i v q) = in_flight_layers q"
  "previous_plane_state (release_after_commit i v q) = previous_plane_state q"
  by (simp_all add: release_after_commit_def Let_def)

lemma release_after_commit_state:
  "state (release_after_commit i v q) - {kMarkSurfacesForRelease, kReleaseSurfaces, kLastFrameIdleUpdate} =
     state q - {kMarkSurfacesForRelease, kReleaseSurfaces, kLastFrameIdleUpdate}"
proof (cases i)
  case True
  then show ?thesis by (auto simp add: release_after_commit_def Let_def)
next
  case False
  then show ?thesis
    using ReleaseSurfacesAsNeeded_state [of v "q\<lparr>state := state q - {kLastFrameIdleUpdate}\<rparr>"]
    by (auto simp add: release_after_commit_def)
qed

lemma release_after_commit_extends:
  "extends (\<lambda>e. is_housekeeping e \<and> \<not> is_fence_handout e) q (release_after_commit i v q)"
  by (simp add: release_after_commit_def Let_def extends_def is_fence_handout_def)

lemma swap_frame_fields [simp]:
  "source_layers (swap_frame b) = source_layers b" "retire_fence (swap_frame b) = retire_fence b"
  "idle_frame (swap_frame b) = idle_frame b" "validate_layers (swap_frame b) = validate_layers b"
  "queue (swap_frame b) = (queue b)\<lparr>in_flight_layers := layers b,
                                       previous_plane_state := current_composition_planes b\<rparr>"
  by (simp_all add: swap_frame_def)

lemma publish_fields [simp]:
  "source_layers (publish P b) = source_layers b" "retire_fence (publish P b) = retire_fence b"
  "in_flight_layers (queue (publish P b)) = layers b"
  "previous_plane_state (queue (publish P b)) = current_composition_planes b"
  "kms_fence (queue (publish P b)) = kms_fence (queue b)"
  by (simp_all add: publish_def Let_def)

lemma publish_state:
  "state (queue (publish P b)) - {kMarkSurfacesForRelease, kReleaseSurfaces, kLastFrameIdleUpdate} =
     state (queue b) - {kMarkSurfacesForRelease, kReleaseSurfaces, kLastFrameIdleUpdate}"
  by (simp add: publish_def Let_def release_after_commit_state)

lemma publish_extends:
  "extends (\<lambda>e. is_housekeeping e \<and> \<not> is_fence_handout e) (queue b) (queue (publish P b))"
proof -
  let ?q = "swap_surfaces_not_inuse (UpdateOnScreenSurfaces P
              (queue (swap_frame (b\<lparr>queue := mark_surfaces_not_inuse (queue b)\<rparr>))))"
  have "calls ?q = calls (queue b)" by simp
  then have "extends (\<lambda>e. is_housekeeping e \<and> \<not> is_fence_handout e) (queue b) ?q"
    by (simp add: extends_def)
  then show ?thesis
    using release_after_commit_extends extends_trans
    by (fastforce simp add: publish_def Let_def)
qed

subsection \<open>The fences\<close>

lemma call_dup_settles: "settles q0 q \<Longrightarrow> settles q0 (snd (call_dup M fd q))"
  by (simp add: call_dup_def Let_def settles_emit)

lemma fence_scanout_layers_settles:
  "fence_scanout_layers L M fence idx (s, q) = Some (s', q') \<Longrightarrow> settles q0 q \<Longrightarrow> settles q0 q'"
proof (induction idx arbitrary: s q)
  case Nil
  then show ?case by simp
next
  case (Cons i idx)
  then show ?case
    by (auto simp add: Let_def case_prod_beta split: option.splits
        intro!: call_dup_settles settles_in_flight)
qed

lemma fence_gpu_layers_settles:
  "fence_gpu_layers L M fence idx (s, q) = Some (s', q') \<Longrightarrow> settles q0 q \<Longrightarrow> settles q0 q'"
proof (induction idx arbitrary: s q)
  case Nil
  then show ?case by simp
next
  case (Cons i idx)
  then show ?case
    by (auto simp add: Let_def case_prod_beta split: option.splits if_splits
        intro!: call_dup_settles settles_in_flight)
qed

lemma fence_plane_settles:
  "fence_plane P L M fence plane (s, q) = Some (s', q') \<Longrightarrow> settles q0 q \<Longrightarrow> settles q0 q'"
  by (auto simp add: fence_plane_def Let_def split: option.splits if_splits
      intro!: settles_emit dest: fence_scanout_layers_settles
      dest!: fence_gpu_layers_settles [where ?q0.0 = q0])

lemma fence_planes_settles:
  "fence_planes P L M fence planes (s, q) = Some (s', q') \<Longrightarrow> settles q0 q \<Longrightarrow> settles q0 q'"
proof (induction planes arbitrary: s q)
  case Nil
  then show ?case by simp
next
  case (Cons p planes)
  then show ?case
    by (auto split: option.splits dest: fence_plane_settles)
qed

lemma SetReleaseFenceToLayers_settles:
  "SetReleaseFenceToLayers P L M fence s q = Some (s', q') \<Longrightarrow> settles q q'"
  using fence_planes_settles [of P L M fence "previous_plane_state q" s q s' q' q]
  by (simp add: SetReleaseFenceToLayers_def)

lemma hand_out_fences_none: "\<not> 0 < fence \<Longrightarrow> hand_out_fences P L M fence b = Some b"
  by (simp add: hand_out_fences_def)

lemma hand_out_fences_some:
  assumes "hand_out_fences P L M fence b = Some b'" and "0 < fence"
  shows "state (queue b') = state (queue b)" "kms_fence (queue b') = fence"
    "extends is_housekeeping (queue b) (queue b')"
    "kClonedMode \<in> state (queue b) \<Longrightarrow> retire_fence b' = retire_fence b"
proof -
  let ?b1 = "if kClonedMode \<notin> state (queue b)
             then b\<lparr>retire_fence := fst (call_dup M fence (queue b)),
                    queue := snd (call_dup M fence (queue b))\<rparr>
             else b"
  let ?b2 = "?b1\<lparr>queue := (queue ?b1)\<lparr>kms_fence := fence\<rparr>\<rparr>"
  obtain s q' where r: "SetReleaseFenceToLayers P L M fence (source_layers ?b2) (queue ?b2) = Some (s, q')"
    and b': "b' = ?b2\<lparr>source_layers := s, queue := q'\<rparr>"
    using assms by (auto simp add: hand_out_fences_def Let_def case_prod_beta split: option.splits if_splits)
  have s: "settles (queue ?b2) q'"
    by (rule SetReleaseFenceToLayers_settles [OF r])
  have e: "extends is_housekeeping (queue b) (queue ?b2)"
    by (simp add: call_dup_def Let_def extends_def)
  show "state (queue b') = state (queue b)"
    using s b' by (simp add: settles_def call_dup_def Let_def)
  show "kms_fence (queue b') = fence"
    using s b' by (simp add: settles_def)
  show "extends is_housekeeping (queue b) (queue b')"
    using s b' e extends_trans by (fastforce simp add: settles_def)
  show "retire_fence b' = retire_fence b" if "kClonedMode \<in> state (queue b)"
    using that b' by simp
qed

lemma finish_frame_fields [simp]:
  "returned (finish_frame M b)" "source_layers_out (finish_frame M b) = source_layers b"
  "retire_fence_out (finish_frame M b) = retire_fence b"
  "state (queue_out (finish_frame M b)) = state (queue b)"
  "in_flight_layers (queue_out (finish_frame M b)) = in_flight_layers (queue b)"
  "previous_plane_state (queue_out (finish_frame M b)) = previous_plane_state (queue b)"
  "kms_fence (queue_out (finish_frame M b)) =
     (if ENABLE_DOUBLE_BUFFERING M \<and> 0 < kms_fence (queue b) then 0 else kms_fence (queue b))"
  by (simp_all add: finish_frame_def Let_def)

lemma finish_frame_extends:
  "extends (\<lambda>e. is_housekeeping e \<and> \<not> is_fence_handout e) (queue b) (queue_out (finish_frame M b))"
  by (simp add: finish_frame_def Let_def extends_def is_fence_handout_def)

lemma extends_mono: "extends p q q' \<Longrightarrow> (\<And>e. p e \<Longrightarrow> p' e) \<Longrightarrow> extends p' q q'"
  by (auto simp add: extends_def list_all_iff)

lemma post_commit_facts:
  assumes "post_commit P L M fence b = Some r"
  shows "returned r"
    "extends is_housekeeping (queue b) (queue_out r)"
    "state (queue_out r) - {kMarkSurfacesForRelease, kReleaseSurfaces, kLastFrameIdleUpdate} =
       state (queue b) - {kMarkSurfacesForRelease, kReleaseSurfaces, kLastFrameIdleUpdate}"
    "\<not> 0 < fence \<Longrightarrow>
       extends (\<lambda>e. is_housekeeping e \<and> \<not> is_fence_handout e) (queue b) (queue_out r)"
    "\<not> 0 < fence \<Longrightarrow> source_layers_out r = source_layers b"
    "\<not> 0 < fence \<Longrightarrow> retire_fence_out r = retire_fence b"
    "\<not> 0 < fence \<Longrightarrow> kms_fence (queue_out r) = kms_fence (queue b) \<or> kms_fence (queue_out r) = 0"
    "0 < fence \<Longrightarrow> kms_fence (queue_out r) = (if ENABLE_DOUBLE_BUFFERING M then 0 else fence)"
    "kClonedMode \<in> state (queue b) \<Longrightarrow> retire_fence_out r = retire_fence b"
proof -
  obtain b' where h: "hand_out_fences P L M fence (publish P b) = Some b'" and r: "r = finish_frame M b'"
    using assms by (auto simp add: post_commit_def split: option.splits)
  have cl: "kClonedMode \<in> state (queue (publish P b)) \<longleftrightarrow> kClonedMode \<in> state (queue b)"
    using publish_state [of P b] by auto
  have nf: "b' = publish P b" if "\<not> 0 < fence"
    using h that by (simp add: hand_out_fences_none)
  show "returned r" using r by simp
  show "extends (\<lambda>e. is_housekeeping e \<and> \<not> is_fence_handout e) (queue b) (queue_out r)"
    if "\<not> 0 < fence"
    using extends_trans [OF publish_extends finish_frame_extends [of "publish P b" M]] nf [OF that] r
    by simp
  show "\<not> 0 < fence \<Longrightarrow> source_layers_out r = source_layers b"
    using nf r by simp
  show "\<not> 0 < fence \<Longrightarrow> retire_fence_out r = retire_fence b"
    using nf r by simp
  show "\<not> 0 < fence \<Longrightarrow> kms_fence (queue_out r) = kms_fence (queue b) \<or> kms_fence (queue_out r) = 0"
    using nf r by simp
  show "0 < fence \<Longrightarrow> kms_fence (queue_out r) = (if ENABLE_DOUBLE_BUFFERING M then 0 else fence)"
    using hand_out_fences_some(2) [OF h] r by simp
  show "kClonedMode \<in> state (queue b) \<Longrightarrow> retire_fence_out r = retire_fence b"
  proof (cases "0 < fence")
    case True
    assume "kClonedMode \<in> state (queue b)"
    then show ?thesis using hand_out_fences_some(4) [OF h True] cl r by simp
  next
    case False
    then show ?thesis using nf r by simp
  qed
  have st: "state (queue b') = state (queue (publish P b))"
  proof (cases "0 < fence")
    case True
    then show ?thesis using hand_out_fences_some(1) [OF h] by simp
  next
    case False
    then show ?thesis using nf by simp
  qed
  show "state (queue_out r) - {kMarkSurfacesForRelease, kReleaseSurfaces, kLastFrameIdleUpdate} =
       state (queue b) - {kMarkSurfacesForRelease, kReleaseSurfaces, kLastFrameIdleUpdate}"
    using st r publish_state [of P b] by simp
  have e: "extends is_housekeeping (queue (publish P b)) (queue b')"
  proof (cases "0 < fence")
    case True
    then show ?thesis using hand_out_fences_some(3) [OF h] by simp
  next
    case False
    then show ?thesis using nf by simp
  qed
  have "extends is_housekeeping (queue b) (queue (publish P b))"
    by (rule extends_mono [OF publish_extends]) simp
  moreover have "extends is_housekeeping (queue b') (queue_out r)"
    unfolding r by (rule extends_mono [OF finish_frame_extends]) simp
  ultimately show "extends is_housekeeping (queue b) (queue_out r)"
    using e extends_trans by blast
qed

subsection \<open>The frame as a whole\<close>

lemma planning_class:
  "is_planning e \<Longrightarrow>
     \<not> is_failure e \<and> \<not> is_commit e \<and> \<not> is_gpu_pass e \<and> \<not> is_fence_handout e \<and> \<not> is_color_push e"
  by (cases e)
    (simp_all add: is_planning_def is_failure_def is_commit_def is_gpu_pass_def is_fence_handout_def
      is_color_push_def)

lemma rendering_class:
  "is_rendering e \<Longrightarrow>
     \<not> is_failure e \<and> \<not> is_commit e \<and> \<not> is_fence_handout e \<and> \<not> is_color_push e"
  by (cases e)
    (simp_all add: is_rendering_def is_failure_def is_commit_def is_fence_handout_def is_color_push_def)

lemma housekeeping_class:
  "is_housekeeping e \<Longrightarrow>
     \<not> is_failure e \<and> \<not> is_commit e \<and> \<not> is_gpu_pass e \<and> \<not> is_color_push e"
  by (cases e)
    (simp_all add: is_housekeeping_def is_failure_def is_commit_def is_gpu_pass_def is_color_push_def)

lemma fence_wait_class:
  "list_all (\<lambda>e. is_housekeeping e \<and> \<not> is_fence_handout e) (fence_wait M q)"
  by (simp add: fence_wait_def is_fence_handout_def)

lemma color_calls_class:
  "list_all (\<lambda>e. is_color_push e \<and> \<not> is_failure e \<and> \<not> is_commit e \<and> \<not> is_gpu_pass e \<and>
      \<not> is_fence_handout e) (color_calls q)"
  by (simp add: color_calls_def is_color_push_def is_failure_def is_commit_def is_gpu_pass_def
      is_fence_handout_def)

lemma tracker_acquire_plans: "plans q (tracker_acquire M q)"
  by (simp add: tracker_acquire_def plans_emit plans_update)

lemma tracker_release_fields [simp]:
  "state (tracker_release M q) = state q"
  "in_flight_layers (tracker_release M q) = in_flight_layers q"
  "previous_plane_state (tracker_release M q) = previous_plane_state q"
  "kms_fence (tracker_release M q) = kms_fence q"
  "last_commit_failed_update (tracker_release M q) = last_commit_failed_update q"
  "calls (tracker_release M q) = calls q @ [Tracker_Release]"
  by (simp_all add: tracker_release_def)

lemma QueueUpdate_present:
  assumes "QueueUpdate P L M sources fence idle hc q = Some r" and "\<not> ignored M q"
  obtains r0 where "present P L M (build_frame L M sources idle hc (tracker_acquire M q)) = Some r0"
    and "returned r = returned r0" and "retire_fence_out r = retire_fence_out r0"
    and "source_layers_out r = source_layers_out r0"
    and "queue_out r = tracker_release M (queue_out r0)"
  using assms by (auto simp add: QueueUpdate_def split: option.splits)

lemma start_frame:
  "kept (queue (build_frame L M sources idle hc (tracker_acquire M q))) = kept q"
  "extends is_planning q (queue (build_frame L M sources idle hc (tracker_acquire M q)))"
proof -
  have "plans q (queue (build_frame L M sources idle hc (tracker_acquire M q)))"
    by (rule build_frame_plans) (rule tracker_acquire_plans)
  then show "kept (queue (build_frame L M sources idle hc (tracker_acquire M q))) = kept q"
    and "extends is_planning q (queue (build_frame L M sources idle hc (tracker_acquire M q)))"
    by (simp_all add: plans_kept plans_extends)
qed

lemma start_validate:
  "last_commit_failed_update q \<or> previous_plane_state q = [] \<Longrightarrow>
     validate_layers (build_frame L M sources idle hc (tracker_acquire M q))"
  by (rule build_frame_validate) (simp add: tracker_acquire_def)

lemma present_cases [consumes 1, case_names pa pb pc pd]:
  assumes "present P L M b0 = Some r"
  obtains "incremental P L M b0 = Return r"
  | b1 b2 where "incremental P L M b0 = Continue b1" "full_validation P M b1 = Some b2"
      "gpu_pass L M b2 = Return r"
  | b1 b2 b3 where "incremental P L M b0 = Continue b1" "full_validation P M b1 = Some b2"
      "gpu_pass L M b2 = Continue b3" "commit M b3 = Return r"
  | b1 b2 b3 f b4 where "incremental P L M b0 = Continue b1" "full_validation P M b1 = Some b2"
      "gpu_pass L M b2 = Continue b3" "commit M b3 = Continue (f, b4)"
      "post_commit P L M f b4 = Some r"
  using assms
  by (auto simp add: present_def split: flow.splits option.splits prod.splits)

lemma reach_gpu:
  assumes i: "incremental P L M b0 = Continue b1" and v: "full_validation P M b1 = Some b2"
  shows "source_layers b2 = source_layers b0" "retire_fence b2 = retire_fence b0"
    "in_flight_layers (queue b2) = in_flight_layers (queue b0)"
    "previous_plane_state (queue b2) = previous_plane_state (queue b0)"
    "kms_fence (queue b2) = kms_fence (queue b0)"
    "gamma (queue b2) = gamma (queue b0)" "contrast (queue b2) = contrast (queue b0)"
    "brightness (queue b2) = brightness (queue b0)"
    "color_transform_matrix (queue b2) = color_transform_matrix (queue b0)"
    "color_transform_hint (queue b2) = color_transform_hint (queue b0)"
    "state (queue b2) - {kConfigurationChanged} = state (queue b0) - {kConfigurationChanged}"
    "validate_layers b0 \<Longrightarrow> kConfigurationChanged \<notin> state (queue b2)"
    "extends is_planning (queue b0) (queue b2)"
proof -
  note k = keptD [OF plans_kept [OF incremental_Continue(1) [OF i]]]
  note f = full_validation_facts [OF v]
  note g = full_validation_fields [OF v]
  note h = incremental_Continue [OF i]
  show "source_layers b2 = source_layers b0" using g h by simp
  show "retire_fence b2 = retire_fence b0" using g h by simp
  show "in_flight_layers (queue b2) = in_flight_layers (queue b0)" using k f by simp
  show "previous_plane_state (queue b2) = previous_plane_state (queue b0)" using k f by simp
  show "kms_fence (queue b2) = kms_fence (queue b0)" using k f by simp
  show "gamma (queue b2) = gamma (queue b0)" using k f by simp
  show "contrast (queue b2) = contrast (queue b0)" using k f by simp
  show "brightness (queue b2) = brightness (queue b0)" using k f by simp
  show "color_transform_matrix (queue b2) = color_transform_matrix (queue b0)" using k f by simp
  show "color_transform_hint (queue b2) = color_transform_hint (queue b0)" using k f by simp
  show "state (queue b2) - {kConfigurationChanged} = state (queue b0) - {kConfigurationChanged}"
    using k(1) f(9) by auto
  show "kConfigurationChanged \<notin> state (queue b2)" if "validate_layers b0"
  proof -
    have "b1 = b0" using i that by simp
    then show ?thesis using f(9) that by simp
  qed
  show "extends is_planning (queue b0) (queue b2)"
    using extends_trans [OF plans_extends [OF h(1)] f(10)] .
qed

lemma reach_commit:
  assumes i: "incremental P L M b0 = Continue b1" and v: "full_validation P M b1 = Some b2"
    and g: "gpu_pass L M b2 = Continue b3"
  shows "source_layers b3 = source_layers b0" "retire_fence b3 = retire_fence b0"
    "in_flight_layers (queue b3) = in_flight_layers (queue b0)"
    "previous_plane_state (queue b3) = previous_plane_state (queue b0)"
    "kms_fence (queue b3) = kms_fence (queue b0)"
    "fence_wait M (queue b3) = fence_wait M (queue b0)"
    "color_calls (queue b3) = color_calls (queue b0)"
    "state (queue b3) - {kConfigurationChanged} = state (queue b0) - {kConfigurationChanged}"
    "validate_layers b0 \<Longrightarrow> kConfigurationChanged \<notin> state (queue b3)"
    "extends (\<lambda>e. is_planning e \<or> is_rendering e) (queue b0) (queue b3)"
proof -
  note a = reach_gpu [OF i v]
  note c = gpu_pass_Continue [OF g]
  note k = keptD [OF c(8)]
  show "source_layers b3 = source_layers b0" using a c by simp
  show "retire_fence b3 = retire_fence b0" using a c by simp
  show "in_flight_layers (queue b3) = in_flight_layers (queue b0)" using a k by simp
  show "previous_plane_state (queue b3) = previous_plane_state (queue b0)" using a k by simp
  show "kms_fence (queue b3) = kms_fence (queue b0)" using a k by simp
  then show "fence_wait M (queue b3) = fence_wait M (queue b0)" by (simp add: fence_wait_def)
  show s: "state (queue b3) - {kConfigurationChanged} = state (queue b0) - {kConfigurationChanged}"
    using a(11) k(1) by simp
  have "kNeedsColorCorrection \<in> state (queue b3) \<longleftrightarrow> kNeedsColorCorrection \<in> state (queue b0)"
    using s by auto
  then show "color_calls (queue b3) = color_calls (queue b0)"
    using a k by (simp add: color_calls_def)
  show "kConfigurationChanged \<notin> state (queue b3)" if "validate_layers b0"
    using a(12) [OF that] k(1) by simp
  have "extends (\<lambda>e. is_planning e \<or> is_rendering e) (queue b0) (queue b2)"
    by (rule extends_mono [OF a(13)]) simp
  moreover have "extends (\<lambda>e. is_planning e \<or> is_rendering e) (queue b2) (queue b3)"
    by (rule extends_mono [OF c(9)]) simp
  ultimately show "extends (\<lambda>e. is_planning e \<or> is_rendering e) (queue b0) (queue b3)"
    by (rule extends_trans)
qed

lemma QueueUpdate_cases [consumes 2, case_names skipped gpu_failed commit_failed committed]:
  assumes u: "QueueUpdate P L M sources fence idle hc q = Some r" and n: "\<not> ignored M q"
  obtains
    (skipped) pre where
      "calls (queue_out r) = calls q @ pre" "list_all is_planning pre" "returned r"
      "retire_fence_out r = - 1" "source_layers_out r = map (SetReleaseFence (- 1)) sources"
      "state (queue_out r) = state q" "previous_plane_state (queue_out r) = previous_plane_state q"
      "kms_fence (queue_out r) = kms_fence q"
      "in_flight_layers (queue_out r) = layers (build_frame L M sources idle hc (tracker_acquire M q))"
      "\<not> validate_layers (build_frame L M sources idle hc (tracker_acquire M q))"
  | (gpu_failed) pre where
      "calls (queue_out r) = calls q @ pre" "list_all (\<lambda>e. is_planning e \<or> is_gpu_pass e) pre"
      "list_ex is_failure pre" "\<not> returned r"
      "retire_fence_out r = - 1" "source_layers_out r = map (SetReleaseFence (- 1)) sources"
      "last_commit_failed_update (queue_out r)"
      "in_flight_layers (queue_out r) = in_flight_layers q"
      "previous_plane_state (queue_out r) = previous_plane_state q"
      "kms_fence (queue_out r) = kms_fence q"
  | (commit_failed) pre d f where
      "calls (queue_out r) =
         calls q @ pre @ fence_wait M q @ color_calls q @ [Display_Commit d False f, Tracker_Release]"
      "list_all (\<lambda>e. is_planning e \<or> is_rendering e) pre" "\<not> returned r"
      "retire_fence_out r = - 1" "source_layers_out r = map (SetReleaseFence (- 1)) sources"
      "last_commit_failed_update (queue_out r)"
      "in_flight_layers (queue_out r) = in_flight_layers q"
      "previous_plane_state (queue_out r) = previous_plane_state q"
      "kms_fence (queue_out r) =
         (if \<not> ENABLE_DOUBLE_BUFFERING M \<and> 0 < kms_fence q then 0 else kms_fence q)"
      "kNeedsColorCorrection \<notin> state (queue_out r)"
      "last_commit_failed_update q \<or> previous_plane_state q = [] \<Longrightarrow>
         kConfigurationChanged \<notin> state (queue_out r)"
  | (committed) pre d f post where
      "calls (queue_out r) =
         calls q @ pre @ fence_wait M q @ color_calls q @ [Display_Commit d True f] @ post"
      "list_all (\<lambda>e. is_planning e \<or> is_rendering e) pre"
      "list_all (\<lambda>e. is_planning e \<or> is_housekeeping e) post"
      "\<not> 0 < f \<Longrightarrow> list_all (\<lambda>e. \<not> is_fence_handout e) post"
      "returned r" "kNeedsColorCorrection \<notin> state (queue_out r)"
      "last_commit_failed_update q \<or> previous_plane_state q = [] \<Longrightarrow>
         kConfigurationChanged \<notin> state (queue_out r)"
      "0 < f \<Longrightarrow> kms_fence (queue_out r) = (if ENABLE_DOUBLE_BUFFERING M then 0 else f)"
      "\<not> 0 < f \<Longrightarrow> source_layers_out r = map (SetReleaseFence (- 1)) sources"
      "\<not> 0 < f \<Longrightarrow> retire_fence_out r = - 1"
      "\<not> 0 < f \<Longrightarrow> kms_fence (queue_out r) = 0 \<or> kms_fence (queue_out r) = kms_fence q"
      "kClonedMode \<in> state q \<Longrightarrow> retire_fence_out r = - 1"
proof -
  let ?b0 = "build_frame L M sources idle hc (tracker_acquire M q)"
  obtain r0 where p: "present P L M ?b0 = Some r0"
    and r: "returned r = returned r0" "retire_fence_out r = retire_fence_out r0"
      "source_layers_out r = source_layers_out r0" "queue_out r = tracker_release M (queue_out r0)"
    by (rule QueueUpdate_present [OF u n])
  note k0 = keptD [OF start_frame(1) [of L M sources idle hc q]]
  obtain ev0 where c0: "calls (queue ?b0) = calls q @ ev0" "list_all is_planning ev0"
    using start_frame(2) [of q L M sources idle hc] by (auto simp add: extends_def)
  have w0: "fence_wait M (queue ?b0) = fence_wait M q"
    using k0 by (simp add: fence_wait_def)
  have cc0: "color_calls (queue ?b0) = color_calls q"
    using k0 by (simp add: color_calls_def)
  have v0: "validate_layers ?b0" if "last_commit_failed_update q \<or> previous_plane_state q = []"
    using that by (rule start_validate)
  from p show thesis
  proof (cases rule: present_cases)
    case pa
    note s = incremental_Return [OF pa]
    obtain q1 where q1: "plans (queue ?b0) q1" "queue_out r0 = q1\<lparr>in_flight_layers := layers ?b0\<rparr>"
      using s(4) by blast
    note k1 = keptD [OF plans_kept [OF q1(1)]]
    obtain ev1 where c1: "calls q1 = calls (queue ?b0) @ ev1" "list_all is_planning ev1"
      using plans_extends [OF q1(1)] by (auto simp add: extends_def)
    have nv: "\<not> validate_layers ?b0"
      using pa by (auto simp add: incremental_def)
    show thesis
    proof (rule skipped [of "ev0 @ ev1 @ [Tracker_Release]"])
      show "calls (queue_out r) = calls q @ ev0 @ ev1 @ [Tracker_Release]"
        using r q1 c0 c1 by simp
      show "list_all is_planning (ev0 @ ev1 @ [Tracker_Release])"
        using c0 c1 by simp
      show "returned r" using r s by simp
      show "retire_fence_out r = - 1" using r s by simp
      show "source_layers_out r = map (SetReleaseFence (- 1)) sources" using r s by simp
      show "state (queue_out r) = state q" using r q1 k0 k1 by simp
      show "previous_plane_state (queue_out r) = previous_plane_state q" using r q1 k0 k1 by simp
      show "kms_fence (queue_out r) = kms_fence q" using r q1 k0 k1 by simp
      show "in_flight_layers (queue_out r) = layers ?b0" using r q1 by simp
      show "\<not> validate_layers ?b0" by (rule nv)
    qed
  next
    case (pb b1 b2)
    note a = reach_gpu [OF pb(1,2)]
    note g = gpu_pass_Return [OF pb(3)]
    obtain ev1 where c1: "calls (queue b2) = calls (queue ?b0) @ ev1" "list_all is_planning ev1"
      using a(13) by (auto simp add: extends_def)
    obtain ev2 where c2: "calls (queue_out r0) = calls (queue b2) @ ev2" "list_all is_gpu_pass ev2"
      "list_ex is_failure ev2"
      using g(9) by blast
    show thesis
    proof (rule gpu_failed [of "ev0 @ ev1 @ ev2 @ [Tracker_Release]"])
      show "calls (queue_out r) = calls q @ ev0 @ ev1 @ ev2 @ [Tracker_Release]"
        using r c0 c1 c2 by simp
      show "list_all (\<lambda>e. is_planning e \<or> is_gpu_pass e) (ev0 @ ev1 @ ev2 @ [Tracker_Release])"
        using c0 c1 c2 by (auto simp add: list_all_iff)
      show "list_ex is_failure (ev0 @ ev1 @ ev2 @ [Tracker_Release])"
        using c2 by simp
      show "\<not> returned r" using r g by simp
      show "retire_fence_out r = - 1" using r g a by simp
      show "source_layers_out r = map (SetReleaseFence (- 1)) sources" using r g a by simp
      show "last_commit_failed_update (queue_out r)" using r g by simp
      show "in_flight_layers (queue_out r) = in_flight_layers q" using r g a k0 by simp
      show "previous_plane_state (queue_out r) = previous_plane_state q" using r g a k0 by simp
      show "kms_fence (queue_out r) = kms_fence q" using r g a k0 by simp
    qed
  next
    case (pc b1 b2 b3)
    note a = reach_commit [OF pc(1,2,3)]
    obtain f where r0: "r0 = fail (b3\<lparr>queue := emit (Display_Commit (disable_ovelays b3) False f)
                                             (before_commit M (queue b3))\<rparr>)"
      using commit_Return [OF pc(4)] by blast
    obtain ev1 where c1: "calls (queue b3) = calls (queue ?b0) @ ev1"
      "list_all (\<lambda>e. is_planning e \<or> is_rendering e) ev1"
      using a(10) by (auto simp add: extends_def)
    show thesis
    proof (rule commit_failed [of "ev0 @ ev1" "disable_ovelays b3" f])
      show "calls (queue_out r) =
          calls q @ (ev0 @ ev1) @ fence_wait M q @ color_calls q @
          [Display_Commit (disable_ovelays b3) False f, Tracker_Release]"
        using r r0 c0 c1 a(6,7) w0 cc0 by simp
      show "list_all (\<lambda>e. is_planning e \<or> is_rendering e) (ev0 @ ev1)"
        using c0 c1 by (auto simp add: list_all_iff)
      show "\<not> returned r" using r r0 by simp
      show "retire_fence_out r = - 1" using r r0 a by simp
      show "source_layers_out r = map (SetReleaseFence (- 1)) sources" using r r0 a by simp
      show "last_commit_failed_update (queue_out r)" using r r0 by simp
      show "in_flight_layers (queue_out r) = in_flight_layers q" using r r0 a k0 by simp
      show "previous_plane_state (queue_out r) = previous_plane_state q" using r r0 a k0 by simp
      show "kms_fence (queue_out r) =
          (if \<not> ENABLE_DOUBLE_BUFFERING M \<and> 0 < kms_fence q then 0 else kms_fence q)"
        using r r0 a(5) k0 by simp
      show "kNeedsColorCorrection \<notin> state (queue_out r)" using r r0 by simp
      show "kConfigurationChanged \<notin> state (queue_out r)"
        if "last_commit_failed_update q \<or> previous_plane_state q = []"
        using a(9) [OF v0 [OF that]] r r0 by simp
    qed
  next
    case (pd b1 b2 b3 f b4)
    note a = reach_commit [OF pd(1,2,3)]
    have b4: "b4 = b3\<lparr>queue := emit (Display_Commit (disable_ovelays b3) True f)
                                  (before_commit M (queue b3))\<rparr>"
      by (rule commit_Continue [OF pd(4)])
    note c = post_commit_facts [OF pd(5)]
    obtain ev1 where c1: "calls (queue b3) = calls (queue ?b0) @ ev1"
      "list_all (\<lambda>e. is_planning e \<or> is_rendering e) ev1"
      using a(10) by (auto simp add: extends_def)
    obtain ev2 where c2: "calls (queue_out r0) = calls (queue b4) @ ev2" "list_all is_housekeeping ev2"
      using c(2) by (auto simp add: extends_def)
    have s4: "state (queue b4) = state (queue b3) - {kNeedsColorCorrection}"
      using b4 by simp
    have cl: "kClonedMode \<in> state (queue b4) \<longleftrightarrow> kClonedMode \<in> state q"
      using s4 a(8) k0(1) by auto
    show thesis
    proof (rule committed [of "ev0 @ ev1" "disable_ovelays b3" f "ev2 @ [Tracker_Release]"])
      show "calls (queue_out r) =
          calls q @ (ev0 @ ev1) @ fence_wait M q @ color_calls q @
          [Display_Commit (disable_ovelays b3) True f] @ ev2 @ [Tracker_Release]"
        using r b4 c0 c1 c2 a(6,7) w0 cc0 by simp
      show "list_all (\<lambda>e. is_planning e \<or> is_rendering e) (ev0 @ ev1)"
        using c0 c1 by (auto simp add: list_all_iff)
      show "list_all (\<lambda>e. is_planning e \<or> is_housekeeping e) (ev2 @ [Tracker_Release])"
        using c2 by (auto simp add: list_all_iff)
      show "list_all (\<lambda>e. \<not> is_fence_handout e) (ev2 @ [Tracker_Release])" if nf: "\<not> 0 < f"
      proof -
        obtain ev3 where "calls (queue_out r0) = calls (queue b4) @ ev3"
          "list_all (\<lambda>e. is_housekeeping e \<and> \<not> is_fence_handout e) ev3"
          using c(4) [OF nf] by (auto simp add: extends_def)
        then show ?thesis using c2 by (auto simp add: list_all_iff is_fence_handout_def)
      qed
      show "returned r" using r c by simp
      show "kNeedsColorCorrection \<notin> state (queue_out r)"
        using r c(3) s4 by auto
      show "kConfigurationChanged \<notin> state (queue_out r)"
        if "last_commit_failed_update q \<or> previous_plane_state q = []"
        using a(9) [OF v0 [OF that]] r c(3) s4 by auto
      show "kms_fence (queue_out r) = (if ENABLE_DOUBLE_BUFFERING M then 0 else f)" if "0 < f"
        using c(8) [OF that] r by simp
      show "source_layers_out r = map (SetReleaseFence (- 1)) sources" if "\<not> 0 < f"
        using c(5) [OF that] r b4 a by simp
      show "retire_fence_out r = - 1" if "\<not> 0 < f"
        using c(6) [OF that] r b4 a by simp
      show "kms_fence (queue_out r) = 0 \<or> kms_fence (queue_out r) = kms_fence q" if "\<not> 0 < f"
        using c(7) [OF that] r b4 a(5) k0 by auto
      show "retire_fence_out r = - 1" if "kClonedMode \<in> state q"
        using c(9) r b4 a cl that by simp
    qed
  qed
qed

subsection \<open>What a frame leaves in the log\<close>

lemma quiet_pre:
  "list_all (\<lambda>e. is_planning e \<or> is_rendering e) xs \<Longrightarrow>
     list_all (\<lambda>e. \<not> is_commit e \<and> \<not> is_failure e \<and> \<not> is_fence_handout e \<and> \<not> is_color_push e) xs"
  using planning_class rendering_class by (auto simp add: list_all_iff)

lemma quiet_gpu:
  "list_all (\<lambda>e. is_planning e \<or> is_gpu_pass e) xs \<Longrightarrow>
     list_all (\<lambda>e. \<not> is_commit e \<and> \<not> is_fence_handout e \<and> \<not> is_color_push e) xs"
proof -
  have "\<not> is_commit e \<and> \<not> is_fence_handout e \<and> \<not> is_color_push e" if "is_gpu_pass e" for e
    using that
    by (cases e) (simp_all add: is_gpu_pass_def is_commit_def is_fence_handout_def is_color_push_def)
  then show "list_all (\<lambda>e. is_planning e \<or> is_gpu_pass e) xs \<Longrightarrow>
     list_all (\<lambda>e. \<not> is_commit e \<and> \<not> is_fence_handout e \<and> \<not> is_color_push e) xs"
    using planning_class by (auto simp add: list_all_iff)
qed

lemma quiet_post:
  "list_all (\<lambda>e. is_planning e \<or> is_housekeeping e) xs \<Longrightarrow>
     list_all (\<lambda>e. \<not> is_commit e \<and> \<not> is_failure e \<and> \<not> is_color_push e \<and> \<not> is_gpu_pass e) xs"
  using planning_class housekeeping_class by (auto simp add: list_all_iff)

lemma quiet_wait:
  "list_all (\<lambda>e. \<not> is_commit e \<and> \<not> is_failure e \<and> \<not> is_fence_handout e \<and> \<not> is_color_push e \<and>
      \<not> is_gpu_pass e) (fence_wait M q)"
  by (simp add: fence_wait_def is_commit_def is_failure_def is_fence_handout_def is_color_push_def
      is_gpu_pass_def)

lemma quiet_color:
  "list_all (\<lambda>e. \<not> is_commit e \<and> \<not> is_failure e \<and> \<not> is_fence_handout e \<and> \<not> is_gpu_pass e)
     (color_calls q)"
  by (simp add: color_calls_def is_commit_def is_failure_def is_fence_handout_def is_gpu_pass_def)

lemma ignored_outcome:
  assumes "ignored M q"
  shows "QueueUpdate P L M sources fence idle hc q =
    Some \<lparr>returned = True, retire_fence_out = fence, source_layers_out = sources,
          queue_out = q\<lparr>idle_tracker := Tracker_dtor M (tracker_acquire M q),
                        calls := calls q @ [Tracker_Acquire, Tracker_Release]\<rparr>\<rparr>"
proof -
  have "tracker_release M (tracker_acquire M q) =
      q\<lparr>idle_tracker := Tracker_dtor M (tracker_acquire M q),
        calls := calls q @ [Tracker_Acquire, Tracker_Release]\<rparr>"
    by (rule DisplayQueue.equality) (simp_all add: tracker_release_def tracker_acquire_def)
  then show ?thesis
    using assms by (simp add: QueueUpdate_def)
qed

text \<open>C6 (as amended). When the tracker says IgnoreUpdate, as it does after IgnoreUpdates(), QueueUpdate returns true, leaves the caller's retire fence and the input layers as they were passed in (the function returns before it writes -1 to the retire fence), calls nothing but the constructor and the destructor of the scoped tracker, and leaves every data member alone, idle_tracker_ apart, which is what the destructor of the tracker makes of it.\<close>

theorem QueueUpdate_ignored:
  assumes "ignored M q"
  shows "\<exists>r. QueueUpdate P L M sources fence idle hc q = Some r \<and> returned r \<and>
           retire_fence_out r = fence \<and> source_layers_out r = sources \<and>
           new_events q (queue_out r) = [Tracker_Acquire, Tracker_Release] \<and>
           members (queue_out r) = members (q\<lparr>idle_tracker := Tracker_dtor M (tracker_acquire M q)\<rparr>)"
  using ignored_outcome [OF assms, of P L sources fence idle hc]
  by (simp add: new_events_def members_def)

text \<open>C1. Let QueueUpdate return. The log of the call has a GPU pass or a commit that failed exactly when the call returns false. When it returns false, last_commit_failed_update_ is set, in_flight_layers_ and previous_plane_state_ are as before the call, and the next frame that is built from the queue has validate_layers = true and goes to full validation, whatever its layers are.\<close>

theorem QueueUpdate_failure:
  assumes "QueueUpdate P L M sources fence idle hc q = Some r"
  shows "(list_ex is_failure (new_events q (queue_out r)) \<longleftrightarrow> \<not> returned r) \<and>
         (\<not> returned r \<longrightarrow>
            last_commit_failed_update (queue_out r) \<and>
            in_flight_layers (queue_out r) = in_flight_layers q \<and>
            previous_plane_state (queue_out r) = previous_plane_state q \<and>
            validate_layers (build_frame L M sources' idle' hc' (tracker_acquire M (queue_out r))) \<and>
            incremental P L M (build_frame L M sources' idle' hc' (tracker_acquire M (queue_out r))) =
              Continue (build_frame L M sources' idle' hc' (tracker_acquire M (queue_out r))))"
proof (cases "ignored M q")
  case True
  have "QueueUpdate P L M sources fence idle hc q =
      Some \<lparr>returned = True, retire_fence_out = fence, source_layers_out = sources,
            queue_out = q\<lparr>idle_tracker := Tracker_dtor M (tracker_acquire M q),
                          calls := calls q @ [Tracker_Acquire, Tracker_Release]\<rparr>\<rparr>"
    by (rule ignored_outcome [OF True])
  then have "returned r" and "new_events q (queue_out r) = [Tracker_Acquire, Tracker_Release]"
    using assms by (auto simp add: new_events_def)
  then show ?thesis
    by (simp add: is_failure_def)
next
  case False
  have next_frame: "validate_layers (build_frame L M sources' idle' hc' (tracker_acquire M (queue_out r))) \<and>
      incremental P L M (build_frame L M sources' idle' hc' (tracker_acquire M (queue_out r))) =
        Continue (build_frame L M sources' idle' hc' (tracker_acquire M (queue_out r)))"
    if f: "last_commit_failed_update (queue_out r)"
  proof -
    have "validate_layers (build_frame L M sources' idle' hc' (tracker_acquire M (queue_out r)))"
      by (rule start_validate) (simp add: f)
    then show ?thesis by simp
  qed
  from assms False show ?thesis
  proof (cases rule: QueueUpdate_cases)
    case (skipped pre)
    have e: "new_events q (queue_out r) = pre"
      using skipped(1) by (rule new_events_append)
    have "\<not> list_ex is_failure pre"
      using skipped(2) planning_class by (auto simp add: list_all_iff list_ex_iff)
    then show ?thesis
      using e skipped(3) by simp
  next
    case (gpu_failed pre)
    have e: "new_events q (queue_out r) = pre"
      using gpu_failed(1) by (rule new_events_append)
    show ?thesis
      using e gpu_failed(3,4,7,8,9) next_frame [OF gpu_failed(7)] by simp
  next
    case (commit_failed pre d f)
    have e: "new_events q (queue_out r) =
        pre @ fence_wait M q @ color_calls q @ [Display_Commit d False f, Tracker_Release]"
      using commit_failed(1) by (rule new_events_append)
    have "list_ex is_failure (new_events q (queue_out r))"
      unfolding e by (simp add: is_failure_def)
    then show ?thesis
      using commit_failed(3,6,7,8) next_frame [OF commit_failed(6)] by simp
  next
    case (committed pre d f post)
    have e: "new_events q (queue_out r) =
        pre @ fence_wait M q @ color_calls q @ [Display_Commit d True f] @ post"
      using committed(1) by (rule new_events_append)
    have "\<not> list_ex is_failure pre"
      using quiet_pre [OF committed(2)] by (auto simp add: list_all_iff list_ex_iff)
    moreover have "\<not> list_ex is_failure post"
      using quiet_post [OF committed(3)] by (auto simp add: list_all_iff list_ex_iff)
    moreover have "\<not> list_ex is_failure (fence_wait M q)"
      using quiet_wait [of M q] by (auto simp add: list_all_iff list_ex_iff)
    moreover have "\<not> list_ex is_failure (color_calls q)"
      using quiet_color [of q] by (auto simp add: list_all_iff list_ex_iff)
    ultimately have "\<not> list_ex is_failure (new_events q (queue_out r))"
      unfolding e by (simp add: is_failure_def)
    then show ?thesis
      using committed(5) by simp
  qed
qed

text \<open>C2. Let the update not be ignored, let the frame be on the incremental path (validate_layers is false after the layers are built), and let GetCachedLayers report can_ignore_commit without forcing full validation, with no layer added (add_index is not positive), no revalidation needed and no forced media composition. Then QueueUpdate returns true, the caller's retire fence is -1, in_flight_layers_ is the list of layers built for this frame, previous_plane_state_, kms_fence_ and the state word are unchanged, and the log of the call has no commit, no GPU pass, no fence hand-out and no colour setting.\<close>

theorem QueueUpdate_skip:
  assumes n: "\<not> ignored M q"
    and b0: "b0 = build_frame L M sources idle hc (tracker_acquire M q)"
    and v: "\<not> validate_layers b0"
    and c: "GetCachedLayers P L M (layers b0) (remove_index b0)
              \<lparr>plan = current_composition_planes b0, render_layers_out = render_layers b0,
               can_ignore_commit = False, needs_plane_validation = False,
               force_full_validation = validate_layers b0, cached_queue = queue b0\<rparr> = Some c"
    and ig: "can_ignore_commit c" and nf: "\<not> force_full_validation c"
    and np: "\<not> needs_plane_validation c"
    and na: "\<not> 0 < add_index b0" and nr: "\<not> re_validate_commit b0"
    and nm: "\<not> force_media_composition b0"
  shows "\<exists>r. QueueUpdate P L M sources fence idle hc q = Some r \<and> returned r \<and>
           retire_fence_out r = - 1 \<and>
           source_layers_out r = map (SetReleaseFence (- 1)) sources \<and>
           in_flight_layers (queue_out r) = layers b0 \<and>
           previous_plane_state (queue_out r) = previous_plane_state q \<and>
           kms_fence (queue_out r) = kms_fence q \<and> state (queue_out r) = state q \<and>
           list_all (\<lambda>e. \<not> is_commit e \<and> \<not> is_gpu_pass e \<and> \<not> is_fence_handout e \<and>
                        \<not> is_color_push e)
             (new_events q (queue_out r))"
proof -
  let ?b = "b0\<lparr>current_composition_planes := plan c, render_layers := render_layers_out c,
               validate_layers := force_full_validation c, queue := cached_queue c\<rparr>"
  let ?r0 = "leave True (?b\<lparr>queue := (queue ?b)\<lparr>in_flight_layers := layers ?b\<rparr>\<rparr>)"
  have pp: "patch_plan M c b0 = (can_ignore_commit c, ?b)"
    using na nr np by (rule patch_plan_skip)
  have inc: "incremental P L M b0 = Return ?r0"
    using v c pp ig nf nm by (simp add: incremental_def)
  then have "present P L M b0 = Some ?r0"
    by (simp add: present_def)
  then have u: "QueueUpdate P L M sources fence idle hc q =
      Some (?r0\<lparr>queue_out := tracker_release M (queue_out ?r0)\<rparr>)"
    using n b0 by (simp add: QueueUpdate_def)
  from u n show ?thesis
  proof (cases rule: QueueUpdate_cases)
    case (skipped pre)
    have e: "new_events q (queue_out (?r0\<lparr>queue_out := tracker_release M (queue_out ?r0)\<rparr>)) = pre"
      using skipped(1) by (rule new_events_append)
    have "list_all (\<lambda>e. \<not> is_commit e \<and> \<not> is_gpu_pass e \<and> \<not> is_fence_handout e \<and>
        \<not> is_color_push e) pre"
      using skipped(2) planning_class by (auto simp add: list_all_iff)
    then show ?thesis
      using u e skipped(3,4,5,6,7,8,9) b0 by simp
  next
    case (gpu_failed pre)
    then show ?thesis by simp
  next
    case (commit_failed pre d f)
    then show ?thesis by simp
  next
    case (committed pre d f post)
    have "list_ex is_commit (new_events q (queue_out (?r0\<lparr>queue_out := tracker_release M (queue_out ?r0)\<rparr>)))"
      using new_events_append [OF committed(1)] by (simp add: is_commit_def)
    moreover have "list_all is_planning (new_events q (queue_out (?r0\<lparr>queue_out := tracker_release M (queue_out ?r0)\<rparr>)))"
    proof -
      obtain q1 where q1: "plans (queue b0) q1" "queue_out ?r0 = q1\<lparr>in_flight_layers := layers b0\<rparr>"
        using incremental_Return(4) [OF inc] by blast
      obtain ev1 where c1: "calls q1 = calls (queue b0) @ ev1" "list_all is_planning ev1"
        using plans_extends [OF q1(1)] by (auto simp add: extends_def)
      obtain ev0 where c0: "calls (queue b0) = calls q @ ev0" "list_all is_planning ev0"
        using start_frame(2) [of q L M sources idle hc] b0 by (auto simp add: extends_def)
      have "calls (tracker_release M (queue_out ?r0)) = calls q @ ev0 @ ev1 @ [Tracker_Release]"
        using q1(2) c0 c1 by simp
      then have "new_events q (tracker_release M (queue_out ?r0)) = ev0 @ ev1 @ [Tracker_Release]"
        by (rule new_events_append)
      then show ?thesis using c0 c1 by simp
    qed
    ultimately have False
      using planning_class by (auto simp add: list_all_iff list_ex_iff)
    then show ?thesis ..
  qed
qed


lemma video_effects_indices [simp]:
  "remove_index (video_effects b) = remove_index b" "add_index (video_effects b) = add_index b"
  by (simp_all add: video_effects_def Let_def)




lemma SetPowerMode_On_fields:
  "state (snd (SetPowerMode M kOn q)) =
     (state q \<union> {kPoweredOn, kConfigurationChanged, kNeedsColorCorrection}) - {kIgnoreIdleRefresh}"
  "calls (snd (SetPowerMode M kOn q)) =
     calls q @ [Vblank_SetPowerMode kOn, Lock power_mode_lock,
                Compositor_Init (GetGpuFd M (calls q @ [Vblank_SetPowerMode kOn, Lock power_mode_lock])),
                Unlock power_mode_lock]"
  "gamma (snd (SetPowerMode M kOn q)) = gamma q" "contrast (snd (SetPowerMode M kOn q)) = contrast q"
  "brightness (snd (SetPowerMode M kOn q)) = brightness q"
  "color_transform_matrix (snd (SetPowerMode M kOn q)) = color_transform_matrix q"
  "color_transform_hint (snd (SetPowerMode M kOn q)) = color_transform_hint q"
  "previous_plane_state (snd (SetPowerMode M kOn q)) = previous_plane_state q"
  "last_commit_failed_update (snd (SetPowerMode M kOn q)) = last_commit_failed_update q"
  by (simp_all add: SetPowerMode_def Let_def)

lemma commit_pushes_color:
  assumes u: "QueueUpdate P L M sources fence idle hc q = Some r"
    and k: "list_ex is_commit (new_events q (queue_out r))"
    and s: "kNeedsColorCorrection \<in> state q"
  shows "(\<exists>pre d ok f post.
            new_events q (queue_out r) =
              pre @ [Display_SetColorCorrection (gamma q) (contrast q) (brightness q),
                     Display_SetColorTransformMatrix (color_transform_matrix q) (color_transform_hint q),
                     Display_Commit d ok f] @ post \<and>
            (ok \<longleftrightarrow> returned r) \<and> \<not> list_ex is_commit pre \<and> \<not> list_ex is_color_push pre \<and>
            \<not> list_ex is_commit post \<and> \<not> list_ex is_color_push post) \<and>
         kNeedsColorCorrection \<notin> state (queue_out r) \<and>
         (previous_plane_state q = [] \<or> last_commit_failed_update q \<longrightarrow>
            kConfigurationChanged \<notin> state (queue_out r))"
proof (cases "ignored M q")
  case True
  have "QueueUpdate P L M sources fence idle hc q =
      Some \<lparr>returned = True, retire_fence_out = fence, source_layers_out = sources,
            queue_out = q\<lparr>idle_tracker := Tracker_dtor M (tracker_acquire M q),
                          calls := calls q @ [Tracker_Acquire, Tracker_Release]\<rparr>\<rparr>"
    by (rule ignored_outcome [OF True])
  then have "new_events q (queue_out r) = [Tracker_Acquire, Tracker_Release]"
    using u by (auto simp add: new_events_def)
  then show ?thesis
    using k by (simp add: is_commit_def)
next
  case False
  have cc: "color_calls q =
      [Display_SetColorCorrection (gamma q) (contrast q) (brightness q),
       Display_SetColorTransformMatrix (color_transform_matrix q) (color_transform_hint q)]"
    using s by (simp add: color_calls_def)
  from u False show ?thesis
  proof (cases rule: QueueUpdate_cases)
    case (skipped pre)
    have "new_events q (queue_out r) = pre"
      using skipped(1) by (rule new_events_append)
    then have False
      using k skipped(2) planning_class by (auto simp add: list_all_iff list_ex_iff)
    then show ?thesis ..
  next
    case (gpu_failed pre)
    have "new_events q (queue_out r) = pre"
      using gpu_failed(1) by (rule new_events_append)
    then have False
      using k quiet_gpu [OF gpu_failed(2)] by (auto simp add: list_all_iff list_ex_iff)
    then show ?thesis ..
  next
    case (commit_failed pre d f)
    have e: "new_events q (queue_out r) =
        (pre @ fence_wait M q) @
        [Display_SetColorCorrection (gamma q) (contrast q) (brightness q),
         Display_SetColorTransformMatrix (color_transform_matrix q) (color_transform_hint q),
         Display_Commit d False f] @ [Tracker_Release]"
      using new_events_append [OF commit_failed(1)] cc by simp
    have a: "\<not> list_ex is_commit (pre @ fence_wait M q)"
      "\<not> list_ex is_color_push (pre @ fence_wait M q)"
      using quiet_pre [OF commit_failed(2)] quiet_wait [of M q]
      by (auto simp add: list_all_iff list_ex_iff)
    have b: "\<not> list_ex is_commit [Tracker_Release]" "\<not> list_ex is_color_push [Tracker_Release]"
      by (simp_all add: is_commit_def is_color_push_def)
    have "\<exists>pre d ok f post.
            new_events q (queue_out r) =
              pre @ [Display_SetColorCorrection (gamma q) (contrast q) (brightness q),
                     Display_SetColorTransformMatrix (color_transform_matrix q) (color_transform_hint q),
                     Display_Commit d ok f] @ post \<and>
            (ok \<longleftrightarrow> returned r) \<and> \<not> list_ex is_commit pre \<and> \<not> list_ex is_color_push pre \<and>
            \<not> list_ex is_commit post \<and> \<not> list_ex is_color_push post"
      using e a b commit_failed(3) by blast
    then show ?thesis
      using commit_failed(10,11) by blast
  next
    case (committed pre d f post)
    have e: "new_events q (queue_out r) =
        (pre @ fence_wait M q) @
        [Display_SetColorCorrection (gamma q) (contrast q) (brightness q),
         Display_SetColorTransformMatrix (color_transform_matrix q) (color_transform_hint q),
         Display_Commit d True f] @ post"
      using new_events_append [OF committed(1)] cc by simp
    have a: "\<not> list_ex is_commit (pre @ fence_wait M q)"
      "\<not> list_ex is_color_push (pre @ fence_wait M q)"
      using quiet_pre [OF committed(2)] quiet_wait [of M q]
      by (auto simp add: list_all_iff list_ex_iff)
    have b: "\<not> list_ex is_commit post" "\<not> list_ex is_color_push post"
      using quiet_post [OF committed(3)] by (auto simp add: list_all_iff list_ex_iff)
    have "\<exists>pre d ok f post.
            new_events q (queue_out r) =
              pre @ [Display_SetColorCorrection (gamma q) (contrast q) (brightness q),
                     Display_SetColorTransformMatrix (color_transform_matrix q) (color_transform_hint q),
                     Display_Commit d ok f] @ post \<and>
            (ok \<longleftrightarrow> returned r) \<and> \<not> list_ex is_commit pre \<and> \<not> list_ex is_color_push pre \<and>
            \<not> list_ex is_commit post \<and> \<not> list_ex is_color_push post"
      using e a b committed(5) by blast
    then show ?thesis
      using committed(6,7) by blast
  qed
qed

lemma no_commit_keeps_state:
  assumes u: "QueueUpdate P L M sources fence idle hc q = Some r"
    and s: "returned r" and k: "\<not> list_ex is_commit (new_events q (queue_out r))"
  shows "state (queue_out r) = state q"
proof (cases "ignored M q")
  case True
  have "QueueUpdate P L M sources fence idle hc q =
      Some \<lparr>returned = True, retire_fence_out = fence, source_layers_out = sources,
            queue_out = q\<lparr>idle_tracker := Tracker_dtor M (tracker_acquire M q),
                          calls := calls q @ [Tracker_Acquire, Tracker_Release]\<rparr>\<rparr>"
    by (rule ignored_outcome [OF True])
  then show ?thesis
    using u by auto
next
  case False
  from u False show ?thesis
  proof (cases rule: QueueUpdate_cases)
    case (skipped pre)
    then show ?thesis by simp
  next
    case (gpu_failed pre)
    then show ?thesis using s by simp
  next
    case (commit_failed pre d f)
    then show ?thesis using s by simp
  next
    case (committed pre d f post)
    have "list_ex is_commit (new_events q (queue_out r))"
      using new_events_append [OF committed(1)] by (simp add: is_commit_def)
    then show ?thesis using k by simp
  qed
qed

text \<open>C9 (as amended). SetPowerMode(On) sets PoweredOn, ConfigurationChanged and NeedsColorCorrection, clears IgnoreIdleRefresh, and calls the vblank handler and, between taking and releasing the power-mode lock, the compositor. A QueueUpdate after it that reaches the commit calls SetColorCorrection with gamma, contrast and brightness and SetColorTransformMatrix right before the one commit of the call, and clears NeedsColorCorrection; it clears ConfigurationChanged when previous_plane_state_ is empty (as after SetPowerMode(Off)) or the last commit had failed, that is, when the frame goes through full validation. A QueueUpdate that returns true without a commit leaves the state word as it is.\<close>

theorem SetPowerMode_On:
  "state (snd (SetPowerMode M kOn q)) =
     (state q \<union> {kPoweredOn, kConfigurationChanged, kNeedsColorCorrection}) - {kIgnoreIdleRefresh} \<and>
   new_events q (snd (SetPowerMode M kOn q)) =
     [Vblank_SetPowerMode kOn, Lock power_mode_lock,
      Compositor_Init (GetGpuFd M (calls q @ [Vblank_SetPowerMode kOn, Lock power_mode_lock])),
      Unlock power_mode_lock] \<and>
   (QueueUpdate P L M sources fence idle hc (snd (SetPowerMode M kOn q)) = Some r \<and>
    list_ex is_commit (new_events (snd (SetPowerMode M kOn q)) (queue_out r)) \<longrightarrow>
      (\<exists>pre d ok f post.
          new_events (snd (SetPowerMode M kOn q)) (queue_out r) =
            pre @ [Display_SetColorCorrection (gamma q) (contrast q) (brightness q),
                   Display_SetColorTransformMatrix (color_transform_matrix q) (color_transform_hint q),
                   Display_Commit d ok f] @ post \<and>
          (ok \<longleftrightarrow> returned r) \<and> \<not> list_ex is_commit pre \<and> \<not> list_ex is_color_push pre \<and>
          \<not> list_ex is_commit post \<and> \<not> list_ex is_color_push post) \<and>
      kNeedsColorCorrection \<notin> state (queue_out r) \<and>
      (previous_plane_state q = [] \<or> last_commit_failed_update q \<longrightarrow>
         kConfigurationChanged \<notin> state (queue_out r))) \<and>
   (QueueUpdate P L M sources fence idle hc (snd (SetPowerMode M kOn q)) = Some r \<and> returned r \<and>
    \<not> list_ex is_commit (new_events (snd (SetPowerMode M kOn q)) (queue_out r)) \<longrightarrow>
      state (queue_out r) = state (snd (SetPowerMode M kOn q)))"
proof -
  let ?q = "snd (SetPowerMode M kOn q)"
  have s: "kNeedsColorCorrection \<in> state ?q"
    by (simp add: SetPowerMode_On_fields)
  have e: "new_events q ?q =
     [Vblank_SetPowerMode kOn, Lock power_mode_lock,
      Compositor_Init (GetGpuFd M (calls q @ [Vblank_SetPowerMode kOn, Lock power_mode_lock])),
      Unlock power_mode_lock]"
    by (rule new_events_append) (rule SetPowerMode_On_fields(2))
  have a: "state ?q =
      (state q \<union> {kPoweredOn, kConfigurationChanged, kNeedsColorCorrection}) - {kIgnoreIdleRefresh}"
    by (rule SetPowerMode_On_fields(1))
  have b: "(\<exists>pre d ok f post.
          new_events ?q (queue_out r) =
            pre @ [Display_SetColorCorrection (gamma q) (contrast q) (brightness q),
                   Display_SetColorTransformMatrix (color_transform_matrix q) (color_transform_hint q),
                   Display_Commit d ok f] @ post \<and>
          (ok \<longleftrightarrow> returned r) \<and> \<not> list_ex is_commit pre \<and> \<not> list_ex is_color_push pre \<and>
          \<not> list_ex is_commit post \<and> \<not> list_ex is_color_push post) \<and>
      kNeedsColorCorrection \<notin> state (queue_out r) \<and>
      (previous_plane_state q = [] \<or> last_commit_failed_update q \<longrightarrow>
         kConfigurationChanged \<notin> state (queue_out r))"
    if "QueueUpdate P L M sources fence idle hc ?q = Some r"
      "list_ex is_commit (new_events ?q (queue_out r))"
    using commit_pushes_color [OF that s] by (simp add: SetPowerMode_On_fields)
  have c: "state (queue_out r) = state ?q"
    if "QueueUpdate P L M sources fence idle hc ?q = Some r" "returned r"
      "\<not> list_ex is_commit (new_events ?q (queue_out r))"
    using that by (rule no_commit_keeps_state)
  show ?thesis
    using a e b c by blast
qed




lemma no_commit_wait [simp]: "Display_Commit d ok f \<notin> set (fence_wait M q)"
  by (simp add: fence_wait_def)

lemma no_commit_color [simp]: "Display_Commit d ok f \<notin> set (color_calls q)"
  by (simp add: color_calls_def)







subsection \<open>The sample display at work\<close>

lemmas frame_defs = build_frame_def enter_frame_def settle_frame_def settle_diff_def settle_indices_def
  video_effects_def visit_layer_def diff_layer_def note_layer_def make_layer_def kind_changed_def
  FrameHasCursor_def tracker_acquire_def tracker_release_def ignored_def

lemmas cache_defs = GetCachedLayers_def remove_layers_def scan_layer_def refresh_offscreen_def
  scanout_layer_def refresh_scanout_def cache_plane_def squash_def size_t_of_int_def
  call_MarkSurfacesForRecycling_def call_SetOffScreenPlaneTarget_def

lemmas present_defs = QueueUpdate_def present_def incremental_def patch_plan_def slot_new_layers_def
  revalidate_planes_def call_ValidateLayers_def validate_all_def clear_configuration_changed_def
  full_validation_def fail_def gpu_pass_def wait_kms_fence_def color_correction_def before_commit_def
  commit_def mark_surfaces_not_inuse_def swap_surfaces_not_inuse_def call_dup_def fence_plane_def
  SetReleaseFenceToLayers_def swap_frame_def release_after_commit_def publish_def hand_out_fences_def
  finish_frame_def post_commit_def leave_def apply_media_effects_def media_plane_def
  UpdateOnScreenSurfaces_def age_plane_def ReleaseSurfaces_def ReleaseSurfacesAsNeeded_def
  set_tracker_state_def

lemmas sample_defs = sample_services_def sample_layers_def sample_planes_def sample_steady_def
  sample_queue_def sample_source_def sample_shown_def sample_plan_def sample_init_def

lemmas run_defs = frame_defs cache_defs present_defs sample_defs emit_def at_def Let_def
  SetReleaseFence_def int_of_unsigned_def

text \<open>C1 at a frame with a new buffer whose commit the display refuses.\<close>

theorem QueueUpdate_failure_witness:
  "\<exists>r. QueueUpdate sample_planes sample_layers (sample_services (False, 0)) [sample_source 41] (- 1)
          False False sample_steady = Some r \<and>
       list_ex is_failure (new_events sample_steady (queue_out r)) \<and> \<not> returned r \<and>
       last_commit_failed_update (queue_out r) \<and>
       in_flight_layers (queue_out r) = in_flight_layers sample_steady \<and>
       previous_plane_state (queue_out r) = previous_plane_state sample_steady \<and>
       validate_layers (build_frame sample_layers (sample_services (False, 0)) [sample_source 42] False
         False (tracker_acquire (sample_services (False, 0)) (queue_out r)))"
proof -
  obtain r where e: "QueueUpdate sample_planes sample_layers (sample_services (False, 0))
      [sample_source 41] (- 1) False False sample_steady = Some r" and f: "\<not> returned r"
    by (simp add: run_defs)
  show ?thesis
    using QueueUpdate_failure [OF e, where sources' = "[sample_source 42]" and idle' = False
        and hc' = False]
    by (intro exI [of _ r]) (simp add: e f)
qed

text \<open>C6 as stated fails for the retire fence: the caller passes 7, the update is ignored, and the caller still has 7, not -1.\<close>

theorem retire_fence_counterexample:
  "\<exists>r. QueueUpdate sample_planes sample_layers (sample_services (True, 9)) [sample_source 40] 7 False
          False (IgnoreUpdates sample_queue) = Some r \<and>
       returned r \<and> retire_fence_out r = 7"
  by (simp add: run_defs IgnoreUpdates_def)

text \<open>C6 at the sample queue after IgnoreUpdates(), with a caller that passes -1.\<close>

theorem QueueUpdate_ignored_witness:
  "ignored (sample_services (True, 9)) (IgnoreUpdates sample_queue) \<and>
   (\<exists>r. QueueUpdate sample_planes sample_layers (sample_services (True, 9)) [sample_source 40] (- 1)
          False False (IgnoreUpdates sample_queue) = Some r \<and>
        returned r \<and> retire_fence_out r = - 1 \<and> source_layers_out r = [sample_source 40] \<and>
        new_events (IgnoreUpdates sample_queue) (queue_out r) = [Tracker_Acquire, Tracker_Release] \<and>
        members (queue_out r) = members (IgnoreUpdates sample_queue))"
proof -
  have h: "ignored (sample_services (True, 9)) (IgnoreUpdates sample_queue)"
    by (simp add: ignored_def tracker_acquire_def emit_def IgnoreUpdates_def sample_services_def)
  have t: "(IgnoreUpdates sample_queue)
      \<lparr>idle_tracker := Tracker_dtor (sample_services (True, 9))
         (tracker_acquire (sample_services (True, 9)) (IgnoreUpdates sample_queue))\<rparr> =
      IgnoreUpdates sample_queue"
    by (simp add: tracker_acquire_def emit_def sample_services_def)
  show ?thesis
    using QueueUpdate_ignored [OF h, of sample_planes sample_layers "[sample_source 40]" "- 1" False False]
      h t
    by simp
qed


text \<open>C2 at the steady state: the frame shows the buffer that is already in flight, and the call returns without a commit.\<close>

theorem QueueUpdate_skip_witness:
  "\<not> ignored (sample_services (True, 9)) sample_steady \<and>
   \<not> validate_layers (build_frame sample_layers (sample_services (True, 9)) [sample_source 40] False
        False (tracker_acquire (sample_services (True, 9)) sample_steady)) \<and>
   layers (build_frame sample_layers (sample_services (True, 9)) [sample_source 40] False
        False (tracker_acquire (sample_services (True, 9)) sample_steady)) =
     [sample_shown\<lparr>sl_changed := False\<rparr>] \<and>
   (\<exists>r. QueueUpdate sample_planes sample_layers (sample_services (True, 9)) [sample_source 40] (- 1)
          False False sample_steady = Some r \<and>
        returned r \<and> retire_fence_out r = - 1 \<and>
        source_layers_out r = map (SetReleaseFence (- 1)) [sample_source 40] \<and>
        in_flight_layers (queue_out r) =
          layers (build_frame sample_layers (sample_services (True, 9)) [sample_source 40] False
            False (tracker_acquire (sample_services (True, 9)) sample_steady)) \<and>
        previous_plane_state (queue_out r) = previous_plane_state sample_steady \<and>
        kms_fence (queue_out r) = kms_fence sample_steady \<and>
        state (queue_out r) = state sample_steady \<and>
        list_all (\<lambda>e. \<not> is_commit e \<and> \<not> is_gpu_pass e \<and> \<not> is_fence_handout e \<and> \<not> is_color_push e)
          (new_events sample_steady (queue_out r)))"
proof -
  let ?M = "sample_services (True, 9)"
  let ?b0 = "build_frame sample_layers ?M [sample_source 40] False False (tracker_acquire ?M sample_steady)"
  have n: "\<not> ignored ?M sample_steady"
    by (simp add: run_defs)
  have v: "\<not> validate_layers ?b0"
    by (simp add: run_defs)
  obtain c where c: "GetCachedLayers sample_planes sample_layers ?M (layers ?b0) (remove_index ?b0)
              \<lparr>plan = current_composition_planes ?b0, render_layers_out = render_layers ?b0,
               can_ignore_commit = False, needs_plane_validation = False,
               force_full_validation = validate_layers ?b0, cached_queue = queue ?b0\<rparr> = Some c"
    and ig: "can_ignore_commit c" and nf: "\<not> force_full_validation c"
    and np: "\<not> needs_plane_validation c"
    by (simp add: run_defs)
  have na: "\<not> 0 < add_index ?b0" and nr: "\<not> re_validate_commit ?b0"
    and nm: "\<not> force_media_composition ?b0"
    by (simp_all add: run_defs)
  have l: "layers ?b0 = [sample_shown\<lparr>sl_changed := False\<rparr>]"
    by (simp add: run_defs)
  show ?thesis
    using n v l QueueUpdate_skip [OF n refl v c ig nf np na nr nm, of "- 1"]
    by (intro conjI) assumption+
qed

text \<open>C9 as stated fails for ConfigurationChanged: after SetPowerMode(On) on a display that shows a frame, the next frame with a new buffer is on the incremental path, it is committed and the call returns true, and ConfigurationChanged is still set.\<close>

theorem configuration_changed_counterexample:
  "\<exists>r. QueueUpdate sample_planes sample_layers (sample_services (True, 9)) [sample_source 41] (- 1)
          False False (snd (SetPowerMode (sample_services (True, 9)) kOn sample_steady)) = Some r \<and>
       returned r \<and>
       list_ex is_commit
         (new_events (snd (SetPowerMode (sample_services (True, 9)) kOn sample_steady)) (queue_out r)) \<and>
       kConfigurationChanged \<in> state (queue_out r)"
  by (simp add: run_defs SetPowerMode_def new_events_def is_commit_def)

text \<open>C9 at SetPowerMode(Off), SetPowerMode(On) and a frame: the colour settings go to the display before the commit and both bits are clear after it.\<close>

theorem SetPowerMode_On_witness:
  "previous_plane_state (snd (SetPowerMode (sample_services (True, 9)) kOff sample_steady)) = [] \<and>
   (\<exists>r. QueueUpdate sample_planes sample_layers (sample_services (True, 9)) [sample_source 40] (- 1)
          False False
          (snd (SetPowerMode (sample_services (True, 9)) kOn
             (snd (SetPowerMode (sample_services (True, 9)) kOff sample_steady)))) = Some r \<and>
       list_ex is_commit
         (new_events
            (snd (SetPowerMode (sample_services (True, 9)) kOn
               (snd (SetPowerMode (sample_services (True, 9)) kOff sample_steady))))
            (queue_out r)) \<and>
       returned r \<and>
       filter is_color_push
         (new_events
            (snd (SetPowerMode (sample_services (True, 9)) kOn
               (snd (SetPowerMode (sample_services (True, 9)) kOff sample_steady))))
            (queue_out r)) =
         [Display_SetColorCorrection (1, 1, 1) 8421504 8421504,
          Display_SetColorTransformMatrix [] kIdentical] \<and>
       kNeedsColorCorrection \<notin> state (queue_out r) \<and>
       kConfigurationChanged \<notin> state (queue_out r))"
proof -
  let ?M = "sample_services (True, 9)"
  let ?off = "snd (SetPowerMode ?M kOff sample_steady)"
  let ?q = "snd (SetPowerMode ?M kOn ?off)"
  have p: "previous_plane_state ?off = []"
    by (simp add: SetPowerMode_def HandleExit_def ResetQueue_def Let_def emit_def)
  obtain r where e: "QueueUpdate sample_planes sample_layers ?M [sample_source 40] (- 1) False False ?q =
      Some r"
    and k: "list_ex is_commit (new_events ?q (queue_out r))" and s: "returned r"
    and f: "filter is_color_push (new_events ?q (queue_out r)) =
         [Display_SetColorCorrection (1, 1, 1) 8421504 8421504,
          Display_SetColorTransformMatrix [] kIdentical]"
    by (simp add: run_defs SetPowerMode_def HandleExit_def ResetQueue_def new_events_def
        is_commit_def is_color_push_def)
  have "kNeedsColorCorrection \<notin> state (queue_out r) \<and> kConfigurationChanged \<notin> state (queue_out r)"
    using SetPowerMode_On [of ?M ?off sample_planes sample_layers "[sample_source 40]" "- 1" False
        False r]
    by (simp add: e k p)
  then show ?thesis
    using p e k s f by (intro conjI exI [of _ r]) simp_all
qed



end
